theory Spec2Isabelle
  imports Complex_Main "HOL-Library.AList"
begin

section \<open>JavaScript strings\<close>

text \<open>
  A JavaScript string is modelled as a \<^typ>\<open>string\<close>: a list of code units, each below
  256 (the Latin-1 range of UTF-16). The string operations the sources call are embedded
  here with their ECMAScript meaning on that range.
\<close>

text \<open>
  \<open>String.prototype.trim\<close> removes WhiteSpace and LineTerminator code points from both
  ends; below 256 these are TAB, LF, VT, FF, CR, SPACE and NBSP.
\<close>

definition isWhiteSpace :: "char \<Rightarrow> bool" where
  "isWhiteSpace c \<longleftrightarrow> (of_char c :: nat) \<in> {0x09, 0x0A, 0x0B, 0x0C, 0x0D, 0x20, 0xA0}"

definition js_trim :: "string \<Rightarrow> string" where
  "js_trim s = rev (dropWhile isWhiteSpace (rev (dropWhile isWhiteSpace s)))"

text \<open>
  \<open>s.split(c)\<close> for a one-character separator: the pieces between the occurrences of
  \<open>c\<close>; the result is never empty (\<open>''.split(c)\<close> is \<open>['']\<close>).
\<close>

fun js_split :: "char \<Rightarrow> string \<Rightarrow> string list" where
  "js_split c [] = [[]]"
| "js_split c (x # xs) =
     (if x = c then [] # js_split c xs
      else (case js_split c xs of
              [] \<Rightarrow> [[x]]
            | w # ws \<Rightarrow> (x # w) # ws))"

text \<open>\<open>parts.join(sep)\<close>.\<close>

fun js_join :: "string \<Rightarrow> string list \<Rightarrow> string" where
  "js_join sep [] = []"
| "js_join sep [p] = p"
| "js_join sep (p # q # ps) = p @ sep @ js_join sep (q # ps)"

text \<open>\<open>s.includes(sub)\<close>: \<open>sub\<close> occurs in \<open>s\<close> as a contiguous substring.\<close>

fun js_includes :: "string \<Rightarrow> string \<Rightarrow> bool" where
  "js_includes [] sub \<longleftrightarrow> sub = []"
| "js_includes (x # xs) sub \<longleftrightarrow> take (length sub) (x # xs) = sub \<or> js_includes xs sub"

text \<open>
  \<open>parseInt(s)\<close> with no radix: leading white space is skipped, then an optional sign, then
  an optional \<open>0x\<close>/\<open>0X\<close> prefix that selects radix 16, then the longest run of digits of the
  radix. No digit gives NaN, modelled as \<open>None\<close>. The result is kept as an exact integer:
  the source only compares it with 0, 1 and 2 by \<open>===\<close>, for which the rounding to a double
  makes no difference, and \<open>-0 === 0\<close> holds.
\<close>

definition digitTable :: "(char \<times> nat) list" where
  "digitTable =
     [(CHR ''0'', 0), (CHR ''1'', 1), (CHR ''2'', 2), (CHR ''3'', 3), (CHR ''4'', 4),
      (CHR ''5'', 5), (CHR ''6'', 6), (CHR ''7'', 7), (CHR ''8'', 8), (CHR ''9'', 9),
      (CHR ''a'', 10), (CHR ''b'', 11), (CHR ''c'', 12), (CHR ''d'', 13), (CHR ''e'', 14),
      (CHR ''f'', 15),
      (CHR ''A'', 10), (CHR ''B'', 11), (CHR ''C'', 12), (CHR ''D'', 13), (CHR ''E'', 14),
      (CHR ''F'', 15)]"

definition digitValue :: "nat \<Rightarrow> char \<Rightarrow> nat option" where
  "digitValue radix c =
     (case map_of digitTable c of
        None \<Rightarrow> None
      | Some d \<Rightarrow> if d < radix then Some d else None)"

fun leadingDigits :: "nat \<Rightarrow> string \<Rightarrow> nat list" where
  "leadingDigits radix [] = []"
| "leadingDigits radix (c # cs) =
     (case digitValue radix c of
        None \<Rightarrow> []
      | Some d \<Rightarrow> d # leadingDigits radix cs)"

definition parseInt :: "string \<Rightarrow> int option" where
  "parseInt input =
     (let s = dropWhile isWhiteSpace input;
          neg = (take 1 s = ''-'');
          s1 = (if take 1 s = ''-'' \<or> take 1 s = ''+'' then drop 1 s else s);
          hex = (take 2 s1 = ''0x'' \<or> take 2 s1 = ''0X'');
          radix = (if hex then 16 else 10);
          s2 = (if hex then drop 2 s1 else s1);
          ds = leadingDigits radix s2
      in if ds = [] then None
         else Some ((if neg then - 1 else 1) * int (foldl (\<lambda>a d. a * radix + d) 0 ds)))"

section \<open>The GEDCOM parser \<open>parseGedcom\<close>\<close>

text \<open>
  The interfaces of the parser. A field declared optional (\<open>date?: string\<close>) is an
  \<open>option\<close>, with \<open>None\<close> for \<open>undefined\<close>. The fields carry a prefix because record
  fields share one name space: \<open>ind_\<close> for \<open>GedcomIndividual\<close>, \<open>ev_\<close> for \<open>GedcomEvent\<close>,
  \<open>fam_\<close> for \<open>GedcomFamily\<close>.
\<close>

record GedcomEvent =
  ev_type :: string
  ev_date :: "string option"
  ev_place :: "string option"
  ev_description :: "string option"

record GedcomIndividual =
  ind_id :: string
  ind_name :: string
  ind_birthDate :: "string option"
  ind_deathDate :: "string option"
  ind_birthPlace :: "string option"
  ind_deathPlace :: "string option"
  ind_notes :: "string option"
  ind_events :: "GedcomEvent list"

record GedcomFamily =
  fam_id :: string
  fam_husband :: "string option"
  fam_wife :: "string option"
  fam_children :: "string list"
  fam_marriageDate :: "string option"
  fam_marriagePlace :: "string option"

record ParsedGedcomData =
  individuals :: "GedcomIndividual list"
  families :: "GedcomFamily list"
  events :: "GedcomEvent list"

datatype ctx = individual | family

text \<open>
  The local variables of \<open>parseGedcom\<close>: the three output arrays and the four
  \<open>current...\<close> variables, \<open>None\<close> for \<open>null\<close>.

  The source pushes object references. A pushed individual or family is never written
  again: writes need \<open>currentContext\<close> to name its kind, and the only assignments that set
  \<open>currentContext\<close> also replace the current object by a fresh one. A pushed event is
  dropped from \<open>currentEvent\<close> in the same step. So copying values, as the model does,
  loses nothing.
\<close>

record ParserState = ParsedGedcomData +
  currentContext :: "ctx option"
  currentIndividual :: "GedcomIndividual option"
  currentFamily :: "GedcomFamily option"
  currentEvent :: "GedcomEvent option"

datatype js_error = TypeError

text \<open>The three constants at the head of the loop body.\<close>

definition lineLevel :: "string \<Rightarrow> int option" where
  "lineLevel line =
     (case js_split CHR '' '' line of
        [] \<Rightarrow> None
      | p # _ \<Rightarrow> parseInt p)"

definition lineTag :: "string \<Rightarrow> string option" where
  "lineTag line =
     (case js_split CHR '' '' line of
        _ # t # _ \<Rightarrow> Some t
      | _ \<Rightarrow> None)"

definition lineValue :: "string \<Rightarrow> string" where
  "lineValue line = js_join '' '' (drop 2 (js_split CHR '' '' line))"

text \<open>\<open>if (currentIndividual && currentIndividual.id) individuals.push(...)\<close>, and the same for families.\<close>

definition saveIndividual :: "GedcomIndividual option \<Rightarrow> GedcomIndividual list \<Rightarrow> GedcomIndividual list" where
  "saveIndividual cur acc =
     (case cur of
        None \<Rightarrow> acc
      | Some i \<Rightarrow> if ind_id i \<noteq> [] then acc @ [i] else acc)"

definition saveFamily :: "GedcomFamily option \<Rightarrow> GedcomFamily list \<Rightarrow> GedcomFamily list" where
  "saveFamily cur acc =
     (case cur of
        None \<Rightarrow> acc
      | Some f \<Rightarrow> if fam_id f \<noteq> [] then acc @ [f] else acc)"

text \<open>
  The branch \<open>level === 0\<close>. The two pushes come first; \<open>tag.includes\<close> on an
  \<open>undefined\<close> tag then throws a TypeError.
\<close>

definition level0 :: "ParserState \<Rightarrow> string option \<Rightarrow> js_error + ParserState" where
  "level0 st tag =
     (let st1 = st\<lparr>individuals := saveIndividual (currentIndividual st) (individuals st),
                    families := saveFamily (currentFamily st) (families st)\<rparr>
      in case tag of
           None \<Rightarrow> Inl TypeError
         | Some t \<Rightarrow>
             if js_includes t ''INDI'' then
               Inr (st1\<lparr>currentContext := Some individual,
                        currentIndividual := Some \<lparr>ind_id = t, ind_name = [],
                          ind_birthDate = None, ind_deathDate = None, ind_birthPlace = None,
                          ind_deathPlace = None, ind_notes = None, ind_events = []\<rparr>\<rparr>)
             else if js_includes t ''FAM'' then
               Inr (st1\<lparr>currentContext := Some family,
                        currentFamily := Some \<lparr>fam_id = t, fam_husband = None, fam_wife = None,
                          fam_children = [], fam_marriageDate = None, fam_marriagePlace = None\<rparr>\<rparr>)
             else
               Inr (st1\<lparr>currentContext := None, currentIndividual := None,
                        currentFamily := None\<rparr>))"

text \<open>The branch \<open>level === 1\<close>: the two \<open>switch (tag)\<close> statements.\<close>

definition level1 :: "ParserState \<Rightarrow> string option \<Rightarrow> string \<Rightarrow> ParserState" where
  "level1 st tag val =
     (case (currentContext st, currentIndividual st, currentFamily st) of
        (Some individual, Some i, _) \<Rightarrow>
          if tag = Some ''NAME'' then
            st\<lparr>currentIndividual := Some (i\<lparr>ind_name := filter (\<lambda>c. c \<noteq> CHR ''/'') val\<rparr>)\<rparr>
          else if tag = Some ''BIRT'' then
            st\<lparr>currentEvent := Some \<lparr>ev_type = ''birth'', ev_date = None, ev_place = None,
                                     ev_description = None\<rparr>\<rparr>
          else if tag = Some ''DEAT'' then
            st\<lparr>currentEvent := Some \<lparr>ev_type = ''death'', ev_date = None, ev_place = None,
                                     ev_description = None\<rparr>\<rparr>
          else if tag = Some ''RESI'' then
            st\<lparr>currentEvent := Some \<lparr>ev_type = ''residence'', ev_date = None, ev_place = None,
                                     ev_description = None\<rparr>\<rparr>
          else if tag = Some ''NOTE'' then
            st\<lparr>currentIndividual := Some (i\<lparr>ind_notes := Some val\<rparr>)\<rparr>
          else st
      | (Some family, _, Some f) \<Rightarrow>
          if tag = Some ''HUSB'' then
            st\<lparr>currentFamily := Some (f\<lparr>fam_husband := Some val\<rparr>)\<rparr>
          else if tag = Some ''WIFE'' then
            st\<lparr>currentFamily := Some (f\<lparr>fam_wife := Some val\<rparr>)\<rparr>
          else if tag = Some ''CHIL'' then
            st\<lparr>currentFamily := Some (f\<lparr>fam_children := fam_children f @ [val]\<rparr>)\<rparr>
          else if tag = Some ''MARR'' then
            st\<lparr>currentEvent := Some \<lparr>ev_type = ''marriage'', ev_date = None, ev_place = None,
                                     ev_description = None\<rparr>\<rparr>
          else st
      | _ \<Rightarrow> st)"

text \<open>
  The branch \<open>level === 2\<close>: the \<open>switch\<close> that writes the date or the place of the
  pending event, then the block that closes the event.
\<close>

definition setEventField :: "GedcomEvent \<Rightarrow> string option \<Rightarrow> string \<Rightarrow> GedcomEvent" where
  "setEventField e tag val =
     (if tag = Some ''DATE'' then e\<lparr>ev_date := Some val\<rparr>
      else if tag = Some ''PLAC'' then e\<lparr>ev_place := Some val\<rparr>
      else e)"

definition attachToIndividual :: "GedcomIndividual \<Rightarrow> GedcomEvent \<Rightarrow> GedcomIndividual" where
  "attachToIndividual i e =
     (let i1 = (if ev_type e = ''birth'' then
                  i\<lparr>ind_birthDate := ev_date e, ind_birthPlace := ev_place e\<rparr>
                else if ev_type e = ''death'' then
                  i\<lparr>ind_deathDate := ev_date e, ind_deathPlace := ev_place e\<rparr>
                else i)
      in i1\<lparr>ind_events := ind_events i1 @ [e]\<rparr>)"

definition attachToFamily :: "GedcomFamily \<Rightarrow> GedcomEvent \<Rightarrow> GedcomFamily" where
  "attachToFamily f e =
     (if ev_type e = ''marriage'' then
        f\<lparr>fam_marriageDate := ev_date e, fam_marriagePlace := ev_place e\<rparr>
      else f)"

definition level2 :: "ParserState \<Rightarrow> string option \<Rightarrow> string \<Rightarrow> ParserState" where
  "level2 st tag val =
     (case currentEvent st of
        None \<Rightarrow> st
      | Some e0 \<Rightarrow>
          let e = setEventField e0 tag val in
          if tag = Some ''DATE'' \<or> tag = Some ''PLAC'' then
            (let st1 =
               (case (currentContext st, currentIndividual st, currentFamily st) of
                  (Some individual, Some i, _) \<Rightarrow>
                    st\<lparr>currentIndividual := Some (attachToIndividual i e)\<rparr>
                | (Some family, _, Some f) \<Rightarrow>
                    st\<lparr>currentFamily := Some (attachToFamily f e)\<rparr>
                | _ \<Rightarrow> st)
             in st1\<lparr>events := events st1 @ [e], currentEvent := None\<rparr>)
          else st\<lparr>currentEvent := Some e\<rparr>)"

text \<open>One iteration of \<open>for (const line of lines)\<close>.\<close>

definition processLine :: "ParserState \<Rightarrow> string \<Rightarrow> js_error + ParserState" where
  "processLine st line =
     (let level = lineLevel line; tag = lineTag line; val = lineValue line
      in if level = Some 0 then level0 st tag
         else if level = Some 1 then Inr (level1 st tag val)
         else if level = Some 2 then Inr (level2 st tag val)
         else Inr st)"

fun processLines :: "ParserState \<Rightarrow> string list \<Rightarrow> js_error + ParserState" where
  "processLines st [] = Inr st"
| "processLines st (l # ls) =
     (case processLine st l of
        Inl e \<Rightarrow> Inl e
      | Inr st' \<Rightarrow> processLines st' ls)"

definition initialState :: ParserState where
  "initialState =
     \<lparr>individuals = [], families = [], events = [],
      currentContext = None, currentIndividual = None, currentFamily = None,
      currentEvent = None\<rparr>"

definition gedcomLines :: "string \<Rightarrow> string list" where
  "gedcomLines gedcomText = filter (\<lambda>l. l \<noteq> []) (map js_trim (js_split CHR 0x0A gedcomText))"

definition parseGedcom :: "string \<Rightarrow> js_error + ParsedGedcomData" where
  "parseGedcom gedcomText =
     (case processLines initialState (gedcomLines gedcomText) of
        Inl e \<Rightarrow> Inl e
      | Inr st \<Rightarrow>
          Inr \<lparr>individuals = saveIndividual (currentIndividual st) (individuals st),
               families = saveFamily (currentFamily st) (families st),
               events = events st\<rparr>)"

section \<open>The CSV parser \<open>parseCsv\<close>\<close>

text \<open>
  \<open>String.prototype.toLowerCase\<close> on code units below 256: the letters \<open>A\<close> to \<open>Z\<close> and
  the Latin-1 capitals U+00C0 to U+00DE (without the multiplication sign U+00D7) move up
  by 32; every other code unit is its own lower case.
\<close>

definition toLowerChar :: "char \<Rightarrow> char" where
  "toLowerChar c =
     (let n = (of_char c :: nat)
      in if (65 \<le> n \<and> n \<le> 90) \<or> (192 \<le> n \<and> n \<le> 222 \<and> n \<noteq> 215)
         then char_of (n + 32) else c)"

definition toLowerCase :: "string \<Rightarrow> string" where
  "toLowerCase s = map toLowerChar s"

text \<open>
  The decimal numeral of an array index, as the template literal \<open>`I${i}`\<close> prints it.
\<close>

definition digitChar :: "nat \<Rightarrow> char" where
  "digitChar d = char_of (48 + d)"

function showNat :: "nat \<Rightarrow> string" where
  "showNat n = (if n < 10 then [digitChar n] else showNat (n div 10) @ [digitChar (n mod 10)])"
  by pat_completeness auto
termination
  by (relation "measure (\<lambda>n. n)") auto

text \<open>
  Truthiness of a value that is a string or \<open>undefined\<close>, and the operator \<open>||\<close> on such
  values.
\<close>

definition truthy :: "string option \<Rightarrow> bool" where
  "truthy v = (case v of None \<Rightarrow> False | Some s \<Rightarrow> s \<noteq> [])"

definition js_or :: "string option \<Rightarrow> string option \<Rightarrow> string option" where
  "js_or a b = (if truthy a then a else b)"

definition csvLines :: "string \<Rightarrow> string list" where
  "csvLines csvText = filter (\<lambda>line. js_trim line \<noteq> []) (js_split CHR 0x0A csvText)"

definition csvHeaders :: "string \<Rightarrow> string list" where
  "csvHeaders headerLine = map (\<lambda>h. toLowerCase (js_trim h)) (js_split CHR '','' headerLine)"

definition csvValues :: "string \<Rightarrow> string list" where
  "csvValues line = map js_trim (js_split CHR '','' line)"

text \<open>
  \<open>headers.forEach((header, index) => { row[header] = values[index] || ''; })\<close> on
  \<open>row = {}\<close>. The object is a map from property names to strings; a later header of the
  same name overwrites. The properties the source reads afterwards (\<open>name\<close>,
  \<open>birth_date\<close>, ...) are none of \<open>Object.prototype\<close>'s, so reading a missing one gives
  \<open>undefined\<close>, here \<open>None\<close>.
\<close>

fun rowAssign :: "string list \<Rightarrow> nat \<Rightarrow> string list \<Rightarrow> (string \<rightharpoonup> string) \<Rightarrow> (string \<rightharpoonup> string)" where
  "rowAssign [] index vals row = row"
| "rowAssign (header # hs) index vals row =
     rowAssign hs (Suc index) vals
       (row(header \<mapsto> (if index < length vals then vals ! index else [])))"

definition csvRow :: "string list \<Rightarrow> string \<Rightarrow> (string \<rightharpoonup> string)" where
  "csvRow headers line = rowAssign headers 0 (csvValues line) Map.empty"

text \<open>\<open>individual.birthPlace || 'unknown location'\<close> inside a template literal.\<close>

definition orDefault :: "string option \<Rightarrow> string \<Rightarrow> string" where
  "orDefault v d = (case v of None \<Rightarrow> d | Some s \<Rightarrow> if s \<noteq> [] then s else d)"

text \<open>
  The object literal \<open>individual\<close> built from a row, with the two \<open>events.push\<close> that
  follow it.
\<close>

definition csvIndividual :: "(string \<rightharpoonup> string) \<Rightarrow> nat \<Rightarrow> GedcomIndividual" where
  "csvIndividual row i =
     (let birthDate = js_or (js_or (row ''birth_date'') (row ''birthdate'')) None;
          deathDate = js_or (js_or (row ''death_date'') (row ''deathdate'')) None;
          birthPlace = js_or (js_or (row ''birth_place'') (row ''birthplace'')) None;
          deathPlace = js_or (js_or (row ''death_place'') (row ''deathplace'')) None;
          birthEvents =
            (if truthy birthDate \<or> truthy birthPlace then
               [\<lparr>ev_type = ''birth'', ev_date = birthDate, ev_place = birthPlace,
                 ev_description =
                   Some (''Born in '' @ orDefault birthPlace ''unknown location'')\<rparr>]
             else []);
          deathEvents =
            (if truthy deathDate \<or> truthy deathPlace then
               [\<lparr>ev_type = ''death'', ev_date = deathDate, ev_place = deathPlace,
                 ev_description =
                   Some (''Died in '' @ orDefault deathPlace ''unknown location'')\<rparr>]
             else [])
      in \<lparr>ind_id = ''I'' @ showNat i,
          ind_name = orDefault (row ''name'') [],
          ind_birthDate = birthDate, ind_deathDate = deathDate,
          ind_birthPlace = birthPlace, ind_deathPlace = deathPlace,
          ind_notes = js_or (row ''notes'') None,
          ind_events = birthEvents @ deathEvents\<rparr>)"

text \<open>
  The body of the loop for the data row \<open>lines[i]\<close>; \<open>None\<close> is the \<open>continue\<close> taken when
  \<open>row.name\<close> is falsy.
\<close>

definition csvRecord :: "string list \<Rightarrow> nat \<Rightarrow> string \<Rightarrow> GedcomIndividual option" where
  "csvRecord headers i line =
     (let row = csvRow headers line
      in if \<not> truthy (row ''name'') then None else Some (csvIndividual row i))"

text \<open>\<open>for (let i = 1; i < lines.length; i++)\<close>, entered with the rows from index \<open>i\<close> on.\<close>

fun csvLoop :: "string list \<Rightarrow> nat \<Rightarrow> string list \<Rightarrow> GedcomIndividual list \<Rightarrow> GedcomIndividual list" where
  "csvLoop headers i [] acc = acc"
| "csvLoop headers i (line # rest) acc =
     csvLoop headers (Suc i) rest
       (case csvRecord headers i line of
          None \<Rightarrow> acc
        | Some r \<Rightarrow> acc @ [r])"

definition parseCsv :: "string \<Rightarrow> GedcomIndividual list" where
  "parseCsv csvText =
     (let lines = csvLines csvText
      in if length lines < 2 then []
         else csvLoop (csvHeaders (lines ! 0)) 1 (drop 1 lines) [])"

section \<open>The in-memory store \<open>MemStorage\<close>\<close>

text \<open>
  A property of a stored entity holds a value of its column type, \<open>null\<close> or \<open>undefined\<close>
  (a property that was never written reads as \<open>undefined\<close>).
\<close>

datatype 'a jsv = Undefined | Null | Val 'a

datatype json = JNull | JBool bool | JNum real | JStr string | JArr "json list"
  | JObj "(string \<times> json) list"

text \<open>
  The entity types of \<open>shared/schema.ts\<close>. \<open>InsertX\<close> is the entity without \<open>id\<close> and
  \<open>createdAt\<close> (and, for atlas projects, without \<open>lastGenerated\<close>); the entity extends it by
  these, which is what \<open>{ ...insertX, id, createdAt: new Date() }\<close> builds. The fields carry
  a prefix per entity: \<open>fm_\<close>, \<open>loc_\<close>, \<open>evt_\<close>, \<open>sty_\<close>, \<open>gpl_\<close>, \<open>ap_\<close>. A \<open>Date\<close> is its
  time value.
\<close>

record InsertFamilyMember =
  fm_name :: "string jsv"
  fm_birthDate :: "string jsv"
  fm_deathDate :: "string jsv"
  fm_birthPlace :: "string jsv"
  fm_deathPlace :: "string jsv"
  fm_notes :: "string jsv"
  fm_photos :: "string list jsv"

record FamilyMember = InsertFamilyMember +
  fm_id :: string
  fm_createdAt :: nat

record InsertLocation =
  loc_name :: "string jsv"
  loc_latitude :: "real jsv"
  loc_longitude :: "real jsv"
  loc_address :: "string jsv"
  loc_locationType :: "string jsv"
  loc_timeSpan :: "string jsv"
  loc_memberCount :: "int jsv"

record Location = InsertLocation +
  loc_id :: string
  loc_createdAt :: nat

record InsertEvent =
  evt_memberId :: "string jsv"
  evt_locationId :: "string jsv"
  evt_eventType :: "string jsv"
  evt_eventDate :: "string jsv"
  evt_description :: "string jsv"
  evt_notes :: "string jsv"

record Event = InsertEvent +
  evt_id :: string
  evt_createdAt :: nat

record InsertStory =
  sty_title :: "string jsv"
  sty_content :: "string jsv"
  sty_locationId :: "string jsv"
  sty_memberIds :: "string list jsv"
  sty_eventIds :: "string list jsv"
  sty_isGenerated :: "bool jsv"

record Story = InsertStory +
  sty_id :: string
  sty_createdAt :: nat

record InsertGeopackageLayer =
  gpl_name :: "string jsv"
  gpl_fileName :: "string jsv"
  gpl_layerName :: "string jsv"
  gpl_layerType :: "string jsv"
  gpl_isVisible :: "bool jsv"
  gpl_style :: "json jsv"
  gpl_bounds :: "(real \<times> real \<times> real \<times> real) jsv"

record GeopackageLayer = InsertGeopackageLayer +
  gpl_id :: string
  gpl_createdAt :: nat

record InsertAtlasProject =
  ap_name :: "string jsv"
  ap_description :: "string jsv"
  ap_memberCount :: "int jsv"
  ap_locationCount :: "int jsv"
  ap_storyCount :: "int jsv"
  ap_timeSpan :: "string jsv"

record AtlasProject = InsertAtlasProject +
  ap_lastGenerated :: "nat jsv"
  ap_id :: string
  ap_createdAt :: nat

text \<open>
  The argument \<open>updateData\<close> of an \<open>update\<close> method. It is declared \<open>Partial<InsertX>\<close>:
  every property of \<open>InsertX\<close> may be missing, \<open>None\<close> here, and one that is present
  carries a value, which may itself be \<open>undefined\<close>. The declaration does not keep a wider
  object out (an entity, or a request body, is assignable to it) and nothing checks the
  argument at run time, while the spread copies every own property it has. So the model's
  argument also has the properties that \<open>InsertX\<close> omits, \<open>id\<close> and \<open>createdAt\<close> (and
  \<open>lastGenerated\<close> of an atlas project), at the types the entity gives them. A property
  that is no field of the entity is copied as well; no typed read sees it, and the model
  leaves it out.
\<close>

record PartialInsertFamilyMember =
  pfm_name :: "string jsv option"
  pfm_birthDate :: "string jsv option"
  pfm_deathDate :: "string jsv option"
  pfm_birthPlace :: "string jsv option"
  pfm_deathPlace :: "string jsv option"
  pfm_notes :: "string jsv option"
  pfm_photos :: "string list jsv option"
  pfm_id :: "string option"
  pfm_createdAt :: "nat option"

record PartialInsertLocation =
  ploc_name :: "string jsv option"
  ploc_latitude :: "real jsv option"
  ploc_longitude :: "real jsv option"
  ploc_address :: "string jsv option"
  ploc_locationType :: "string jsv option"
  ploc_timeSpan :: "string jsv option"
  ploc_memberCount :: "int jsv option"
  ploc_id :: "string option"
  ploc_createdAt :: "nat option"

record PartialInsertEvent =
  pevt_memberId :: "string jsv option"
  pevt_locationId :: "string jsv option"
  pevt_eventType :: "string jsv option"
  pevt_eventDate :: "string jsv option"
  pevt_description :: "string jsv option"
  pevt_notes :: "string jsv option"
  pevt_id :: "string option"
  pevt_createdAt :: "nat option"

record PartialInsertStory =
  psty_title :: "string jsv option"
  psty_content :: "string jsv option"
  psty_locationId :: "string jsv option"
  psty_memberIds :: "string list jsv option"
  psty_eventIds :: "string list jsv option"
  psty_isGenerated :: "bool jsv option"
  psty_id :: "string option"
  psty_createdAt :: "nat option"

record PartialInsertGeopackageLayer =
  pgpl_name :: "string jsv option"
  pgpl_fileName :: "string jsv option"
  pgpl_layerName :: "string jsv option"
  pgpl_layerType :: "string jsv option"
  pgpl_isVisible :: "bool jsv option"
  pgpl_style :: "json jsv option"
  pgpl_bounds :: "(real \<times> real \<times> real \<times> real) jsv option"
  pgpl_id :: "string option"
  pgpl_createdAt :: "nat option"

record PartialInsertAtlasProject =
  pap_name :: "string jsv option"
  pap_description :: "string jsv option"
  pap_memberCount :: "int jsv option"
  pap_locationCount :: "int jsv option"
  pap_storyCount :: "int jsv option"
  pap_timeSpan :: "string jsv option"
  pap_lastGenerated :: "nat jsv option"
  pap_id :: "string option"
  pap_createdAt :: "nat option"


text \<open>
  The six \<open>Map<string, X>\<close> of the store. A JavaScript \<open>Map\<close> keeps its entries in insertion
  order and \<open>set\<close> on a key that is present replaces the value in place: an association
  list with \<^const>\<open>AList.update\<close> as \<open>set\<close>, \<^const>\<open>map_of\<close> as \<open>get\<close> and
  \<^const>\<open>AList.delete\<close> as \<open>delete\<close>. The map of events is \<open>events_map\<close>, the name
  \<open>events\<close> being taken by the parser's result.
\<close>

record MemStorage =
  familyMembers :: "(string \<times> FamilyMember) list"
  locations :: "(string \<times> Location) list"
  events_map :: "(string \<times> Event) list"
  stories :: "(string \<times> Story) list"
  geopackageLayers :: "(string \<times> GeopackageLayer) list"
  atlasProjects :: "(string \<times> AtlasProject) list"

definition newMemStorage :: MemStorage where
  "newMemStorage =
     \<lparr>familyMembers = [], locations = [], events_map = [], stories = [],
      geopackageLayers = [], atlasProjects = []\<rparr>"

text \<open>
  One property of the spread \<open>{ ...entity, ...updateData }\<close>: the value of \<open>updateData\<close>
  when it has the property, the entity's value otherwise.
\<close>

definition spreadOver :: "'a option \<Rightarrow> 'a \<Rightarrow> 'a" where
  "spreadOver upd old = (case upd of None \<Rightarrow> old | Some v \<Rightarrow> v)"

definition updateFamilyMember ::
    "MemStorage \<Rightarrow> string \<Rightarrow> PartialInsertFamilyMember \<Rightarrow> FamilyMember option \<times> MemStorage" where
  "updateFamilyMember s ident updateData =
     (case map_of (familyMembers s) ident of
        None \<Rightarrow> (None, s)
      | Some member \<Rightarrow>
          (let updated = member
                 \<lparr>fm_name := spreadOver (pfm_name updateData) (fm_name member),
                  fm_birthDate := spreadOver (pfm_birthDate updateData) (fm_birthDate member),
                  fm_deathDate := spreadOver (pfm_deathDate updateData) (fm_deathDate member),
                  fm_birthPlace := spreadOver (pfm_birthPlace updateData) (fm_birthPlace member),
                  fm_deathPlace := spreadOver (pfm_deathPlace updateData) (fm_deathPlace member),
                  fm_notes := spreadOver (pfm_notes updateData) (fm_notes member),
                  fm_photos := spreadOver (pfm_photos updateData) (fm_photos member),
                  fm_id := spreadOver (pfm_id updateData) (fm_id member),
                  fm_createdAt := spreadOver (pfm_createdAt updateData) (fm_createdAt member)\<rparr>
           in (Some updated,
               s\<lparr>familyMembers := AList.update ident updated (familyMembers s)\<rparr>)))"

definition updateLocation ::
    "MemStorage \<Rightarrow> string \<Rightarrow> PartialInsertLocation \<Rightarrow> Location option \<times> MemStorage" where
  "updateLocation s ident updateData =
     (case map_of (locations s) ident of
        None \<Rightarrow> (None, s)
      | Some location \<Rightarrow>
          (let updated = location
                 \<lparr>loc_name := spreadOver (ploc_name updateData) (loc_name location),
                  loc_latitude := spreadOver (ploc_latitude updateData) (loc_latitude location),
                  loc_longitude := spreadOver (ploc_longitude updateData) (loc_longitude location),
                  loc_address := spreadOver (ploc_address updateData) (loc_address location),
                  loc_locationType := spreadOver (ploc_locationType updateData) (loc_locationType location),
                  loc_timeSpan := spreadOver (ploc_timeSpan updateData) (loc_timeSpan location),
                  loc_memberCount := spreadOver (ploc_memberCount updateData) (loc_memberCount location),
                  loc_id := spreadOver (ploc_id updateData) (loc_id location),
                  loc_createdAt := spreadOver (ploc_createdAt updateData) (loc_createdAt location)\<rparr>
           in (Some updated,
               s\<lparr>locations := AList.update ident updated (locations s)\<rparr>)))"

definition updateEvent ::
    "MemStorage \<Rightarrow> string \<Rightarrow> PartialInsertEvent \<Rightarrow> Event option \<times> MemStorage" where
  "updateEvent s ident updateData =
     (case map_of (events_map s) ident of
        None \<Rightarrow> (None, s)
      | Some event \<Rightarrow>
          (let updated = event
                 \<lparr>evt_memberId := spreadOver (pevt_memberId updateData) (evt_memberId event),
                  evt_locationId := spreadOver (pevt_locationId updateData) (evt_locationId event),
                  evt_eventType := spreadOver (pevt_eventType updateData) (evt_eventType event),
                  evt_eventDate := spreadOver (pevt_eventDate updateData) (evt_eventDate event),
                  evt_description := spreadOver (pevt_description updateData) (evt_description event),
                  evt_notes := spreadOver (pevt_notes updateData) (evt_notes event),
                  evt_id := spreadOver (pevt_id updateData) (evt_id event),
                  evt_createdAt := spreadOver (pevt_createdAt updateData) (evt_createdAt event)\<rparr>
           in (Some updated,
               s\<lparr>events_map := AList.update ident updated (events_map s)\<rparr>)))"

definition updateStory ::
    "MemStorage \<Rightarrow> string \<Rightarrow> PartialInsertStory \<Rightarrow> Story option \<times> MemStorage" where
  "updateStory s ident updateData =
     (case map_of (stories s) ident of
        None \<Rightarrow> (None, s)
      | Some story \<Rightarrow>
          (let updated = story
                 \<lparr>sty_title := spreadOver (psty_title updateData) (sty_title story),
                  sty_content := spreadOver (psty_content updateData) (sty_content story),
                  sty_locationId := spreadOver (psty_locationId updateData) (sty_locationId story),
                  sty_memberIds := spreadOver (psty_memberIds updateData) (sty_memberIds story),
                  sty_eventIds := spreadOver (psty_eventIds updateData) (sty_eventIds story),
                  sty_isGenerated := spreadOver (psty_isGenerated updateData) (sty_isGenerated story),
                  sty_id := spreadOver (psty_id updateData) (sty_id story),
                  sty_createdAt := spreadOver (psty_createdAt updateData) (sty_createdAt story)\<rparr>
           in (Some updated,
               s\<lparr>stories := AList.update ident updated (stories s)\<rparr>)))"

definition updateGeopackageLayer ::
    "MemStorage \<Rightarrow> string \<Rightarrow> PartialInsertGeopackageLayer \<Rightarrow> GeopackageLayer option \<times> MemStorage" where
  "updateGeopackageLayer s ident updateData =
     (case map_of (geopackageLayers s) ident of
        None \<Rightarrow> (None, s)
      | Some layer \<Rightarrow>
          (let updated = layer
                 \<lparr>gpl_name := spreadOver (pgpl_name updateData) (gpl_name layer),
                  gpl_fileName := spreadOver (pgpl_fileName updateData) (gpl_fileName layer),
                  gpl_layerName := spreadOver (pgpl_layerName updateData) (gpl_layerName layer),
                  gpl_layerType := spreadOver (pgpl_layerType updateData) (gpl_layerType layer),
                  gpl_isVisible := spreadOver (pgpl_isVisible updateData) (gpl_isVisible layer),
                  gpl_style := spreadOver (pgpl_style updateData) (gpl_style layer),
                  gpl_bounds := spreadOver (pgpl_bounds updateData) (gpl_bounds layer),
                  gpl_id := spreadOver (pgpl_id updateData) (gpl_id layer),
                  gpl_createdAt := spreadOver (pgpl_createdAt updateData) (gpl_createdAt layer)\<rparr>
           in (Some updated,
               s\<lparr>geopackageLayers := AList.update ident updated (geopackageLayers s)\<rparr>)))"

definition updateAtlasProject ::
    "MemStorage \<Rightarrow> string \<Rightarrow> PartialInsertAtlasProject \<Rightarrow> AtlasProject option \<times> MemStorage" where
  "updateAtlasProject s ident updateData =
     (case map_of (atlasProjects s) ident of
        None \<Rightarrow> (None, s)
      | Some project \<Rightarrow>
          (let updated = project
                 \<lparr>ap_name := spreadOver (pap_name updateData) (ap_name project),
                  ap_description := spreadOver (pap_description updateData) (ap_description project),
                  ap_memberCount := spreadOver (pap_memberCount updateData) (ap_memberCount project),
                  ap_locationCount := spreadOver (pap_locationCount updateData) (ap_locationCount project),
                  ap_storyCount := spreadOver (pap_storyCount updateData) (ap_storyCount project),
                  ap_timeSpan := spreadOver (pap_timeSpan updateData) (ap_timeSpan project),
                  ap_lastGenerated := spreadOver (pap_lastGenerated updateData) (ap_lastGenerated project),
                  ap_id := spreadOver (pap_id updateData) (ap_id project),
                  ap_createdAt := spreadOver (pap_createdAt updateData) (ap_createdAt project)\<rparr>
           in (Some updated,
               s\<lparr>atlasProjects := AList.update ident updated (atlasProjects s)\<rparr>)))"


section \<open>The narrative builder \<open>generateStoryFromEvents\<close>\<close>

text \<open>
  The builder is declared on \<open>any[]\<close>; its one caller passes entities of the store, so the
  model takes them at their schema types. Truthiness and the conversion to a string (as a
  template literal or a property key does it) of a value that is a string, \<open>null\<close> or
  \<open>undefined\<close>:
\<close>

definition truthyV :: "string jsv \<Rightarrow> bool" where
  "truthyV v = (case v of Val s \<Rightarrow> s \<noteq> [] | _ \<Rightarrow> False)"

definition jsvToString :: "string jsv \<Rightarrow> string" where
  "jsvToString v = (case v of Undefined \<Rightarrow> ''undefined'' | Null \<Rightarrow> ''null'' | Val s \<Rightarrow> s)"

text \<open>\<open>v || d\<close> where a string is wanted.\<close>

definition orElse :: "string jsv \<Rightarrow> string \<Rightarrow> string" where
  "orElse v d = (case v of Val s \<Rightarrow> if s \<noteq> [] then s else d | _ \<Rightarrow> d)"

text \<open>
  \<open>new Date(s).getTime()\<close>. ECMAScript fixes the result for the date-time string format;
  of it the model has the year-only form \<open>YYYY\<close>, which is midnight UTC of January 1st:
  \<open>DayFromYear(y)\<close> days of 86400000 ms. For every other string the result is left to the
  parameter \<open>impl\<close> (the engine's parser), with \<open>None\<close> for NaN.
\<close>

definition isDigit :: "char \<Rightarrow> bool" where
  "isDigit c \<longleftrightarrow> digitValue 10 c \<noteq> None"

definition DayFromYear :: "int \<Rightarrow> int" where
  "DayFromYear y = 365 * (y - 1970) + (y - 1969) div 4 - (y - 1901) div 100 + (y - 1601) div 400"

definition dateGetTime :: "(string \<Rightarrow> int option) \<Rightarrow> string \<Rightarrow> int option" where
  "dateGetTime impl s =
     (if length s = 4 \<and> list_all isDigit s then
        Some (DayFromYear (int (foldl (\<lambda>a d. a * 10 + d) 0 (leadingDigits 10 s))) * 86400000)
      else impl s)"

text \<open>
  \<open>events.reduce\<close> into \<open>{}\<close>: the accumulator maps a property key to the array of the
  events of that member, in insertion order of the keys. For a key that names a property of
  \<open>Object.prototype\<close> the test \<open>!acc[key]\<close> is false although the object has no such array,
  and \<open>acc[key].push\<close> is not a function: a TypeError.
\<close>

definition objectPrototypeKeys :: "string list" where
  "objectPrototypeKeys =
     [''constructor'', ''__defineGetter__'', ''__defineSetter__'', ''hasOwnProperty'',
      ''__lookupGetter__'', ''__lookupSetter__'', ''isPrototypeOf'', ''propertyIsEnumerable'',
      ''toString'', ''valueOf'', ''__proto__'', ''toLocaleString'']"

fun groupByMember :: "(string \<times> Event list) list \<Rightarrow> Event list \<Rightarrow> js_error + (string \<times> Event list) list" where
  "groupByMember acc [] = Inr acc"
| "groupByMember acc (event # rest) =
     (let key = jsvToString (evt_memberId event)
      in case map_of acc key of
           Some es \<Rightarrow> groupByMember (AList.update key (es @ [event]) acc) rest
         | None \<Rightarrow>
             if key \<in> set objectPrototypeKeys then Inl TypeError
             else groupByMember (AList.update key [event] acc) rest)"

text \<open>
  \<open>Object.entries\<close>: the keys that are array indices (canonical numerals below
  \<open>2^32 - 1\<close>) come first, in ascending numeric order, then the other keys in insertion
  order.
\<close>

definition isArrayIndex :: "string \<Rightarrow> bool" where
  "isArrayIndex k \<longleftrightarrow>
     k \<noteq> [] \<and> list_all isDigit k \<and> (k = ''0'' \<or> take 1 k \<noteq> ''0'')
     \<and> foldl (\<lambda>a d. a * 10 + d) 0 (leadingDigits 10 k) < 2 ^ 32 - 1"

definition objectEntries :: "(string \<times> 'a) list \<Rightarrow> (string \<times> 'a) list" where
  "objectEntries obj =
     sort_key (\<lambda>(k, v). foldl (\<lambda>a d. a * 10 + d) 0 (leadingDigits 10 k))
       (filter (\<lambda>(k, v). isArrayIndex k) obj)
     @ filter (\<lambda>(k, v). \<not> isArrayIndex k) obj"

text \<open>
  \<open>memberEvents.sort((a, b) => dateA.getTime() - dateB.getTime())\<close>. The comparator gives
  NaN when a date does not parse, which \<open>sort\<close> reads as 0. The sort is stable; it is
  modelled as a stable insertion sort, which is the result of \<open>sort\<close> whenever the
  comparator is a consistent ordering (ECMAScript leaves the order open otherwise).
\<close>

definition eventTime :: "(string \<Rightarrow> int option) \<Rightarrow> Event \<Rightarrow> int option" where
  "eventTime impl e = dateGetTime impl (orElse (evt_eventDate e) ''1900-01-01'')"

definition compareEvents :: "(string \<Rightarrow> int option) \<Rightarrow> Event \<Rightarrow> Event \<Rightarrow> int" where
  "compareEvents impl a b =
     (case (eventTime impl a, eventTime impl b) of
        (Some ta, Some tb) \<Rightarrow> ta - tb
      | _ \<Rightarrow> 0)"

fun insertSorted :: "(string \<Rightarrow> int option) \<Rightarrow> Event \<Rightarrow> Event list \<Rightarrow> Event list" where
  "insertSorted impl a [] = [a]"
| "insertSorted impl a (b # bs) =
     (if compareEvents impl a b > 0 then b # insertSorted impl a bs else a # b # bs)"

definition sortEvents :: "(string \<Rightarrow> int option) \<Rightarrow> Event list \<Rightarrow> Event list" where
  "sortEvents impl es = foldr (insertSorted impl) es []"

text \<open>The text one event adds to the story, without the separator.\<close>

definition eventSentence :: "Location list \<Rightarrow> Event \<Rightarrow> string" where
  "eventSentence locs event =
     (let location = find (\<lambda>l. evt_locationId event = Val (loc_id l)) locs;
          locationName = (case location of None \<Rightarrow> Undefined | Some l \<Rightarrow> loc_name l);
          dated = (if truthyV (evt_eventDate event)
                   then '' in '' @ jsvToString (evt_eventDate event) else [])
      in if evt_eventType event = Val ''birth'' then
           ''with their birth in '' @ orElse locationName ''an unknown location'' @ dated
         else if evt_eventType event = Val ''migration'' then
           '', followed by a significant migration to '' @ orElse locationName ''a new location''
             @ dated
         else if evt_eventType event = Val ''death'' then
           '', and their life concluded in '' @ orElse locationName ''an unknown location''
             @ dated
         else [])"

text \<open>\<open>for (let i = 0; i < sortedEvents.length; i++)\<close>, with \<open>', '\<close> after all but the last.\<close>

fun eventSentences :: "Location list \<Rightarrow> Event list \<Rightarrow> string" where
  "eventSentences locs [] = []"
| "eventSentences locs [e] = eventSentence locs e"
| "eventSentences locs (e # e' # es) =
     eventSentence locs e @ '', '' @ eventSentences locs (e' # es)"

text \<open>The body of the loop over the entries; a member that is not found is skipped.\<close>

definition memberStory ::
    "(string \<Rightarrow> int option) \<Rightarrow> FamilyMember list \<Rightarrow> Location list \<Rightarrow> string \<times> Event list \<Rightarrow> string" where
  "memberStory impl members locs entry =
     (case find (\<lambda>m. fm_id m = fst entry) members of
        None \<Rightarrow> []
      | Some member \<Rightarrow>
          jsvToString (fm_name member) @ [CHR 0x27] @ ''s journey began ''
          @ eventSentences locs (sortEvents impl (snd entry))
          @ ''. ''
          @ (if truthyV (fm_notes member) then jsvToString (fm_notes member) @ '' '' else []))"

definition generateStoryFromEvents ::
    "(string \<Rightarrow> int option) \<Rightarrow> Event list \<Rightarrow> FamilyMember list \<Rightarrow> Location list
       \<Rightarrow> js_error + string" where
  "generateStoryFromEvents impl evs members locs =
     (if evs = [] then Inr []
      else case groupByMember [] evs of
             Inl e \<Rightarrow> Inl e
           | Inr eventsByMember \<Rightarrow>
               Inr (js_trim (concat (map (memberStory impl members locs)
                                      (objectEntries eventsByMember)))))"

section \<open>The upload handlers\<close>

text \<open>
  What the handlers take from outside the program: the results of \<open>randomUUID()\<close> and of
  \<open>new Date()\<close>, and the outcome of the request that \<open>geocodeLocation\<close> sends. Each is a
  function of the number of such calls made so far (\<open>tick\<close>), so that two calls may answer
  differently. The body of the \<open>try\<close> in \<open>geocodeLocation\<close> either throws (network
  failure, a reply that is no JSON, ...), or finds no result, or reads the coordinates of the
  first result: \<open>GeocoderError\<close>, \<open>GeocoderResults []\<close>, \<open>GeocoderResults (c # _)\<close>.
\<close>

record coords =
  lat :: real
  lng :: real

datatype geocoder_reply = GeocoderError | GeocoderResults "coords list"

record World =
  randomUUID :: "nat \<Rightarrow> string"
  newDate :: "nat \<Rightarrow> nat"
  nominatim :: "nat \<Rightarrow> string \<Rightarrow> geocoder_reply"

record Server =
  storage :: MemStorage
  tick :: nat

definition createFamilyMember ::
    "World \<Rightarrow> Server \<Rightarrow> InsertFamilyMember \<Rightarrow> FamilyMember \<times> Server" where
  "createFamilyMember w sv insertMember =
     (let ident = randomUUID w (tick sv);
          member = \<lparr>fm_name = fm_name insertMember, fm_birthDate = fm_birthDate insertMember,
                    fm_deathDate = fm_deathDate insertMember,
                    fm_birthPlace = fm_birthPlace insertMember,
                    fm_deathPlace = fm_deathPlace insertMember,
                    fm_notes = fm_notes insertMember, fm_photos = fm_photos insertMember,
                    fm_id = ident, fm_createdAt = newDate w (tick sv)\<rparr>
      in (member,
          sv\<lparr>storage := (storage sv)
                 \<lparr>familyMembers := AList.update ident member (familyMembers (storage sv))\<rparr>,
             tick := Suc (tick sv)\<rparr>))"

definition createLocation ::
    "World \<Rightarrow> Server \<Rightarrow> InsertLocation \<Rightarrow> Location \<times> Server" where
  "createLocation w sv insertLocation =
     (let ident = randomUUID w (tick sv);
          location = \<lparr>loc_name = loc_name insertLocation,
                      loc_latitude = loc_latitude insertLocation,
                      loc_longitude = loc_longitude insertLocation,
                      loc_address = loc_address insertLocation,
                      loc_locationType = loc_locationType insertLocation,
                      loc_timeSpan = loc_timeSpan insertLocation,
                      loc_memberCount = loc_memberCount insertLocation,
                      loc_id = ident, loc_createdAt = newDate w (tick sv)\<rparr>
      in (location,
          sv\<lparr>storage := (storage sv)
                 \<lparr>locations := AList.update ident location (locations (storage sv))\<rparr>,
             tick := Suc (tick sv)\<rparr>))"

definition createEvent ::
    "World \<Rightarrow> Server \<Rightarrow> InsertEvent \<Rightarrow> Event \<times> Server" where
  "createEvent w sv insertEvent =
     (let ident = randomUUID w (tick sv);
          event = \<lparr>evt_memberId = evt_memberId insertEvent,
                   evt_locationId = evt_locationId insertEvent,
                   evt_eventType = evt_eventType insertEvent,
                   evt_eventDate = evt_eventDate insertEvent,
                   evt_description = evt_description insertEvent,
                   evt_notes = evt_notes insertEvent,
                   evt_id = ident, evt_createdAt = newDate w (tick sv)\<rparr>
      in (event,
          sv\<lparr>storage := (storage sv)
                 \<lparr>events_map := AList.update ident event (events_map (storage sv))\<rparr>,
             tick := Suc (tick sv)\<rparr>))"

text \<open>\<open>geocodeLocation\<close>: \<open>None\<close> is \<open>null\<close>, returned both from the \<open>catch\<close> and for no result.\<close>

definition geocodeLocation :: "World \<Rightarrow> Server \<Rightarrow> string \<Rightarrow> coords option \<times> Server" where
  "geocodeLocation w sv address =
     ((case nominatim w (tick sv) address of
         GeocoderError \<Rightarrow> None
       | GeocoderResults [] \<Rightarrow> None
       | GeocoderResults (c # _) \<Rightarrow> Some c),
      sv\<lparr>tick := Suc (tick sv)\<rparr>)"

text \<open>
  The local arrays of a handler, with the server state. The counts of the response are the
  lengths of the three arrays.
\<close>

record UploadRun =
  server :: Server
  createdMembers :: "FamilyMember list"
  createdLocations :: "Location list"
  createdEvents :: "Event list"

definition startRun :: "Server \<Rightarrow> UploadRun" where
  "startRun sv = \<lparr>server = sv, createdMembers = [], createdLocations = [], createdEvents = []\<rparr>"

text \<open>
  The body of \<open>for (const { place, type } of places)\<close>. Both handlers have it, word for
  word but for the expression of the date of the role; the model takes the two dates as
  arguments.
\<close>

definition processPlace ::
    "World \<Rightarrow> string jsv \<Rightarrow> string jsv \<Rightarrow> FamilyMember \<Rightarrow> UploadRun \<Rightarrow> string \<times> string \<Rightarrow> UploadRun" where
  "processPlace w birthDate deathDate member run pt =
     (let place = fst pt; type = snd pt;
          (coords, sv1) = geocodeLocation w (server run) place
      in case coords of
           None \<Rightarrow> run\<lparr>server := sv1\<rparr>
         | Some c \<Rightarrow>
             (let (location, sv2) = createLocation w sv1
                    \<lparr>loc_name = Val place, loc_latitude = Val (lat c),
                     loc_longitude = Val (lng c), loc_address = Val place,
                     loc_locationType = Val type,
                     loc_timeSpan = (if type = ''birth'' then birthDate else deathDate),
                     loc_memberCount = Val 1\<rparr>;
                  (event, sv3) = createEvent w sv2
                    \<lparr>evt_memberId = Val (fm_id member), evt_locationId = Val (loc_id location),
                     evt_eventType = Val type,
                     evt_eventDate = (if type = ''birth'' then birthDate else deathDate),
                     evt_description =
                       Val ((if type = ''birth'' then ''Born'' else ''Died'') @ '' in '' @ place),
                     evt_notes = Val []\<rparr>
              in run\<lparr>server := sv3,
                     createdLocations := createdLocations run @ [location],
                     createdEvents := createdEvents run @ [event]\<rparr>))"

text \<open>
  \<open>[{ place: ..., type: 'birth' }, { place: ..., type: 'death' }].filter(p => p.place)\<close>:
  the truthy places, which are non-empty strings.
\<close>

definition placesOf :: "string jsv \<Rightarrow> string jsv \<Rightarrow> (string \<times> string) list" where
  "placesOf birthPlace deathPlace =
     List.map_filter
       (\<lambda>(p, t). case p of Val s \<Rightarrow> if s \<noteq> [] then Some (s, t) else None | _ \<Rightarrow> None)
       [(birthPlace, ''birth''), (deathPlace, ''death'')]"

subsection \<open>\<open>POST /api/upload/gedcom\<close>\<close>

text \<open>
  \<open>s.split(sep)\<close> for a separator of one or more characters: the occurrences are found from
  the left and do not overlap; \<open>skip\<close> counts the characters of a found occurrence still to
  pass.
\<close>

fun js_splitStr_from :: "string \<Rightarrow> nat \<Rightarrow> string \<Rightarrow> string list" where
  "js_splitStr_from sep skip [] = [[]]"
| "js_splitStr_from sep (Suc k) (x # xs) = js_splitStr_from sep k xs"
| "js_splitStr_from sep 0 (x # xs) =
     (if take (length sep) (x # xs) = sep then [] # js_splitStr_from sep (length sep - 1) xs
      else (case js_splitStr_from sep 0 xs of
              [] \<Rightarrow> [[x]]
            | p # ps \<Rightarrow> (x # p) # ps))"

definition js_splitStr :: "string \<Rightarrow> string \<Rightarrow> string list" where
  "js_splitStr sep s = js_splitStr_from sep 0 s"

text \<open>\<open>parts[1]\<close>.\<close>

definition secondPart :: "string list \<Rightarrow> string jsv" where
  "secondPart parts = (case parts of _ # p # _ \<Rightarrow> Val p | _ \<Rightarrow> Undefined)"

text \<open>The objects that \<open>parseGedcomData\<close> builds (\<open>md_\<close> for their fields).\<close>

record MemberData =
  md_name :: string
  md_birthDate :: "string jsv"
  md_deathDate :: "string jsv"
  md_birthPlace :: "string jsv"
  md_deathPlace :: "string jsv"
  md_notes :: string
  md_photos :: "string list"

text \<open>One line of \<open>parseGedcomData\<close>, on the array \<open>members\<close> and \<open>currentIndividual\<close>.\<close>

definition gedcomDataLine ::
    "MemberData list \<times> MemberData option \<Rightarrow> string \<Rightarrow> MemberData list \<times> MemberData option" where
  "gedcomDataLine st line =
     (let members = fst st; current = snd st; trimmed = js_trim line
      in if take 1 trimmed = ''0'' \<and> js_includes trimmed ''INDI'' then
           ((case current of None \<Rightarrow> members | Some c \<Rightarrow> members @ [c]),
            Some \<lparr>md_name = [], md_birthDate = Null, md_deathDate = Null, md_birthPlace = Null,
                  md_deathPlace = Null, md_notes = [], md_photos = []\<rparr>)
         else
           (case current of
              None \<Rightarrow> st
            | Some c \<Rightarrow>
                if js_includes trimmed ''NAME'' then
                  (members,
                   Some (c\<lparr>md_name := orElse (secondPart (js_splitStr ''NAME '' trimmed)) []\<rparr>))
                else if js_includes trimmed ''BIRT'' then st
                else if js_includes trimmed ''DEAT'' then st
                else if js_includes trimmed ''DATE'' then
                  (let date = secondPart (js_splitStr ''DATE '' trimmed)
                   in if \<not> truthyV (md_birthDate c) then (members, Some (c\<lparr>md_birthDate := date\<rparr>))
                      else if \<not> truthyV (md_deathDate c) then
                        (members, Some (c\<lparr>md_deathDate := date\<rparr>))
                      else st)
                else if js_includes trimmed ''PLAC'' then
                  (let place = secondPart (js_splitStr ''PLAC '' trimmed)
                   in if \<not> truthyV (md_birthPlace c) then
                        (members, Some (c\<lparr>md_birthPlace := place\<rparr>))
                      else if \<not> truthyV (md_deathPlace c) then
                        (members, Some (c\<lparr>md_deathPlace := place\<rparr>))
                      else st)
                else st))"

definition parseGedcomData :: "string \<Rightarrow> MemberData list" where
  "parseGedcomData gedcomText =
     (let st = foldl gedcomDataLine ([], None) (js_split CHR 0x0A gedcomText)
      in case snd st of None \<Rightarrow> fst st | Some c \<Rightarrow> fst st @ [c])"

text \<open>The body of \<open>for (const memberData of members)\<close>.\<close>

definition gedcomMember :: "World \<Rightarrow> UploadRun \<Rightarrow> MemberData \<Rightarrow> UploadRun" where
  "gedcomMember w run memberData =
     (if md_name memberData = [] then run
      else
        (let (member, sv1) = createFamilyMember w (server run)
               \<lparr>fm_name = Val (md_name memberData),
                fm_birthDate = md_birthDate memberData,
                fm_deathDate = md_deathDate memberData,
                fm_birthPlace = md_birthPlace memberData,
                fm_deathPlace = md_deathPlace memberData,
                fm_notes = Val (md_notes memberData),
                fm_photos = Val (md_photos memberData)\<rparr>;
             run1 = run\<lparr>server := sv1, createdMembers := createdMembers run @ [member]\<rparr>
         in foldl (processPlace w (md_birthDate memberData) (md_deathDate memberData) member)
              run1 (placesOf (md_birthPlace memberData) (md_deathPlace memberData))))"

text \<open>
  The handler, from the text of the uploaded file on. No step of it raises: the store
  cannot fail and \<open>geocodeLocation\<close> catches what its request throws; reading and deleting
  the uploaded file are outside the model.
\<close>

definition uploadGedcom :: "World \<Rightarrow> Server \<Rightarrow> string \<Rightarrow> UploadRun" where
  "uploadGedcom w sv gedcomData =
     foldl (gedcomMember w) (startRun sv) (parseGedcomData gedcomData)"

subsection \<open>\<open>POST /api/upload/csv\<close>\<close>

text \<open>\<open>v || null\<close> and \<open>v\<close> itself, for a \<open>v\<close> that is a string or \<open>undefined\<close>.\<close>

definition orNull :: "string option \<Rightarrow> string jsv" where
  "orNull v = (case v of None \<Rightarrow> Null | Some s \<Rightarrow> if s \<noteq> [] then Val s else Null)"

definition toJsv :: "string option \<Rightarrow> string jsv" where
  "toJsv v = (case v of None \<Rightarrow> Undefined | Some s \<Rightarrow> Val s)"

text \<open>The body of the loop over the data rows.\<close>

definition csvUploadRow :: "World \<Rightarrow> string list \<Rightarrow> UploadRun \<Rightarrow> string \<Rightarrow> UploadRun" where
  "csvUploadRow w headers run line =
     (let row = csvRow headers line
      in if \<not> truthy (row ''name'') then run
         else
           (let (member, sv1) = createFamilyMember w (server run)
                  \<lparr>fm_name = Val (orDefault (row ''name'') []),
                   fm_birthDate = orNull (js_or (row ''birth_date'') (row ''birthdate'')),
                   fm_deathDate = orNull (js_or (row ''death_date'') (row ''deathdate'')),
                   fm_birthPlace = orNull (js_or (row ''birth_place'') (row ''birthplace'')),
                   fm_deathPlace = orNull (js_or (row ''death_place'') (row ''deathplace'')),
                   fm_notes = Val (orDefault (row ''notes'') []),
                   fm_photos = Val []\<rparr>;
                run1 = run\<lparr>server := sv1, createdMembers := createdMembers run @ [member]\<rparr>
            in foldl (processPlace w (toJsv (js_or (row ''birth_date'') (row ''birthdate'')))
                        (toJsv (js_or (row ''death_date'') (row ''deathdate''))) member)
                 run1
                 (placesOf (toJsv (js_or (row ''birth_place'') (row ''birthplace'')))
                           (toJsv (js_or (row ''death_place'') (row ''deathplace''))))))"

datatype upload_response = BadRequest string | Processed UploadRun

definition uploadCsv :: "World \<Rightarrow> Server \<Rightarrow> string \<Rightarrow> upload_response" where
  "uploadCsv w sv csvData =
     (let lines = csvLines csvData
      in if length lines < 2 then BadRequest ''CSV file must have header and data rows''
         else Processed (foldl (csvUploadRow w (csvHeaders (lines ! 0))) (startRun sv)
                           (drop 1 lines)))"

section \<open>Properties of \<open>parseGedcom\<close>\<close>





text \<open>
  What holds of the error policy: a line whose level is not a number, or is none of 0, 1
  and 2, leaves the state as it is, and only a level-0 line can raise.
\<close>

lemma processLine_skips_other_levels:
  assumes "lineLevel line \<noteq> Some 0" and "lineLevel line \<noteq> Some 1" and "lineLevel line \<noteq> Some 2"
  shows "processLine st line = Inr st"
  using assms by (simp add: processLine_def)

lemma processLine_raises_only_at_level0:
  assumes "processLine st line = Inl e"
  shows "lineLevel line = Some 0 \<and> lineTag line = None"
  using assms
  by (auto simp: processLine_def level0_def Let_def split: if_splits option.splits)

text \<open>
  C3. The claim is that \<open>parseGedcom\<close> raises on no input. It does on a level-0 line that
  has no tag: for the text \<open>0\<close> the level is 0, \<open>parts[1]\<close> is \<open>undefined\<close>, and
  \<open>tag.includes('INDI')\<close> throws a TypeError. The branches for level 1 and level 2 only
  compare the tag and pass such a line.
\<close>

theorem parseGedcom_level0_without_tag_raises:
  "parseGedcom ''0'' = Inl TypeError"
  by code_simp

text \<open>
  C1. The claim is one emitted individual per level-0 \<open>INDI\<close> record. A GEDCOM record line
  reads \<open>0 @I1@ INDI\<close>; the parser looks for \<open>INDI\<close> in the second token, which is the
  cross-reference \<open>@I1@\<close>, so the record opens no individual and a text with one \<open>INDI\<close> record
  yields none. And where the second token does contain \<open>INDI\<close>, a following \<open>FAM\<close> record
  leaves the finished individual in \<open>currentIndividual\<close>, which is pushed once more at the
  next level-0 line or at the end of the input: one \<open>INDI\<close> record then yields two
  individuals.
\<close>

theorem parseGedcom_individual_count_differs:
  "parseGedcom (''0 @I1@ INDI'' @ [CHR 0x0A] @ ''1 NAME John /Smith/'' @ [CHR 0x0A] @ ''0 TRLR'')
     = Inr \<lparr>individuals = [], families = [], events = []\<rparr>
   \<and> parseGedcom (''0 INDI1'' @ [CHR 0x0A] @ ''0 FAM1'')
     = Inr \<lparr>individuals =
               [\<lparr>ind_id = ''INDI1'', ind_name = [], ind_birthDate = None, ind_deathDate = None,
                 ind_birthPlace = None, ind_deathPlace = None, ind_notes = None,
                 ind_events = []\<rparr>,
                \<lparr>ind_id = ''INDI1'', ind_name = [], ind_birthDate = None, ind_deathDate = None,
                 ind_birthPlace = None, ind_deathPlace = None, ind_notes = None,
                 ind_events = []\<rparr>],
            families =
               [\<lparr>fam_id = ''FAM1'', fam_husband = None, fam_wife = None, fam_children = [],
                 fam_marriageDate = None, fam_marriagePlace = None\<rparr>],
            events = []\<rparr>"
  by code_simp

section \<open>Properties of \<open>parseCsv\<close>\<close>

lemma truthy_orDefault: "truthy v \<Longrightarrow> orDefault v [] \<noteq> []"
  by (auto simp: truthy_def orDefault_def split: option.splits)
lemma csvRecord_Some:
  "csvRecord headers i line = Some r \<longleftrightarrow>
     truthy (csvRow headers line ''name'') \<and> r = csvIndividual (csvRow headers line) i"
  by (auto simp: csvRecord_def Let_def)
lemma js_or_pick:
  "js_or (js_or a b) None =
     (if a \<noteq> None \<and> a \<noteq> Some [] then a else if b \<noteq> None \<and> b \<noteq> Some [] then b else None)"
  by (auto simp: js_or_def truthy_def split: option.splits)
lemma csvIndividual_fields:
  "ind_name (csvIndividual row i) = orDefault (row ''name'') []"
  "ind_birthDate (csvIndividual row i) = js_or (js_or (row ''birth_date'') (row ''birthdate'')) None"
  "ind_deathDate (csvIndividual row i) = js_or (js_or (row ''death_date'') (row ''deathdate'')) None"
  "ind_birthPlace (csvIndividual row i) = js_or (js_or (row ''birth_place'') (row ''birthplace'')) None"
  "ind_deathPlace (csvIndividual row i) = js_or (js_or (row ''death_place'') (row ''deathplace'')) None"
  by (simp_all add: csvIndividual_def Let_def)

lemma csvRecord_aliases:
  assumes "csvRecord headers i line = Some r"
  shows "(let row = csvRow headers line;
             pick = (\<lambda>a b. if a \<noteq> None \<and> a \<noteq> Some [] then a
                            else if b \<noteq> None \<and> b \<noteq> Some [] then b else None)
         in ind_birthDate r = pick (row ''birth_date'') (row ''birthdate'')
          \<and> ind_deathDate r = pick (row ''death_date'') (row ''deathdate'')
          \<and> ind_birthPlace r = pick (row ''birth_place'') (row ''birthplace'')
          \<and> ind_deathPlace r = pick (row ''death_place'') (row ''deathplace''))"
proof -
  from assms have r: "r = csvIndividual (csvRow headers line) i" by (simp add: csvRecord_Some)
  show ?thesis
    unfolding Let_def r csvIndividual_fields js_or_pick by (intro conjI refl)
qed
lemma csvRecord_name:
  assumes "csvRecord headers i line = Some r"
  shows "ind_name r \<noteq> []"
proof -
  from assms have t: "truthy (csvRow headers line ''name'')"
    and r: "r = csvIndividual (csvRow headers line) i"
    by (simp_all add: csvRecord_Some)
  show ?thesis
    unfolding r csvIndividual_fields using t by (rule truthy_orDefault)
qed

lemma csvLoop_enumerate:
  "csvLoop headers i ls acc
     = acc @ List.map_filter (\<lambda>(k, l). csvRecord headers k l) (List.enumerate i ls)"
  by (induction ls arbitrary: i acc) (auto simp: List.map_filter_simps split: option.splits)

lemma parseCsv_rows:
  "parseCsv text =
     (if length (csvLines text) < 2 then []
      else List.map_filter (\<lambda>(i, l). csvRecord (csvHeaders (csvLines text ! 0)) i l)
             (List.enumerate 1 (drop 1 (csvLines text))))"
  by (simp add: parseCsv_def Let_def csvLoop_enumerate)

lemma set_map_filter: "set (List.map_filter f xs) = {y. \<exists>x \<in> set xs. f x = Some y}"
  by (induction xs) (auto simp: List.map_filter_simps split: option.splits)

lemma parseCsv_names:
  assumes "r \<in> set (parseCsv text)"
  shows "ind_name r \<noteq> []"
proof -
  from assms obtain i l where "csvRecord (csvHeaders (csvLines text ! 0)) i l = Some r"
    by (auto simp: parseCsv_rows set_map_filter split: if_splits)
  then show ?thesis by (rule csvRecord_name)
qed

lemma toLowerChar_idem: "toLowerChar (toLowerChar c) = toLowerChar c"
  by (auto simp: toLowerChar_def Let_def)

lemma isWhiteSpace_toLowerChar: "isWhiteSpace (toLowerChar c) = isWhiteSpace c"
  by (auto simp: isWhiteSpace_def toLowerChar_def Let_def)

lemma js_trim_ends:
  assumes "js_trim s \<noteq> []"
  shows "\<not> isWhiteSpace (hd (js_trim s)) \<and> \<not> isWhiteSpace (last (js_trim s))"
proof -
  let ?u = "dropWhile isWhiteSpace s"
  let ?v = "dropWhile isWhiteSpace (rev ?u)"
  have v: "?v \<noteq> []" using assms by (simp add: js_trim_def)
  have u: "?u \<noteq> []"
  proof
    assume a: "?u = []"
    have "?v = []" unfolding a by simp
    with v show False by simp
  qed
  have "last (js_trim s) = hd ?v" using v by (simp add: js_trim_def last_rev)
  moreover have "\<not> isWhiteSpace (hd ?v)" using v by (rule hd_dropWhile)
  moreover have "hd (js_trim s) = last ?v" using v by (simp add: js_trim_def hd_rev)
  moreover have "last ?v = last (rev ?u)"
    using v by (metis append_Nil2 last_appendR takeWhile_dropWhile_id)
  moreover have "last (rev ?u) = hd ?u" using u by (simp add: last_rev)
  moreover have "\<not> isWhiteSpace (hd ?u)" using u by (rule hd_dropWhile)
  ultimately show ?thesis by simp
qed

lemma csvHeaders_normalised:
  assumes "h \<in> set (csvHeaders l)"
  shows "(\<forall>c \<in> set h. toLowerChar c = c)
         \<and> (h \<noteq> [] \<longrightarrow> \<not> isWhiteSpace (hd h) \<and> \<not> isWhiteSpace (last h))"
proof -
  from assms obtain raw where h: "h = toLowerCase (js_trim raw)"
    by (auto simp: csvHeaders_def)
  have "\<forall>c \<in> set h. toLowerChar c = c"
    by (auto simp: h toLowerCase_def toLowerChar_idem)
  moreover have "h \<noteq> [] \<longrightarrow> \<not> isWhiteSpace (hd h) \<and> \<not> isWhiteSpace (last h)"
    using js_trim_ends [of raw]
    by (auto simp: h toLowerCase_def hd_map last_map isWhiteSpace_toLowerChar)
  ultimately show ?thesis by simp
qed

text \<open>
  C5. The header \<open>name,birth_date,birth_place\<close> with the one data row
  \<open>Jane Doe,1900,Boston\<close> gives exactly one record, with birth date \<open>1900\<close>, birth place
  \<open>Boston\<close> and exactly one event, the synthesized birth event. In general every header
  name is lower-cased and trimmed: it holds no letter with a lower case of its own and
  neither starts nor ends with white space. And every record of the output comes from a
  data row, numbered from 1, whose \<open>name\<close> column is its name, and each of its four date and
  place fields is the merge of the two alias columns: the first alias when it is non-empty,
  otherwise the second when that is non-empty, otherwise absent.
\<close>

theorem parseCsv_jane_doe_and_aliases:
  "parseCsv (''name,birth_date,birth_place'' @ [CHR 0x0A] @ ''Jane Doe,1900,Boston'')
     = [\<lparr>ind_id = ''I1'', ind_name = ''Jane Doe'', ind_birthDate = Some ''1900'',
         ind_deathDate = None, ind_birthPlace = Some ''Boston'', ind_deathPlace = None,
         ind_notes = None,
         ind_events = [\<lparr>ev_type = ''birth'', ev_date = Some ''1900'',
                          ev_place = Some ''Boston'',
                          ev_description = Some ''Born in Boston''\<rparr>]\<rparr>]
   \<and> (\<forall>headerLine. \<forall>h \<in> set (csvHeaders headerLine).
         (\<forall>c \<in> set h. toLowerChar c = c)
         \<and> (h \<noteq> [] \<longrightarrow> \<not> isWhiteSpace (hd h) \<and> \<not> isWhiteSpace (last h)))
   \<and> (\<forall>csvText. \<forall>r \<in> set (parseCsv csvText).
         \<exists>i line. (i, line) \<in> set (List.enumerate 1 (drop 1 (csvLines csvText)))
           \<and> (let row = csvRow (csvHeaders (csvLines csvText ! 0)) line;
                   pick = (\<lambda>a b. if a \<noteq> None \<and> a \<noteq> Some [] then a
                                  else if b \<noteq> None \<and> b \<noteq> Some [] then b else None)
               in ind_id r = ''I'' @ showNat i
                \<and> row ''name'' = Some (ind_name r)
                \<and> ind_birthDate r = pick (row ''birth_date'') (row ''birthdate'')
                \<and> ind_deathDate r = pick (row ''death_date'') (row ''deathdate'')
                \<and> ind_birthPlace r = pick (row ''birth_place'') (row ''birthplace'')
                \<and> ind_deathPlace r = pick (row ''death_place'') (row ''deathplace'')))"
proof -
  have jane: "parseCsv (''name,birth_date,birth_place'' @ [CHR 0x0A] @ ''Jane Doe,1900,Boston'')
     = [\<lparr>ind_id = ''I1'', ind_name = ''Jane Doe'', ind_birthDate = Some ''1900'',
         ind_deathDate = None, ind_birthPlace = Some ''Boston'', ind_deathPlace = None,
         ind_notes = None,
         ind_events = [\<lparr>ev_type = ''birth'', ev_date = Some ''1900'',
                          ev_place = Some ''Boston'',
                          ev_description = Some ''Born in Boston''\<rparr>]\<rparr>]"
    by code_simp
  have hdr: "\<forall>headerLine. \<forall>h \<in> set (csvHeaders headerLine).
         (\<forall>c \<in> set h. toLowerChar c = c)
         \<and> (h \<noteq> [] \<longrightarrow> \<not> isWhiteSpace (hd h) \<and> \<not> isWhiteSpace (last h))"
    using csvHeaders_normalised by blast
  have rows: "\<exists>i line. (i, line) \<in> set (List.enumerate 1 (drop 1 (csvLines csvText)))
           \<and> (let row = csvRow (csvHeaders (csvLines csvText ! 0)) line;
                   pick = (\<lambda>a b. if a \<noteq> None \<and> a \<noteq> Some [] then a
                                  else if b \<noteq> None \<and> b \<noteq> Some [] then b else None)
               in ind_id r = ''I'' @ showNat i
                \<and> row ''name'' = Some (ind_name r)
                \<and> ind_birthDate r = pick (row ''birth_date'') (row ''birthdate'')
                \<and> ind_deathDate r = pick (row ''death_date'') (row ''deathdate'')
                \<and> ind_birthPlace r = pick (row ''birth_place'') (row ''birthplace'')
                \<and> ind_deathPlace r = pick (row ''death_place'') (row ''deathplace''))"
    if "r \<in> set (parseCsv csvText)" for csvText r
  proof -
    from that obtain i line where
      il: "(i, line) \<in> set (List.enumerate 1 (drop 1 (csvLines csvText)))"
      and rec: "csvRecord (csvHeaders (csvLines csvText ! 0)) i line = Some r"
      by (auto simp: parseCsv_rows set_map_filter split: if_splits)
    let ?row = "csvRow (csvHeaders (csvLines csvText ! 0)) line"
    from rec have t: "truthy (?row ''name'')" and r: "r = csvIndividual ?row i"
      by (simp_all add: csvRecord_Some)
    have id: "ind_id r = ''I'' @ showNat i"
      by (simp add: r csvIndividual_def Let_def)
    have name: "?row ''name'' = Some (ind_name r)"
      using t unfolding r csvIndividual_fields
      by (auto simp: truthy_def orDefault_def split: option.splits)
    show ?thesis
      using il id name csvRecord_aliases [OF rec]
      unfolding Let_def by blast
  qed
  show ?thesis
    using jane hdr rows by blast
qed

theorem parseCsv_jane_doe_and_aliases_witness:
  "''name'' \<in> set (csvHeaders '' Name ,BIRTH_DATE'')
   \<and> \<not> isWhiteSpace (hd ''name'') \<and> \<not> isWhiteSpace (last ''name'')
   \<and> \<lparr>ind_id = ''I1'', ind_name = ''Jane'', ind_birthDate = Some ''1900'',
       ind_deathDate = None, ind_birthPlace = None, ind_deathPlace = None, ind_notes = None,
       ind_events = [\<lparr>ev_type = ''birth'', ev_date = Some ''1900'', ev_place = None,
                        ev_description = Some ''Born in unknown location''\<rparr>]\<rparr>
       \<in> set (parseCsv (''name,birth_date,birthdate'' @ [CHR 0x0A] @ ''Jane,,1900''))
   \<and> (\<exists>i line.
         (i, line) \<in> set (List.enumerate 1
            (drop 1 (csvLines (''name,birth_date,birthdate'' @ [CHR 0x0A] @ ''Jane,,1900''))))
         \<and> csvRow (csvHeaders
              (csvLines (''name,birth_date,birthdate'' @ [CHR 0x0A] @ ''Jane,,1900'') ! 0))
              line ''name'' = Some ''Jane'')"
proof -
  let ?t = "''name,birth_date,birthdate'' @ [CHR 0x0A] @ ''Jane,,1900''"
  let ?r = "\<lparr>ind_id = ''I1'', ind_name = ''Jane'', ind_birthDate = Some ''1900'',
       ind_deathDate = None, ind_birthPlace = None, ind_deathPlace = None, ind_notes = None,
       ind_events = [\<lparr>ev_type = ''birth'', ev_date = Some ''1900'', ev_place = None,
                        ev_description = Some ''Born in unknown location''\<rparr>]\<rparr>"
  have h: "''name'' \<in> set (csvHeaders '' Name ,BIRTH_DATE'')" by code_simp
  have m: "?r \<in> set (parseCsv ?t)" by code_simp
  note hdr = parseCsv_jane_doe_and_aliases [THEN conjunct2, THEN conjunct1, rule_format, OF h]
  note row = parseCsv_jane_doe_and_aliases [THEN conjunct2, THEN conjunct2, rule_format, OF m]
  from hdr have "\<not> isWhiteSpace (hd ''name'') \<and> \<not> isWhiteSpace (last ''name'')" by simp
  moreover from row have "\<exists>i line.
         (i, line) \<in> set (List.enumerate 1 (drop 1 (csvLines ?t)))
         \<and> csvRow (csvHeaders (csvLines ?t ! 0)) line ''name'' = Some ''Jane''"
    unfolding Let_def by (simp only: GedcomIndividual.select_convs) blast
  ultimately show ?thesis using h m by simp
qed

text \<open>
  C8. The output of \<open>parseCsv\<close> is the concatenation, in row order, of what each data row
  contributes, and a row whose \<open>name\<close> column is missing or empty contributes nothing; so
  every record of the output has a non-empty name. The function reads nothing but its
  argument, so equal inputs give equal outputs and the same rows are skipped on every run.
\<close>

theorem parseCsv_skips_rows_without_name:
  "(\<forall>csvText. parseCsv csvText =
       (if length (csvLines csvText) < 2 then []
        else concat (map (\<lambda>(i, line).
                 case csvRecord (csvHeaders (csvLines csvText ! 0)) i line of
                   None \<Rightarrow> [] | Some r \<Rightarrow> [r])
               (List.enumerate 1 (drop 1 (csvLines csvText))))))
   \<and> (\<forall>headers i line.
         csvRow headers line ''name'' = None \<or> csvRow headers line ''name'' = Some []
           \<longrightarrow> csvRecord headers i line = None)
   \<and> (\<forall>csvText. \<forall>r \<in> set (parseCsv csvText). ind_name r \<noteq> [])
   \<and> (\<forall>t1 t2. t1 = t2 \<longrightarrow> parseCsv t1 = parseCsv t2)"
proof -
  have mf: "List.map_filter f xs = concat (map (\<lambda>x. case f x of None \<Rightarrow> [] | Some r \<Rightarrow> [r]) xs)"
    for f :: "nat \<times> string \<Rightarrow> GedcomIndividual option" and xs
    by (induction xs) (auto simp: List.map_filter_simps split: option.splits)
  have rows: "\<forall>csvText. parseCsv csvText =
       (if length (csvLines csvText) < 2 then []
        else concat (map (\<lambda>(i, line).
                 case csvRecord (csvHeaders (csvLines csvText ! 0)) i line of
                   None \<Rightarrow> [] | Some r \<Rightarrow> [r])
               (List.enumerate 1 (drop 1 (csvLines csvText)))))"
    by (simp add: parseCsv_rows mf case_prod_unfold)
  have skip: "\<forall>headers i line.
         csvRow headers line ''name'' = None \<or> csvRow headers line ''name'' = Some []
           \<longrightarrow> csvRecord headers i line = None"
    by (auto simp: csvRecord_def Let_def truthy_def)
  have names: "\<forall>csvText. \<forall>r \<in> set (parseCsv csvText). ind_name r \<noteq> []"
    using parseCsv_names by blast
  have det: "\<forall>t1 t2. t1 = t2 \<longrightarrow> parseCsv t1 = parseCsv t2"
    by simp
  show ?thesis
    by (intro conjI rows skip names det)
qed

theorem parseCsv_skips_rows_without_name_witness:
  "csvRow [''name'', ''birth_date''] '',1900'' ''name'' = Some []
   \<and> csvRecord [''name'', ''birth_date''] 1 '',1900'' = None
   \<and> parseCsv (''name,birth_date'' @ [CHR 0x0A] @ '',1900'' @ [CHR 0x0A] @ ''Jane,1901'')
       = [\<lparr>ind_id = ''I2'', ind_name = ''Jane'', ind_birthDate = Some ''1901'',
           ind_deathDate = None, ind_birthPlace = None, ind_deathPlace = None,
           ind_notes = None,
           ind_events = [\<lparr>ev_type = ''birth'', ev_date = Some ''1901'', ev_place = None,
                            ev_description = Some ''Born in unknown location''\<rparr>]\<rparr>]"
proof -
  have e: "csvRow [''name'', ''birth_date''] '',1900'' ''name'' = Some []" by code_simp
  note skip = parseCsv_skips_rows_without_name [THEN conjunct2, THEN conjunct1, rule_format,
      of "[''name'', ''birth_date'']" "'',1900''" 1, OF disjI2, OF e]
  have p: "parseCsv (''name,birth_date'' @ [CHR 0x0A] @ '',1900'' @ [CHR 0x0A] @ ''Jane,1901'')
       = [\<lparr>ind_id = ''I2'', ind_name = ''Jane'', ind_birthDate = Some ''1901'',
           ind_deathDate = None, ind_birthPlace = None, ind_deathPlace = None,
           ind_notes = None,
           ind_events = [\<lparr>ev_type = ''birth'', ev_date = Some ''1901'', ev_place = None,
                            ev_description = Some ''Born in unknown location''\<rparr>]\<rparr>]"
    by code_simp
  show ?thesis using e skip p by simp
qed

section \<open>Properties of \<open>MemStorage\<close>\<close>

lemma update_keeps_keys:
  "map_of al k = Some v \<Longrightarrow> map fst (AList.update k w al) = map fst al"
  by (induction al) (auto split: if_splits)

text \<open>
  C10, as the code has it. For each of the six collections of the store and every call
  \<open>update(id, updateData)\<close>: when \<open>id\<close> is not in the collection the call returns
  \<open>undefined\<close> and the store is unchanged; when it is, the call returns the updated entity,
  which is what the collection then holds at \<open>id\<close>; every property that \<open>updateData\<close> does
  not have is that of the old entity, and this includes \<open>id\<close> and \<open>createdAt\<close> (and
  \<open>lastGenerated\<close> of an atlas project), which are kept when \<open>updateData\<close> has none and
  take its value when it has one; every other key of the collection maps to what it did, the
  keys keep their order, and the five other collections are unchanged.
\<close>

theorem update_changes_only_named_fields:
  "(\<forall>s ident updateData.
       (map_of (familyMembers s) ident = None \<longrightarrow> updateFamilyMember s ident updateData = (None, s))
     \<and> (\<forall>old. map_of (familyMembers s) ident = Some old \<longrightarrow>
          (\<exists>updated s'. updateFamilyMember s ident updateData = (Some updated, s')
             \<and> map_of (familyMembers s') ident = Some updated
             \<and> (pfm_createdAt updateData = None \<longrightarrow> fm_createdAt updated = fm_createdAt old)
             \<and> (pfm_id updateData = None \<longrightarrow> fm_id updated = fm_id old)
             \<and> (pfm_name updateData = None \<longrightarrow> fm_name updated = fm_name old)
             \<and> (pfm_birthDate updateData = None \<longrightarrow> fm_birthDate updated = fm_birthDate old)
             \<and> (pfm_deathDate updateData = None \<longrightarrow> fm_deathDate updated = fm_deathDate old)
             \<and> (pfm_birthPlace updateData = None \<longrightarrow> fm_birthPlace updated = fm_birthPlace old)
             \<and> (pfm_deathPlace updateData = None \<longrightarrow> fm_deathPlace updated = fm_deathPlace old)
             \<and> (pfm_notes updateData = None \<longrightarrow> fm_notes updated = fm_notes old)
             \<and> (pfm_photos updateData = None \<longrightarrow> fm_photos updated = fm_photos old)
             \<and> (\<forall>v. pfm_createdAt updateData = Some v \<longrightarrow> fm_createdAt updated = v)
             \<and> (\<forall>v. pfm_id updateData = Some v \<longrightarrow> fm_id updated = v)
             \<and> (\<forall>other. other \<noteq> ident \<longrightarrow> map_of (familyMembers s') other = map_of (familyMembers s) other)
             \<and> map fst (familyMembers s') = map fst (familyMembers s)
             \<and> s'\<lparr>familyMembers := familyMembers s\<rparr> = s)))
 \<and> (\<forall>s ident updateData.
       (map_of (locations s) ident = None \<longrightarrow> updateLocation s ident updateData = (None, s))
     \<and> (\<forall>old. map_of (locations s) ident = Some old \<longrightarrow>
          (\<exists>updated s'. updateLocation s ident updateData = (Some updated, s')
             \<and> map_of (locations s') ident = Some updated
             \<and> (ploc_createdAt updateData = None \<longrightarrow> loc_createdAt updated = loc_createdAt old)
             \<and> (ploc_id updateData = None \<longrightarrow> loc_id updated = loc_id old)
             \<and> (ploc_name updateData = None \<longrightarrow> loc_name updated = loc_name old)
             \<and> (ploc_latitude updateData = None \<longrightarrow> loc_latitude updated = loc_latitude old)
             \<and> (ploc_longitude updateData = None \<longrightarrow> loc_longitude updated = loc_longitude old)
             \<and> (ploc_address updateData = None \<longrightarrow> loc_address updated = loc_address old)
             \<and> (ploc_locationType updateData = None \<longrightarrow> loc_locationType updated = loc_locationType old)
             \<and> (ploc_timeSpan updateData = None \<longrightarrow> loc_timeSpan updated = loc_timeSpan old)
             \<and> (ploc_memberCount updateData = None \<longrightarrow> loc_memberCount updated = loc_memberCount old)
             \<and> (\<forall>v. ploc_createdAt updateData = Some v \<longrightarrow> loc_createdAt updated = v)
             \<and> (\<forall>v. ploc_id updateData = Some v \<longrightarrow> loc_id updated = v)
             \<and> (\<forall>other. other \<noteq> ident \<longrightarrow> map_of (locations s') other = map_of (locations s) other)
             \<and> map fst (locations s') = map fst (locations s)
             \<and> s'\<lparr>locations := locations s\<rparr> = s)))
 \<and> (\<forall>s ident updateData.
       (map_of (events_map s) ident = None \<longrightarrow> updateEvent s ident updateData = (None, s))
     \<and> (\<forall>old. map_of (events_map s) ident = Some old \<longrightarrow>
          (\<exists>updated s'. updateEvent s ident updateData = (Some updated, s')
             \<and> map_of (events_map s') ident = Some updated
             \<and> (pevt_createdAt updateData = None \<longrightarrow> evt_createdAt updated = evt_createdAt old)
             \<and> (pevt_id updateData = None \<longrightarrow> evt_id updated = evt_id old)
             \<and> (pevt_memberId updateData = None \<longrightarrow> evt_memberId updated = evt_memberId old)
             \<and> (pevt_locationId updateData = None \<longrightarrow> evt_locationId updated = evt_locationId old)
             \<and> (pevt_eventType updateData = None \<longrightarrow> evt_eventType updated = evt_eventType old)
             \<and> (pevt_eventDate updateData = None \<longrightarrow> evt_eventDate updated = evt_eventDate old)
             \<and> (pevt_description updateData = None \<longrightarrow> evt_description updated = evt_description old)
             \<and> (pevt_notes updateData = None \<longrightarrow> evt_notes updated = evt_notes old)
             \<and> (\<forall>v. pevt_createdAt updateData = Some v \<longrightarrow> evt_createdAt updated = v)
             \<and> (\<forall>v. pevt_id updateData = Some v \<longrightarrow> evt_id updated = v)
             \<and> (\<forall>other. other \<noteq> ident \<longrightarrow> map_of (events_map s') other = map_of (events_map s) other)
             \<and> map fst (events_map s') = map fst (events_map s)
             \<and> s'\<lparr>events_map := events_map s\<rparr> = s)))
 \<and> (\<forall>s ident updateData.
       (map_of (stories s) ident = None \<longrightarrow> updateStory s ident updateData = (None, s))
     \<and> (\<forall>old. map_of (stories s) ident = Some old \<longrightarrow>
          (\<exists>updated s'. updateStory s ident updateData = (Some updated, s')
             \<and> map_of (stories s') ident = Some updated
             \<and> (psty_createdAt updateData = None \<longrightarrow> sty_createdAt updated = sty_createdAt old)
             \<and> (psty_id updateData = None \<longrightarrow> sty_id updated = sty_id old)
             \<and> (psty_title updateData = None \<longrightarrow> sty_title updated = sty_title old)
             \<and> (psty_content updateData = None \<longrightarrow> sty_content updated = sty_content old)
             \<and> (psty_locationId updateData = None \<longrightarrow> sty_locationId updated = sty_locationId old)
             \<and> (psty_memberIds updateData = None \<longrightarrow> sty_memberIds updated = sty_memberIds old)
             \<and> (psty_eventIds updateData = None \<longrightarrow> sty_eventIds updated = sty_eventIds old)
             \<and> (psty_isGenerated updateData = None \<longrightarrow> sty_isGenerated updated = sty_isGenerated old)
             \<and> (\<forall>v. psty_createdAt updateData = Some v \<longrightarrow> sty_createdAt updated = v)
             \<and> (\<forall>v. psty_id updateData = Some v \<longrightarrow> sty_id updated = v)
             \<and> (\<forall>other. other \<noteq> ident \<longrightarrow> map_of (stories s') other = map_of (stories s) other)
             \<and> map fst (stories s') = map fst (stories s)
             \<and> s'\<lparr>stories := stories s\<rparr> = s)))
 \<and> (\<forall>s ident updateData.
       (map_of (geopackageLayers s) ident = None \<longrightarrow> updateGeopackageLayer s ident updateData = (None, s))
     \<and> (\<forall>old. map_of (geopackageLayers s) ident = Some old \<longrightarrow>
          (\<exists>updated s'. updateGeopackageLayer s ident updateData = (Some updated, s')
             \<and> map_of (geopackageLayers s') ident = Some updated
             \<and> (pgpl_createdAt updateData = None \<longrightarrow> gpl_createdAt updated = gpl_createdAt old)
             \<and> (pgpl_id updateData = None \<longrightarrow> gpl_id updated = gpl_id old)
             \<and> (pgpl_name updateData = None \<longrightarrow> gpl_name updated = gpl_name old)
             \<and> (pgpl_fileName updateData = None \<longrightarrow> gpl_fileName updated = gpl_fileName old)
             \<and> (pgpl_layerName updateData = None \<longrightarrow> gpl_layerName updated = gpl_layerName old)
             \<and> (pgpl_layerType updateData = None \<longrightarrow> gpl_layerType updated = gpl_layerType old)
             \<and> (pgpl_isVisible updateData = None \<longrightarrow> gpl_isVisible updated = gpl_isVisible old)
             \<and> (pgpl_style updateData = None \<longrightarrow> gpl_style updated = gpl_style old)
             \<and> (pgpl_bounds updateData = None \<longrightarrow> gpl_bounds updated = gpl_bounds old)
             \<and> (\<forall>v. pgpl_createdAt updateData = Some v \<longrightarrow> gpl_createdAt updated = v)
             \<and> (\<forall>v. pgpl_id updateData = Some v \<longrightarrow> gpl_id updated = v)
             \<and> (\<forall>other. other \<noteq> ident \<longrightarrow> map_of (geopackageLayers s') other = map_of (geopackageLayers s) other)
             \<and> map fst (geopackageLayers s') = map fst (geopackageLayers s)
             \<and> s'\<lparr>geopackageLayers := geopackageLayers s\<rparr> = s)))
 \<and> (\<forall>s ident updateData.
       (map_of (atlasProjects s) ident = None \<longrightarrow> updateAtlasProject s ident updateData = (None, s))
     \<and> (\<forall>old. map_of (atlasProjects s) ident = Some old \<longrightarrow>
          (\<exists>updated s'. updateAtlasProject s ident updateData = (Some updated, s')
             \<and> map_of (atlasProjects s') ident = Some updated
             \<and> (pap_createdAt updateData = None \<longrightarrow> ap_createdAt updated = ap_createdAt old)
             \<and> (pap_id updateData = None \<longrightarrow> ap_id updated = ap_id old)
             \<and> (pap_lastGenerated updateData = None \<longrightarrow> ap_lastGenerated updated = ap_lastGenerated old)
             \<and> (pap_name updateData = None \<longrightarrow> ap_name updated = ap_name old)
             \<and> (pap_description updateData = None \<longrightarrow> ap_description updated = ap_description old)
             \<and> (pap_memberCount updateData = None \<longrightarrow> ap_memberCount updated = ap_memberCount old)
             \<and> (pap_locationCount updateData = None \<longrightarrow> ap_locationCount updated = ap_locationCount old)
             \<and> (pap_storyCount updateData = None \<longrightarrow> ap_storyCount updated = ap_storyCount old)
             \<and> (pap_timeSpan updateData = None \<longrightarrow> ap_timeSpan updated = ap_timeSpan old)
             \<and> (\<forall>v. pap_createdAt updateData = Some v \<longrightarrow> ap_createdAt updated = v)
             \<and> (\<forall>v. pap_id updateData = Some v \<longrightarrow> ap_id updated = v)
             \<and> (\<forall>v. pap_lastGenerated updateData = Some v \<longrightarrow> ap_lastGenerated updated = v)
             \<and> (\<forall>other. other \<noteq> ident \<longrightarrow> map_of (atlasProjects s') other = map_of (atlasProjects s) other)
             \<and> map fst (atlasProjects s') = map fst (atlasProjects s)
             \<and> s'\<lparr>atlasProjects := atlasProjects s\<rparr> = s)))"
proof -
  have fm: "(\<forall>s ident updateData.
       (map_of (familyMembers s) ident = None \<longrightarrow> updateFamilyMember s ident updateData = (None, s))
     \<and> (\<forall>old. map_of (familyMembers s) ident = Some old \<longrightarrow>
          (\<exists>updated s'. updateFamilyMember s ident updateData = (Some updated, s')
             \<and> map_of (familyMembers s') ident = Some updated
             \<and> (pfm_createdAt updateData = None \<longrightarrow> fm_createdAt updated = fm_createdAt old)
             \<and> (pfm_id updateData = None \<longrightarrow> fm_id updated = fm_id old)
             \<and> (pfm_name updateData = None \<longrightarrow> fm_name updated = fm_name old)
             \<and> (pfm_birthDate updateData = None \<longrightarrow> fm_birthDate updated = fm_birthDate old)
             \<and> (pfm_deathDate updateData = None \<longrightarrow> fm_deathDate updated = fm_deathDate old)
             \<and> (pfm_birthPlace updateData = None \<longrightarrow> fm_birthPlace updated = fm_birthPlace old)
             \<and> (pfm_deathPlace updateData = None \<longrightarrow> fm_deathPlace updated = fm_deathPlace old)
             \<and> (pfm_notes updateData = None \<longrightarrow> fm_notes updated = fm_notes old)
             \<and> (pfm_photos updateData = None \<longrightarrow> fm_photos updated = fm_photos old)
             \<and> (\<forall>v. pfm_createdAt updateData = Some v \<longrightarrow> fm_createdAt updated = v)
             \<and> (\<forall>v. pfm_id updateData = Some v \<longrightarrow> fm_id updated = v)
             \<and> (\<forall>other. other \<noteq> ident \<longrightarrow> map_of (familyMembers s') other = map_of (familyMembers s) other)
             \<and> map fst (familyMembers s') = map fst (familyMembers s)
             \<and> s'\<lparr>familyMembers := familyMembers s\<rparr> = s)))"
    unfolding updateFamilyMember_def Let_def
    by (auto simp: spreadOver_def update_conv' update_keeps_keys split: option.splits)
  have loc: "(\<forall>s ident updateData.
       (map_of (locations s) ident = None \<longrightarrow> updateLocation s ident updateData = (None, s))
     \<and> (\<forall>old. map_of (locations s) ident = Some old \<longrightarrow>
          (\<exists>updated s'. updateLocation s ident updateData = (Some updated, s')
             \<and> map_of (locations s') ident = Some updated
             \<and> (ploc_createdAt updateData = None \<longrightarrow> loc_createdAt updated = loc_createdAt old)
             \<and> (ploc_id updateData = None \<longrightarrow> loc_id updated = loc_id old)
             \<and> (ploc_name updateData = None \<longrightarrow> loc_name updated = loc_name old)
             \<and> (ploc_latitude updateData = None \<longrightarrow> loc_latitude updated = loc_latitude old)
             \<and> (ploc_longitude updateData = None \<longrightarrow> loc_longitude updated = loc_longitude old)
             \<and> (ploc_address updateData = None \<longrightarrow> loc_address updated = loc_address old)
             \<and> (ploc_locationType updateData = None \<longrightarrow> loc_locationType updated = loc_locationType old)
             \<and> (ploc_timeSpan updateData = None \<longrightarrow> loc_timeSpan updated = loc_timeSpan old)
             \<and> (ploc_memberCount updateData = None \<longrightarrow> loc_memberCount updated = loc_memberCount old)
             \<and> (\<forall>v. ploc_createdAt updateData = Some v \<longrightarrow> loc_createdAt updated = v)
             \<and> (\<forall>v. ploc_id updateData = Some v \<longrightarrow> loc_id updated = v)
             \<and> (\<forall>other. other \<noteq> ident \<longrightarrow> map_of (locations s') other = map_of (locations s) other)
             \<and> map fst (locations s') = map fst (locations s)
             \<and> s'\<lparr>locations := locations s\<rparr> = s)))"
    unfolding updateLocation_def Let_def
    by (auto simp: spreadOver_def update_conv' update_keeps_keys split: option.splits)
  have evt: "(\<forall>s ident updateData.
       (map_of (events_map s) ident = None \<longrightarrow> updateEvent s ident updateData = (None, s))
     \<and> (\<forall>old. map_of (events_map s) ident = Some old \<longrightarrow>
          (\<exists>updated s'. updateEvent s ident updateData = (Some updated, s')
             \<and> map_of (events_map s') ident = Some updated
             \<and> (pevt_createdAt updateData = None \<longrightarrow> evt_createdAt updated = evt_createdAt old)
             \<and> (pevt_id updateData = None \<longrightarrow> evt_id updated = evt_id old)
             \<and> (pevt_memberId updateData = None \<longrightarrow> evt_memberId updated = evt_memberId old)
             \<and> (pevt_locationId updateData = None \<longrightarrow> evt_locationId updated = evt_locationId old)
             \<and> (pevt_eventType updateData = None \<longrightarrow> evt_eventType updated = evt_eventType old)
             \<and> (pevt_eventDate updateData = None \<longrightarrow> evt_eventDate updated = evt_eventDate old)
             \<and> (pevt_description updateData = None \<longrightarrow> evt_description updated = evt_description old)
             \<and> (pevt_notes updateData = None \<longrightarrow> evt_notes updated = evt_notes old)
             \<and> (\<forall>v. pevt_createdAt updateData = Some v \<longrightarrow> evt_createdAt updated = v)
             \<and> (\<forall>v. pevt_id updateData = Some v \<longrightarrow> evt_id updated = v)
             \<and> (\<forall>other. other \<noteq> ident \<longrightarrow> map_of (events_map s') other = map_of (events_map s) other)
             \<and> map fst (events_map s') = map fst (events_map s)
             \<and> s'\<lparr>events_map := events_map s\<rparr> = s)))"
    unfolding updateEvent_def Let_def
    by (auto simp: spreadOver_def update_conv' update_keeps_keys split: option.splits)
  have sty: "(\<forall>s ident updateData.
       (map_of (stories s) ident = None \<longrightarrow> updateStory s ident updateData = (None, s))
     \<and> (\<forall>old. map_of (stories s) ident = Some old \<longrightarrow>
          (\<exists>updated s'. updateStory s ident updateData = (Some updated, s')
             \<and> map_of (stories s') ident = Some updated
             \<and> (psty_createdAt updateData = None \<longrightarrow> sty_createdAt updated = sty_createdAt old)
             \<and> (psty_id updateData = None \<longrightarrow> sty_id updated = sty_id old)
             \<and> (psty_title updateData = None \<longrightarrow> sty_title updated = sty_title old)
             \<and> (psty_content updateData = None \<longrightarrow> sty_content updated = sty_content old)
             \<and> (psty_locationId updateData = None \<longrightarrow> sty_locationId updated = sty_locationId old)
             \<and> (psty_memberIds updateData = None \<longrightarrow> sty_memberIds updated = sty_memberIds old)
             \<and> (psty_eventIds updateData = None \<longrightarrow> sty_eventIds updated = sty_eventIds old)
             \<and> (psty_isGenerated updateData = None \<longrightarrow> sty_isGenerated updated = sty_isGenerated old)
             \<and> (\<forall>v. psty_createdAt updateData = Some v \<longrightarrow> sty_createdAt updated = v)
             \<and> (\<forall>v. psty_id updateData = Some v \<longrightarrow> sty_id updated = v)
             \<and> (\<forall>other. other \<noteq> ident \<longrightarrow> map_of (stories s') other = map_of (stories s) other)
             \<and> map fst (stories s') = map fst (stories s)
             \<and> s'\<lparr>stories := stories s\<rparr> = s)))"
    unfolding updateStory_def Let_def
    by (auto simp: spreadOver_def update_conv' update_keeps_keys split: option.splits)
  have gpl: "(\<forall>s ident updateData.
       (map_of (geopackageLayers s) ident = None \<longrightarrow> updateGeopackageLayer s ident updateData = (None, s))
     \<and> (\<forall>old. map_of (geopackageLayers s) ident = Some old \<longrightarrow>
          (\<exists>updated s'. updateGeopackageLayer s ident updateData = (Some updated, s')
             \<and> map_of (geopackageLayers s') ident = Some updated
             \<and> (pgpl_createdAt updateData = None \<longrightarrow> gpl_createdAt updated = gpl_createdAt old)
             \<and> (pgpl_id updateData = None \<longrightarrow> gpl_id updated = gpl_id old)
             \<and> (pgpl_name updateData = None \<longrightarrow> gpl_name updated = gpl_name old)
             \<and> (pgpl_fileName updateData = None \<longrightarrow> gpl_fileName updated = gpl_fileName old)
             \<and> (pgpl_layerName updateData = None \<longrightarrow> gpl_layerName updated = gpl_layerName old)
             \<and> (pgpl_layerType updateData = None \<longrightarrow> gpl_layerType updated = gpl_layerType old)
             \<and> (pgpl_isVisible updateData = None \<longrightarrow> gpl_isVisible updated = gpl_isVisible old)
             \<and> (pgpl_style updateData = None \<longrightarrow> gpl_style updated = gpl_style old)
             \<and> (pgpl_bounds updateData = None \<longrightarrow> gpl_bounds updated = gpl_bounds old)
             \<and> (\<forall>v. pgpl_createdAt updateData = Some v \<longrightarrow> gpl_createdAt updated = v)
             \<and> (\<forall>v. pgpl_id updateData = Some v \<longrightarrow> gpl_id updated = v)
             \<and> (\<forall>other. other \<noteq> ident \<longrightarrow> map_of (geopackageLayers s') other = map_of (geopackageLayers s) other)
             \<and> map fst (geopackageLayers s') = map fst (geopackageLayers s)
             \<and> s'\<lparr>geopackageLayers := geopackageLayers s\<rparr> = s)))"
    unfolding updateGeopackageLayer_def Let_def
    by (auto simp: spreadOver_def update_conv' update_keeps_keys split: option.splits)
  have ap: "(\<forall>s ident updateData.
       (map_of (atlasProjects s) ident = None \<longrightarrow> updateAtlasProject s ident updateData = (None, s))
     \<and> (\<forall>old. map_of (atlasProjects s) ident = Some old \<longrightarrow>
          (\<exists>updated s'. updateAtlasProject s ident updateData = (Some updated, s')
             \<and> map_of (atlasProjects s') ident = Some updated
             \<and> (pap_createdAt updateData = None \<longrightarrow> ap_createdAt updated = ap_createdAt old)
             \<and> (pap_id updateData = None \<longrightarrow> ap_id updated = ap_id old)
             \<and> (pap_lastGenerated updateData = None \<longrightarrow> ap_lastGenerated updated = ap_lastGenerated old)
             \<and> (pap_name updateData = None \<longrightarrow> ap_name updated = ap_name old)
             \<and> (pap_description updateData = None \<longrightarrow> ap_description updated = ap_description old)
             \<and> (pap_memberCount updateData = None \<longrightarrow> ap_memberCount updated = ap_memberCount old)
             \<and> (pap_locationCount updateData = None \<longrightarrow> ap_locationCount updated = ap_locationCount old)
             \<and> (pap_storyCount updateData = None \<longrightarrow> ap_storyCount updated = ap_storyCount old)
             \<and> (pap_timeSpan updateData = None \<longrightarrow> ap_timeSpan updated = ap_timeSpan old)
             \<and> (\<forall>v. pap_createdAt updateData = Some v \<longrightarrow> ap_createdAt updated = v)
             \<and> (\<forall>v. pap_id updateData = Some v \<longrightarrow> ap_id updated = v)
             \<and> (\<forall>v. pap_lastGenerated updateData = Some v \<longrightarrow> ap_lastGenerated updated = v)
             \<and> (\<forall>other. other \<noteq> ident \<longrightarrow> map_of (atlasProjects s') other = map_of (atlasProjects s) other)
             \<and> map fst (atlasProjects s') = map fst (atlasProjects s)
             \<and> s'\<lparr>atlasProjects := atlasProjects s\<rparr> = s)))"
    unfolding updateAtlasProject_def Let_def
    by (auto simp: spreadOver_def update_conv' update_keeps_keys split: option.splits)
  show ?thesis
    by (intro conjI fm loc evt sty gpl ap)
qed


theorem update_changes_only_named_fields_witness:
  "(let old = \<lparr>fm_name = Val ''Ann'', fm_birthDate = Val ''1900'', fm_deathDate = Null,
               fm_birthPlace = Val ''Boston'', fm_deathPlace = Null, fm_notes = Val [],
               fm_photos = Val [], fm_id = ''a'', fm_createdAt = 7\<rparr>;
        s = newMemStorage\<lparr>familyMembers := [(''a'', old)]\<rparr>;
        updateData = \<lparr>pfm_name = None, pfm_birthDate = None, pfm_deathDate = Some (Val ''1950''),
               pfm_birthPlace = None, pfm_deathPlace = None, pfm_notes = None,
               pfm_photos = None, pfm_id = None, pfm_createdAt = None\<rparr>
    in updateFamilyMember s ''b'' updateData = (None, s)
     \<and> (\<exists>updated s'. updateFamilyMember s ''a'' updateData = (Some updated, s')
           \<and> map_of (familyMembers s') ''a'' = Some updated
           \<and> fm_id updated = ''a'' \<and> fm_createdAt updated = 7
           \<and> fm_name updated = Val ''Ann'' \<and> fm_birthPlace updated = Val ''Boston''
           \<and> map fst (familyMembers s') = [''a'']))
   \<and> (let old = \<lparr>loc_name = Val ''Boston'', loc_latitude = Val 42, loc_longitude = Val (- 71),
               loc_address = Val ''Boston'', loc_locationType = Val ''birth'',
               loc_timeSpan = Val ''1900'', loc_memberCount = Val 1,
               loc_id = ''l'', loc_createdAt = 8\<rparr>;
        s = newMemStorage\<lparr>locations := [(''l'', old)]\<rparr>;
        updateData = \<lparr>ploc_name = None, ploc_latitude = None, ploc_longitude = None,
               ploc_address = None, ploc_locationType = None, ploc_timeSpan = None,
               ploc_memberCount = Some (Val 2), ploc_id = None,
               ploc_createdAt = None\<rparr>
    in \<exists>updated s'. updateLocation s ''l'' updateData = (Some updated, s')
           \<and> loc_id updated = ''l'' \<and> loc_createdAt updated = 8
           \<and> loc_name updated = Val ''Boston'' \<and> loc_timeSpan updated = Val ''1900'')
   \<and> (let old = \<lparr>evt_memberId = Val ''a'', evt_locationId = Val ''l'',
               evt_eventType = Val ''birth'', evt_eventDate = Val ''1900'',
               evt_description = Val ''Born in Boston'', evt_notes = Val [],
               evt_id = ''e'', evt_createdAt = 9\<rparr>;
        s = newMemStorage\<lparr>events_map := [(''e'', old)]\<rparr>;
        updateData = \<lparr>pevt_memberId = None, pevt_locationId = None, pevt_eventType = None,
               pevt_eventDate = None, pevt_description = None, pevt_notes = Some (Val ''x''),
               pevt_id = None, pevt_createdAt = None\<rparr>
    in \<exists>updated s'. updateEvent s ''e'' updateData = (Some updated, s')
           \<and> evt_id updated = ''e'' \<and> evt_createdAt updated = 9
           \<and> evt_eventType updated = Val ''birth'' \<and> evt_eventDate updated = Val ''1900'')"
proof -
  note fm = update_changes_only_named_fields [THEN conjunct1, rule_format]
  note loc = update_changes_only_named_fields [THEN conjunct2, THEN conjunct1, rule_format]
  note evt = update_changes_only_named_fields
    [THEN conjunct2, THEN conjunct2, THEN conjunct1, rule_format]
  let ?fm = "\<lparr>fm_name = Val ''Ann'', fm_birthDate = Val ''1900'', fm_deathDate = Null,
               fm_birthPlace = Val ''Boston'', fm_deathPlace = Null, fm_notes = Val [],
               fm_photos = Val [], fm_id = ''a'', fm_createdAt = 7\<rparr>"
  let ?pfm = "\<lparr>pfm_name = None, pfm_birthDate = None, pfm_deathDate = Some (Val ''1950''),
               pfm_birthPlace = None, pfm_deathPlace = None, pfm_notes = None,
               pfm_photos = None, pfm_id = None, pfm_createdAt = None\<rparr>"
  let ?loc = "\<lparr>loc_name = Val ''Boston'', loc_latitude = Val 42, loc_longitude = Val (- 71),
               loc_address = Val ''Boston'', loc_locationType = Val ''birth'',
               loc_timeSpan = Val ''1900'', loc_memberCount = Val 1,
               loc_id = ''l'', loc_createdAt = 8\<rparr>"
  let ?ploc = "\<lparr>ploc_name = None, ploc_latitude = None, ploc_longitude = None,
               ploc_address = None, ploc_locationType = None, ploc_timeSpan = None,
               ploc_memberCount = Some (Val 2), ploc_id = None,
               ploc_createdAt = None\<rparr>"
  let ?evt = "\<lparr>evt_memberId = Val ''a'', evt_locationId = Val ''l'',
               evt_eventType = Val ''birth'', evt_eventDate = Val ''1900'',
               evt_description = Val ''Born in Boston'', evt_notes = Val [],
               evt_id = ''e'', evt_createdAt = 9\<rparr>"
  let ?pevt = "\<lparr>pevt_memberId = None, pevt_locationId = None, pevt_eventType = None,
               pevt_eventDate = None, pevt_description = None, pevt_notes = Some (Val ''x''),
               pevt_id = None, pevt_createdAt = None\<rparr>"
  have pa: "map_of (familyMembers (newMemStorage\<lparr>familyMembers := [(''a'', ?fm)]\<rparr>)) ''b'' = None"
    by simp
  have pb: "map_of (familyMembers (newMemStorage\<lparr>familyMembers := [(''a'', ?fm)]\<rparr>)) ''a'' = Some ?fm"
    by simp
  have pc: "map_of (locations (newMemStorage\<lparr>locations := [(''l'', ?loc)]\<rparr>)) ''l'' = Some ?loc"
    by simp
  have pd: "map_of (events_map (newMemStorage\<lparr>events_map := [(''e'', ?evt)]\<rparr>)) ''e'' = Some ?evt"
    by simp
  have a: "updateFamilyMember (newMemStorage\<lparr>familyMembers := [(''a'', ?fm)]\<rparr>) ''b'' ?pfm
             = (None, newMemStorage\<lparr>familyMembers := [(''a'', ?fm)]\<rparr>)"
    by (rule fm [THEN conjunct1, rule_format, OF pa])
  have b: "\<exists>updated s'.
             updateFamilyMember (newMemStorage\<lparr>familyMembers := [(''a'', ?fm)]\<rparr>) ''a'' ?pfm
               = (Some updated, s')
           \<and> map_of (familyMembers s') ''a'' = Some updated
           \<and> fm_id updated = ''a'' \<and> fm_createdAt updated = 7
           \<and> fm_name updated = Val ''Ann'' \<and> fm_birthPlace updated = Val ''Boston''
           \<and> map fst (familyMembers s') = [''a'']"
    using fm [THEN conjunct2, rule_format, OF pb, of ?pfm]
    apply (elim exE conjE)
    apply (rule_tac x = updated in exI)
    apply (rule_tac x = s' in exI)
    by (simp add: newMemStorage_def)
  have c: "\<exists>updated s'.
             updateLocation (newMemStorage\<lparr>locations := [(''l'', ?loc)]\<rparr>) ''l'' ?ploc
               = (Some updated, s')
           \<and> loc_id updated = ''l'' \<and> loc_createdAt updated = 8
           \<and> loc_name updated = Val ''Boston'' \<and> loc_timeSpan updated = Val ''1900''"
    using loc [THEN conjunct2, rule_format, OF pc, of ?ploc]
    apply (elim exE conjE)
    apply (rule_tac x = updated in exI)
    apply (rule_tac x = s' in exI)
    by simp
  have d: "\<exists>updated s'.
             updateEvent (newMemStorage\<lparr>events_map := [(''e'', ?evt)]\<rparr>) ''e'' ?pevt
               = (Some updated, s')
           \<and> evt_id updated = ''e'' \<and> evt_createdAt updated = 9
           \<and> evt_eventType updated = Val ''birth'' \<and> evt_eventDate updated = Val ''1900''"
    using evt [THEN conjunct2, rule_format, OF pd, of ?pevt]
    apply (elim exE conjE)
    apply (rule_tac x = updated in exI)
    apply (rule_tac x = s' in exI)
    by simp
  show ?thesis
    unfolding Let_def by (intro conjI a b c d)
qed

text \<open>
  C10 as stated keeps \<open>id\<close> and \<open>createdAt\<close> in every call. An \<open>updateData\<close> that has the
  two properties overwrites both: the entity stored under the key \<open>a\<close> then has the id \<open>b\<close>.
\<close>

theorem update_overwrites_id_and_createdAt:
  "updateFamilyMember
     (newMemStorage\<lparr>familyMembers :=
        [(''a'', \<lparr>fm_name = Val ''Ann'', fm_birthDate = Val ''1900'', fm_deathDate = Null,
                  fm_birthPlace = Val ''Boston'', fm_deathPlace = Null, fm_notes = Val [],
                  fm_photos = Val [], fm_id = ''a'', fm_createdAt = 7\<rparr>)]\<rparr>)
     ''a''
     \<lparr>pfm_name = None, pfm_birthDate = None, pfm_deathDate = None, pfm_birthPlace = None,
      pfm_deathPlace = None, pfm_notes = None, pfm_photos = None, pfm_id = Some ''b'',
      pfm_createdAt = Some 99\<rparr>
   = (Some \<lparr>fm_name = Val ''Ann'', fm_birthDate = Val ''1900'', fm_deathDate = Null,
            fm_birthPlace = Val ''Boston'', fm_deathPlace = Null, fm_notes = Val [],
            fm_photos = Val [], fm_id = ''b'', fm_createdAt = 99\<rparr>,
      newMemStorage\<lparr>familyMembers :=
        [(''a'', \<lparr>fm_name = Val ''Ann'', fm_birthDate = Val ''1900'', fm_deathDate = Null,
                  fm_birthPlace = Val ''Boston'', fm_deathPlace = Null, fm_notes = Val [],
                  fm_photos = Val [], fm_id = ''b'', fm_createdAt = 99\<rparr>)]\<rparr>)"
  by (simp add: updateFamilyMember_def spreadOver_def newMemStorage_def Let_def)

section \<open>Properties of \<open>generateStoryFromEvents\<close>\<close>

lemma dropWhile_keeps_core:
  assumes "core \<noteq> []" and "\<not> P (hd core)"
  shows "\<exists>pre. dropWhile P (a @ core @ b) = pre @ core @ b"
proof (cases "\<forall>x \<in> set a. P x")
  case True
  then have "dropWhile P (a @ core @ b) = dropWhile P (core @ b)"
    by (simp add: dropWhile_append2)
  also have "\<dots> = core @ b"
    using assms by (cases core) auto
  finally show ?thesis by (intro exI [of _ "[]"]) simp
next
  case False
  then have "dropWhile P (a @ core @ b) = dropWhile P a @ core @ b"
    by (auto simp: dropWhile_append1)
  then show ?thesis by blast
qed

lemma js_trim_keeps_core:
  assumes "core \<noteq> []" and "\<not> isWhiteSpace (hd core)" and "\<not> isWhiteSpace (last core)"
  shows "\<exists>pre post. js_trim (a @ core @ b) = pre @ core @ post"
proof -
  obtain pre where p: "dropWhile isWhiteSpace (a @ core @ b) = pre @ core @ b"
    using dropWhile_keeps_core [of core isWhiteSpace a b] assms(1,2) by blast
  have "rev core \<noteq> []" and "\<not> isWhiteSpace (hd (rev core))"
    using assms by (simp_all add: hd_rev)
  then obtain q where q: "dropWhile isWhiteSpace (rev b @ rev core @ rev pre) = q @ rev core @ rev pre"
    using dropWhile_keeps_core [of "rev core" isWhiteSpace "rev b" "rev pre"] by blast
  have "js_trim (a @ core @ b) = pre @ core @ rev q"
    by (simp add: js_trim_def p q)
  then show ?thesis by blast
qed

lemma time_1900: "dateGetTime impl ''1900'' = Some (- 2208988800000)"
  by (simp add: dateGetTime_def isDigit_def digitValue_def digitTable_def DayFromYear_def)

lemma time_1950: "dateGetTime impl ''1950'' = Some (- 631152000000)"
  by (simp add: dateGetTime_def isDigit_def digitValue_def digitTable_def DayFromYear_def)

lemma objectEntries_single: "objectEntries [(k, v)] = [(k, v)]"
  by (simp add: objectEntries_def)

text \<open>
  C6. One person with a birth event (place \<open>Boston\<close>, date \<open>1900\<close>) and a death event
  (place \<open>Chicago\<close>, date \<open>1950\<close>), given in either order: the story holds the birth
  fragment \<open>with their birth in Boston in 1900\<close>, then the separator \<open>, \<close>, then the death
  fragment \<open>, and their life concluded in Chicago in 1950\<close>. So \<open>birth in Boston in 1900\<close>
  and \<open>life concluded in Chicago in 1950\<close> both occur, the first before the second, and a
  comma joins the two fragments (the death fragment opens with a comma of its own, hence
  \<open>1900, , and their life\<close>). This holds for every name and notes of the person, every
  engine date parser outside the fixed year-only format, and every member id that is not a
  property name of \<open>Object.prototype\<close>.
\<close>

theorem story_birth_then_death:
  assumes member: "fm_id member = mid" "mid \<notin> set objectPrototypeKeys"
    and birth: "evt_memberId birth = Val mid" "evt_eventType birth = Val ''birth''"
      "evt_eventDate birth = Val ''1900''" "evt_locationId birth = Val (loc_id boston)"
    and death: "evt_memberId death = Val mid" "evt_eventType death = Val ''death''"
      "evt_eventDate death = Val ''1950''" "evt_locationId death = Val (loc_id chicago)"
    and locs: "loc_name boston = Val ''Boston''" "loc_name chicago = Val ''Chicago''"
      "loc_id boston \<noteq> loc_id chicago"
    and evs: "evs = [birth, death] \<or> evs = [death, birth]"
  shows "\<exists>pre post.
           generateStoryFromEvents impl evs [member] [boston, chicago]
             = Inr (pre @ ''with their birth in Boston in 1900'' @ '', ''
                      @ '', and their life concluded in Chicago in 1950'' @ post)"
proof -
  have key: "jsvToString (evt_memberId birth) = mid" "jsvToString (evt_memberId death) = mid"
    using birth(1) death(1) by (simp_all add: jsvToString_def)
  have grp: "groupByMember [] evs = Inr [(mid, evs)]"
    using evs member(2) by (auto simp: key Let_def)
  have tb: "eventTime impl birth = Some (- 2208988800000)"
    by (simp add: eventTime_def birth(3) orElse_def time_1900)
  have td: "eventTime impl death = Some (- 631152000000)"
    by (simp add: eventTime_def death(3) orElse_def time_1950)
  have srt: "sortEvents impl evs = [birth, death]"
    using evs by (auto simp: sortEvents_def compareEvents_def tb td)
  have sb: "eventSentence [boston, chicago] birth = ''with their birth in Boston in 1900''"
    by (simp add: eventSentence_def birth locs truthyV_def jsvToString_def orElse_def)
  have sd: "eventSentence [boston, chicago] death
              = '', and their life concluded in Chicago in 1950''"
    using locs(3)
    by (simp add: eventSentence_def death locs(1,2) truthyV_def jsvToString_def orElse_def)
  let ?core = "''with their birth in Boston in 1900'' @ '', ''
                 @ '', and their life concluded in Chicago in 1950''"
  let ?a = "jsvToString (fm_name member) @ [CHR 0x27] @ ''s journey began ''"
  let ?b = "''. '' @ (if truthyV (fm_notes member) then jsvToString (fm_notes member) @ '' ''
                       else [])"
  have ms: "memberStory impl [member] [boston, chicago] (mid, evs) = ?a @ ?core @ ?b"
    by (simp add: memberStory_def member(1) srt sb sd)
  have ne: "evs \<noteq> []" using evs by auto
  have gen: "generateStoryFromEvents impl evs [member] [boston, chicago]
               = Inr (js_trim (memberStory impl [member] [boston, chicago] (mid, evs)))"
    by (simp add: generateStoryFromEvents_def ne grp objectEntries_single)
  have c1: "?core \<noteq> []" by simp
  have c2: "\<not> isWhiteSpace (hd ?core)" by (simp add: isWhiteSpace_def)
  have c3: "\<not> isWhiteSpace (last ?core)" by (simp add: isWhiteSpace_def)
  obtain pre post where "js_trim (?a @ ?core @ ?b) = pre @ ?core @ post"
    using js_trim_keeps_core [OF c1 c2 c3, of ?a ?b] by blast
  then show ?thesis
    unfolding gen ms by (intro exI [of _ pre] exI [of _ post]) simp
qed

theorem story_birth_then_death_witness:
  "(let ann = \<lparr>fm_name = Val ''Ann'', fm_birthDate = Val ''1900'', fm_deathDate = Val ''1950'',
                fm_birthPlace = Val ''Boston'', fm_deathPlace = Val ''Chicago'',
                fm_notes = Val [], fm_photos = Val [], fm_id = ''m1'', fm_createdAt = 1\<rparr>;
        boston = \<lparr>loc_name = Val ''Boston'', loc_latitude = Val 42, loc_longitude = Val (- 71),
                loc_address = Val ''Boston'', loc_locationType = Val ''birth'',
                loc_timeSpan = Val ''1900'', loc_memberCount = Val 1,
                loc_id = ''l1'', loc_createdAt = 2\<rparr>;
        chicago = \<lparr>loc_name = Val ''Chicago'', loc_latitude = Val 41, loc_longitude = Val (- 87),
                loc_address = Val ''Chicago'', loc_locationType = Val ''death'',
                loc_timeSpan = Val ''1950'', loc_memberCount = Val 1,
                loc_id = ''l2'', loc_createdAt = 4\<rparr>;
        birth = \<lparr>evt_memberId = Val ''m1'', evt_locationId = Val ''l1'',
                evt_eventType = Val ''birth'', evt_eventDate = Val ''1900'',
                evt_description = Val ''Born in Boston'', evt_notes = Val [],
                evt_id = ''e1'', evt_createdAt = 3\<rparr>;
        death = \<lparr>evt_memberId = Val ''m1'', evt_locationId = Val ''l2'',
                evt_eventType = Val ''death'', evt_eventDate = Val ''1950'',
                evt_description = Val ''Died in Chicago'', evt_notes = Val [],
                evt_id = ''e2'', evt_createdAt = 5\<rparr>
    in (\<exists>pre post.
          generateStoryFromEvents (\<lambda>s. None) [death, birth] [ann] [boston, chicago]
            = Inr (pre @ ''with their birth in Boston in 1900'' @ '', ''
                     @ '', and their life concluded in Chicago in 1950'' @ post))
     \<and> generateStoryFromEvents (\<lambda>s. None) [death, birth] [ann] [boston, chicago]
         = Inr (''Ann'' @ [CHR 0x27] @ ''s journey began with their birth in Boston in 1900, ''
                 @ '', and their life concluded in Chicago in 1950.''))"
proof -
  let ?ann = "\<lparr>fm_name = Val ''Ann'', fm_birthDate = Val ''1900'', fm_deathDate = Val ''1950'',
                fm_birthPlace = Val ''Boston'', fm_deathPlace = Val ''Chicago'',
                fm_notes = Val [], fm_photos = Val [], fm_id = ''m1'', fm_createdAt = 1\<rparr>"
  let ?boston = "\<lparr>loc_name = Val ''Boston'', loc_latitude = Val 42, loc_longitude = Val (- 71),
                loc_address = Val ''Boston'', loc_locationType = Val ''birth'',
                loc_timeSpan = Val ''1900'', loc_memberCount = Val 1,
                loc_id = ''l1'', loc_createdAt = 2\<rparr>"
  let ?chicago = "\<lparr>loc_name = Val ''Chicago'', loc_latitude = Val 41, loc_longitude = Val (- 87),
                loc_address = Val ''Chicago'', loc_locationType = Val ''death'',
                loc_timeSpan = Val ''1950'', loc_memberCount = Val 1,
                loc_id = ''l2'', loc_createdAt = 4\<rparr>"
  let ?birth = "\<lparr>evt_memberId = Val ''m1'', evt_locationId = Val ''l1'',
                evt_eventType = Val ''birth'', evt_eventDate = Val ''1900'',
                evt_description = Val ''Born in Boston'', evt_notes = Val [],
                evt_id = ''e1'', evt_createdAt = 3\<rparr>"
  let ?death = "\<lparr>evt_memberId = Val ''m1'', evt_locationId = Val ''l2'',
                evt_eventType = Val ''death'', evt_eventDate = Val ''1950'',
                evt_description = Val ''Died in Chicago'', evt_notes = Val [],
                evt_id = ''e2'', evt_createdAt = 5\<rparr>"
  have k: "''m1'' \<notin> set objectPrototypeKeys" by (simp add: objectPrototypeKeys_def)
  have a: "\<exists>pre post.
          generateStoryFromEvents (\<lambda>s. None) [?death, ?birth] [?ann] [?boston, ?chicago]
            = Inr (pre @ ''with their birth in Boston in 1900'' @ '', ''
                     @ '', and their life concluded in Chicago in 1950'' @ post)"
    by (rule story_birth_then_death [where mid = "''m1''" and birth = ?birth and death = ?death])
      (simp_all add: k)
  have b: "generateStoryFromEvents (\<lambda>s. None) [?death, ?birth] [?ann] [?boston, ?chicago]
         = Inr (''Ann'' @ [CHR 0x27] @ ''s journey began with their birth in Boston in 1900, ''
                 @ '', and their life concluded in Chicago in 1950.'')"
    by code_simp
  show ?thesis
    unfolding Let_def by (intro conjI a b)
qed

section \<open>Properties of the upload handlers\<close>

lemma geocodeLocation_snd: "snd (geocodeLocation w sv a) = sv\<lparr>tick := Suc (tick sv)\<rparr>"
  by (simp add: geocodeLocation_def)

lemma geocodeLocation_None_iff:
  "fst (geocodeLocation w sv a) = None \<longleftrightarrow>
     nominatim w (tick sv) a = GeocoderError \<or> nominatim w (tick sv) a = GeocoderResults []"
  by (simp add: geocodeLocation_def split: geocoder_reply.splits list.splits)

lemma geocodeLocation_Some_iff:
  "fst (geocodeLocation w sv a) = Some c \<longleftrightarrow>
     (\<exists>cs. nominatim w (tick sv) a = GeocoderResults (c # cs))"
  by (simp add: geocodeLocation_def split: geocoder_reply.splits list.splits)

lemma createFamilyMember_facts:
  assumes "createFamilyMember w sv ins = (member, sv1)"
  shows "member = \<lparr>fm_name = fm_name ins, fm_birthDate = fm_birthDate ins,
                    fm_deathDate = fm_deathDate ins, fm_birthPlace = fm_birthPlace ins,
                    fm_deathPlace = fm_deathPlace ins, fm_notes = fm_notes ins,
                    fm_photos = fm_photos ins, fm_id = randomUUID w (tick sv),
                    fm_createdAt = newDate w (tick sv)\<rparr>"
    and "tick sv1 = Suc (tick sv)"
    and "familyMembers (storage sv1)
           = AList.update (fm_id member) member (familyMembers (storage sv))"
    and "locations (storage sv1) = locations (storage sv)"
    and "events_map (storage sv1) = events_map (storage sv)"
  using assms by (auto simp: createFamilyMember_def Let_def)

lemma createLocation_facts:
  assumes "createLocation w sv ins = (location, sv2)"
  shows "location = \<lparr>loc_name = loc_name ins, loc_latitude = loc_latitude ins,
                      loc_longitude = loc_longitude ins, loc_address = loc_address ins,
                      loc_locationType = loc_locationType ins,
                      loc_timeSpan = loc_timeSpan ins, loc_memberCount = loc_memberCount ins,
                      loc_id = randomUUID w (tick sv), loc_createdAt = newDate w (tick sv)\<rparr>"
    and "tick sv2 = Suc (tick sv)"
    and "locations (storage sv2)
           = AList.update (loc_id location) location (locations (storage sv))"
    and "familyMembers (storage sv2) = familyMembers (storage sv)"
    and "events_map (storage sv2) = events_map (storage sv)"
  using assms by (auto simp: createLocation_def Let_def)

lemma createEvent_facts:
  assumes "createEvent w sv ins = (event, sv3)"
  shows "event = \<lparr>evt_memberId = evt_memberId ins, evt_locationId = evt_locationId ins,
                   evt_eventType = evt_eventType ins, evt_eventDate = evt_eventDate ins,
                   evt_description = evt_description ins, evt_notes = evt_notes ins,
                   evt_id = randomUUID w (tick sv), evt_createdAt = newDate w (tick sv)\<rparr>"
    and "tick sv3 = Suc (tick sv)"
    and "events_map (storage sv3)
           = AList.update (evt_id event) event (events_map (storage sv))"
    and "familyMembers (storage sv3) = familyMembers (storage sv)"
    and "locations (storage sv3) = locations (storage sv)"
  using assms by (auto simp: createEvent_def Let_def)

lemma processPlace_fail:
  assumes "fst (geocodeLocation w (server run) place) = None"
  shows "processPlace w bd dd m run (place, t)
           = run\<lparr>server := (server run)\<lparr>tick := Suc (tick (server run))\<rparr>\<rparr>"
proof -
  have "geocodeLocation w (server run) place
          = (None, (server run)\<lparr>tick := Suc (tick (server run))\<rparr>)"
    using assms geocodeLocation_snd [of w "server run" place]
    by (cases "geocodeLocation w (server run) place") simp
  then show ?thesis by (simp add: processPlace_def)
qed

lemma processPlace_ok:
  assumes "fst (geocodeLocation w (server run) place) = Some c"
  shows "\<exists>location event sv'.
           processPlace w bd dd m run (place, t)
             = run\<lparr>server := sv', createdLocations := createdLocations run @ [location],
                   createdEvents := createdEvents run @ [event]\<rparr>
         \<and> location = \<lparr>loc_name = Val place, loc_latitude = Val (lat c),
                loc_longitude = Val (lng c), loc_address = Val place,
                loc_locationType = Val t,
                loc_timeSpan = (if t = ''birth'' then bd else dd),
                loc_memberCount = Val 1,
                loc_id = randomUUID w (Suc (tick (server run))),
                loc_createdAt = newDate w (Suc (tick (server run)))\<rparr>
         \<and> evt_memberId event = Val (fm_id m)
         \<and> evt_locationId event = Val (loc_id location)
         \<and> evt_eventType event = Val t
         \<and> evt_eventDate event = (if t = ''birth'' then bd else dd)
         \<and> locations (storage sv')
             = AList.update (loc_id location) location (locations (storage (server run)))
         \<and> events_map (storage sv')
             = AList.update (evt_id event) event (events_map (storage (server run)))
         \<and> familyMembers (storage sv') = familyMembers (storage (server run))"
proof -
  let ?sv1 = "(server run)\<lparr>tick := Suc (tick (server run))\<rparr>"
  have g: "geocodeLocation w (server run) place = (Some c, ?sv1)"
    using assms geocodeLocation_snd [of w "server run" place]
    by (cases "geocodeLocation w (server run) place") simp
  let ?ins = "\<lparr>loc_name = Val place, loc_latitude = Val (lat c),
                loc_longitude = Val (lng c), loc_address = Val place,
                loc_locationType = Val t,
                loc_timeSpan = (if t = ''birth'' then bd else dd),
                loc_memberCount = Val 1\<rparr>"
  obtain location sv2 where cl: "createLocation w ?sv1 ?ins = (location, sv2)"
    by (cases "createLocation w ?sv1 ?ins")
  let ?ine = "\<lparr>evt_memberId = Val (fm_id m), evt_locationId = Val (loc_id location),
                evt_eventType = Val t,
                evt_eventDate = (if t = ''birth'' then bd else dd),
                evt_description =
                  Val ((if t = ''birth'' then ''Born'' else ''Died'') @ '' in '' @ place),
                evt_notes = Val []\<rparr>"
  obtain event sv3 where ce: "createEvent w sv2 ?ine = (event, sv3)"
    by (cases "createEvent w sv2 ?ine")
  note lf = createLocation_facts [OF cl]
  note ef = createEvent_facts [OF ce]
  have l: "location = \<lparr>loc_name = Val place, loc_latitude = Val (lat c),
                loc_longitude = Val (lng c), loc_address = Val place,
                loc_locationType = Val t,
                loc_timeSpan = (if t = ''birth'' then bd else dd),
                loc_memberCount = Val 1,
                loc_id = randomUUID w (Suc (tick (server run))),
                loc_createdAt = newDate w (Suc (tick (server run)))\<rparr>"
    using lf(1) by simp
  have e: "evt_memberId event = Val (fm_id m)" "evt_locationId event = Val (loc_id location)"
    "evt_eventType event = Val t" "evt_eventDate event = (if t = ''birth'' then bd else dd)"
    by (simp_all add: ef(1))
  have s: "locations (storage sv3)
             = AList.update (loc_id location) location (locations (storage (server run)))"
    "events_map (storage sv3)
             = AList.update (evt_id event) event (events_map (storage (server run)))"
    "familyMembers (storage sv3) = familyMembers (storage (server run))"
    using lf(3,4,5) ef(3,4,5) by simp_all
  have "processPlace w bd dd m run (place, t)
          = run\<lparr>server := sv3, createdLocations := createdLocations run @ [location],
                createdEvents := createdEvents run @ [event]\<rparr>"
    using cl ce by (cases "t = ''birth''") (simp_all add: processPlace_def g)
  with l e s show ?thesis by blast
qed

lemma processPlace_cases:
  obtains (fail) "fst (geocodeLocation w (server run) place) = None"
      "processPlace w bd dd m run (place, t)
         = run\<lparr>server := (server run)\<lparr>tick := Suc (tick (server run))\<rparr>\<rparr>"
  | (ok) location event sv' where
      "processPlace w bd dd m run (place, t)
         = run\<lparr>server := sv', createdLocations := createdLocations run @ [location],
               createdEvents := createdEvents run @ [event]\<rparr>"
      "loc_name location = Val place" "loc_locationType location = Val t"
      "loc_timeSpan location = (if t = ''birth'' then bd else dd)"
      "loc_memberCount location = Val 1"
      "locations (storage sv')
         = AList.update (loc_id location) location (locations (storage (server run)))"
      "familyMembers (storage sv') = familyMembers (storage (server run))"
proof (cases "fst (geocodeLocation w (server run) place)")
  case None
  then show ?thesis using fail processPlace_fail by blast
next
  case (Some c)
  obtain location event sv' where
    p: "processPlace w bd dd m run (place, t)
         = run\<lparr>server := sv', createdLocations := createdLocations run @ [location],
               createdEvents := createdEvents run @ [event]\<rparr>"
    and l: "location = \<lparr>loc_name = Val place, loc_latitude = Val (lat c),
                loc_longitude = Val (lng c), loc_address = Val place,
                loc_locationType = Val t,
                loc_timeSpan = (if t = ''birth'' then bd else dd),
                loc_memberCount = Val 1,
                loc_id = randomUUID w (Suc (tick (server run))),
                loc_createdAt = newDate w (Suc (tick (server run)))\<rparr>"
    and s: "locations (storage sv')
             = AList.update (loc_id location) location (locations (storage (server run)))"
      "familyMembers (storage sv') = familyMembers (storage (server run))"
    using processPlace_ok [OF Some, of bd dd m t] by blast
  have "loc_name location = Val place" "loc_locationType location = Val t"
      "loc_timeSpan location = (if t = ''birth'' then bd else dd)"
      "loc_memberCount location = Val 1"
    by (simp_all add: l)
  with p s show ?thesis using ok by blast
qed

lemma processPlace_members:
  "createdMembers (processPlace w bd dd m run pt) = createdMembers run"
  by (cases pt, rule processPlace_cases [of w run "fst pt" bd dd m "snd pt"]) simp_all

lemma processPlaces_members:
  "createdMembers (foldl (processPlace w bd dd m) run pts) = createdMembers run"
  by (induction pts arbitrary: run) (simp_all add: processPlace_members)

lemma processPlace_familyMembers:
  "familyMembers (storage (server (processPlace w bd dd m run pt)))
     = familyMembers (storage (server run))"
  by (cases pt, rule processPlace_cases [of w run "fst pt" bd dd m "snd pt"]) simp_all

lemma processPlaces_familyMembers:
  "familyMembers (storage (server (foldl (processPlace w bd dd m) run pts)))
     = familyMembers (storage (server run))"
  by (induction pts arbitrary: run) (simp_all add: processPlace_familyMembers)

lemma processPlace_locations:
  "\<exists>new. createdLocations (processPlace w bd dd m run pt) = createdLocations run @ new
     \<and> (\<forall>l \<in> set new. loc_memberCount l = Val 1 \<and> loc_name l = Val (fst pt)
           \<and> loc_locationType l = Val (snd pt)
           \<and> loc_timeSpan l = (if snd pt = ''birth'' then bd else dd))"
proof (cases pt)
  case (Pair place t)
  show ?thesis
  proof (rule processPlace_cases [of w run place bd dd m t])
    assume "processPlace w bd dd m run (place, t)
         = run\<lparr>server := (server run)\<lparr>tick := Suc (tick (server run))\<rparr>\<rparr>"
    then show ?thesis by (simp add: Pair)
  next
    fix location event sv'
    assume "processPlace w bd dd m run (place, t)
         = run\<lparr>server := sv', createdLocations := createdLocations run @ [location],
               createdEvents := createdEvents run @ [event]\<rparr>"
      "loc_name location = Val place" "loc_locationType location = Val t"
      "loc_timeSpan location = (if t = ''birth'' then bd else dd)"
      "loc_memberCount location = Val 1"
    then show ?thesis
      by (intro exI [of _ "[location]"]) (simp add: Pair)
  qed
qed

lemma processPlace_store:
  assumes "map_of (locations (storage (server (processPlace w bd dd m run pt)))) k = Some l"
  shows "map_of (locations (storage (server run))) k = Some l
       \<or> (loc_memberCount l = Val 1 \<and> loc_locationType l = Val (snd pt))"
proof (cases pt)
  case (Pair place t)
  show ?thesis
  proof (rule processPlace_cases [of w run place bd dd m t])
    assume "processPlace w bd dd m run (place, t)
         = run\<lparr>server := (server run)\<lparr>tick := Suc (tick (server run))\<rparr>\<rparr>"
    then show ?thesis using assms by (simp add: Pair)
  next
    fix location event sv'
    assume p: "processPlace w bd dd m run (place, t)
         = run\<lparr>server := sv', createdLocations := createdLocations run @ [location],
               createdEvents := createdEvents run @ [event]\<rparr>"
      and l: "loc_locationType location = Val t" "loc_memberCount location = Val 1"
      and s: "locations (storage sv')
         = AList.update (loc_id location) location (locations (storage (server run)))"
    from assms have "((map_of (locations (storage (server run))))(loc_id location \<mapsto> location)) k
        = Some l"
      by (simp add: Pair p s update_conv')
    then show ?thesis using l by (auto simp: Pair split: if_splits)
  qed
qed

lemma foldl_appends:
  assumes step: "\<And>run x. \<exists>new. g (f run x) = g run @ new \<and> (\<forall>l \<in> set new. R x l)"
  shows "\<exists>new. g (foldl f run xs) = g run @ new \<and> (\<forall>l \<in> set new. \<exists>x \<in> set xs. R x l)"
proof (induction xs arbitrary: run)
  case Nil
  show ?case by simp
next
  case (Cons x xs)
  obtain n1 where n1: "g (f run x) = g run @ n1" "\<forall>l \<in> set n1. R x l"
    using step [of run x] by blast
  obtain n2 where n2: "g (foldl f (f run x) xs) = g (f run x) @ n2"
    "\<forall>l \<in> set n2. \<exists>y \<in> set xs. R y l"
    using Cons.IH [of "f run x"] by blast
  have "g (foldl f run (x # xs)) = g run @ (n1 @ n2)"
    using n1(1) n2(1) by simp
  moreover have "\<forall>l \<in> set (n1 @ n2). \<exists>y \<in> set (x # xs). R y l"
    using n1(2) n2(2) by auto
  ultimately show ?case by blast
qed

lemma foldl_store:
  assumes step: "\<And>run x k l. x \<in> set xs \<Longrightarrow> map_of (g (f run x)) k = Some l
                   \<Longrightarrow> map_of (g run) k = Some l \<or> Q l"
    and "map_of (g (foldl f run xs)) k = Some l"
  shows "map_of (g run) k = Some l \<or> Q l"
  using assms
proof (induction xs arbitrary: run)
  case Nil
  then show ?case by simp
next
  case (Cons x xs)
  have "map_of (g (f run x)) k = Some l \<or> Q l"
  proof (rule Cons.IH)
    show "map_of (g (f r y)) k' = Some l' \<Longrightarrow> map_of (g r) k' = Some l' \<or> Q l'"
      if "y \<in> set xs" for r y k' l'
      using Cons.prems(1) [of y r k' l'] that by simp
    show "map_of (g (foldl f (f run x) xs)) k = Some l"
      using Cons.prems(2) by simp
  qed
  then show ?case
    using Cons.prems(1) [of x run k l] by auto
qed

lemma processPlaces_locations:
  "\<exists>new. createdLocations (foldl (processPlace w bd dd m) run pts) = createdLocations run @ new
     \<and> (\<forall>l \<in> set new. \<exists>pt \<in> set pts. loc_memberCount l = Val 1
           \<and> loc_name l = Val (fst pt) \<and> loc_locationType l = Val (snd pt)
           \<and> loc_timeSpan l = (if snd pt = ''birth'' then bd else dd))"
  by (rule foldl_appends) (rule processPlace_locations)

lemma placesOf_explicit:
  "placesOf bp dp =
     (case bp of Val s \<Rightarrow> if s \<noteq> [] then [(s, ''birth'')] else [] | _ \<Rightarrow> [])
     @ (case dp of Val s \<Rightarrow> if s \<noteq> [] then [(s, ''death'')] else [] | _ \<Rightarrow> [])"
  by (simp add: placesOf_def List.map_filter_simps split: jsv.splits)

lemma placesOf_mem:
  assumes "pt \<in> set (placesOf bp dp)"
  shows "(snd pt = ''birth'' \<and> bp = Val (fst pt)) \<or> (snd pt = ''death'' \<and> dp = Val (fst pt))"
  using assms
  by (auto simp: placesOf_explicit split: jsv.splits if_splits)

lemma processPlaces_store:
  assumes "map_of (locations (storage (server
             (foldl (processPlace w bd dd m) run (placesOf bp dp))))) k = Some l"
  shows "map_of (locations (storage (server run))) k = Some l
       \<or> (loc_memberCount l = Val 1
          \<and> (loc_locationType l = Val ''birth'' \<or> loc_locationType l = Val ''death''))"
proof (rule foldl_store [where g = "\<lambda>r. locations (storage (server r))"
      and f = "processPlace w bd dd m" and xs = "placesOf bp dp"])
  fix r pt k' l'
  assume "pt \<in> set (placesOf bp dp)"
    and "map_of (locations (storage (server (processPlace w bd dd m r pt)))) k' = Some l'"
  then show "map_of (locations (storage (server r))) k' = Some l'
       \<or> (loc_memberCount l' = Val 1
          \<and> (loc_locationType l' = Val ''birth'' \<or> loc_locationType l' = Val ''death''))"
    using processPlace_store [of w bd dd m r pt k' l'] placesOf_mem [of pt bp dp] by auto
next
  show "map_of (locations (storage (server
             (foldl (processPlace w bd dd m) run (placesOf bp dp))))) k = Some l"
    by (rule assms)
qed

lemma processPlaces_all_resolve:
  assumes "\<And>n a. nominatim w n a \<noteq> GeocoderError \<and> nominatim w n a \<noteq> GeocoderResults []"
  shows "map (\<lambda>l. (loc_name l, loc_locationType l, loc_timeSpan l, loc_memberCount l))
           (createdLocations (foldl (processPlace w bd dd m) run pts))
         = map (\<lambda>l. (loc_name l, loc_locationType l, loc_timeSpan l, loc_memberCount l))
             (createdLocations run)
           @ map (\<lambda>pt. (Val (fst pt), Val (snd pt), (if snd pt = ''birth'' then bd else dd), Val 1))
               pts"
proof (induction pts arbitrary: run)
  case Nil
  show ?case by simp
next
  case (Cons pt pts)
  obtain place t where pt: "pt = (place, t)" by (cases pt)
  have "fst (geocodeLocation w (server run) place) \<noteq> None"
    using assms [of "tick (server run)" place] by (simp add: geocodeLocation_None_iff)
  then obtain c where c: "fst (geocodeLocation w (server run) place) = Some c" by blast
  obtain location event sv' where
    p: "processPlace w bd dd m run (place, t)
         = run\<lparr>server := sv', createdLocations := createdLocations run @ [location],
               createdEvents := createdEvents run @ [event]\<rparr>"
    and l: "location = \<lparr>loc_name = Val place, loc_latitude = Val (lat c),
                loc_longitude = Val (lng c), loc_address = Val place,
                loc_locationType = Val t,
                loc_timeSpan = (if t = ''birth'' then bd else dd),
                loc_memberCount = Val 1,
                loc_id = randomUUID w (Suc (tick (server run))),
                loc_createdAt = newDate w (Suc (tick (server run)))\<rparr>"
    using processPlace_ok [OF c, of bd dd m t] by blast
  have "loc_name location = Val place" "loc_locationType location = Val t"
      "loc_timeSpan location = (if t = ''birth'' then bd else dd)"
      "loc_memberCount location = Val 1"
    by (simp_all add: l)
  then show ?case
    using Cons.IH [of "processPlace w bd dd m run pt"] by (simp add: pt p)
qed

lemma js_or_explicit: "js_or a b = (if a \<noteq> None \<and> a \<noteq> Some [] then a else b)"
  by (auto simp: js_or_def truthy_def split: option.splits)

lemma truthy_explicit: "truthy v \<longleftrightarrow> (\<exists>s. v = Some s \<and> s \<noteq> [])"
  by (auto simp: truthy_def split: option.splits)

lemma gedcomMember_named:
  assumes "md_name md \<noteq> []"
  obtains member sv1 where
    "gedcomMember w run md
       = foldl (processPlace w (md_birthDate md) (md_deathDate md) member)
           (run\<lparr>server := sv1, createdMembers := createdMembers run @ [member]\<rparr>)
           (placesOf (md_birthPlace md) (md_deathPlace md))"
    "member = \<lparr>fm_name = Val (md_name md), fm_birthDate = md_birthDate md,
                fm_deathDate = md_deathDate md, fm_birthPlace = md_birthPlace md,
                fm_deathPlace = md_deathPlace md, fm_notes = Val (md_notes md),
                fm_photos = Val (md_photos md), fm_id = randomUUID w (tick (server run)),
                fm_createdAt = newDate w (tick (server run))\<rparr>"
    "tick sv1 = Suc (tick (server run))"
    "familyMembers (storage sv1)
       = AList.update (fm_id member) member (familyMembers (storage (server run)))"
    "locations (storage sv1) = locations (storage (server run))"
    "events_map (storage sv1) = events_map (storage (server run))"
proof -
  let ?ins = "\<lparr>fm_name = Val (md_name md), fm_birthDate = md_birthDate md,
                fm_deathDate = md_deathDate md, fm_birthPlace = md_birthPlace md,
                fm_deathPlace = md_deathPlace md, fm_notes = Val (md_notes md),
                fm_photos = Val (md_photos md)\<rparr>"
  obtain member sv1 where c: "createFamilyMember w (server run) ?ins = (member, sv1)"
    by (cases "createFamilyMember w (server run) ?ins")
  have "gedcomMember w run md
       = foldl (processPlace w (md_birthDate md) (md_deathDate md) member)
           (run\<lparr>server := sv1, createdMembers := createdMembers run @ [member]\<rparr>)
           (placesOf (md_birthPlace md) (md_deathPlace md))"
    using assms by (simp add: gedcomMember_def c)
  then show ?thesis
    using createFamilyMember_facts [OF c] that by simp
qed

lemma csvUploadRow_named:
  assumes "truthy (csvRow headers line ''name'')"
  obtains member sv1 where
    "csvUploadRow w headers run line
       = foldl (processPlace w
                  (toJsv (js_or (csvRow headers line ''birth_date'') (csvRow headers line ''birthdate'')))
                  (toJsv (js_or (csvRow headers line ''death_date'') (csvRow headers line ''deathdate'')))
                  member)
           (run\<lparr>server := sv1, createdMembers := createdMembers run @ [member]\<rparr>)
           (placesOf
              (toJsv (js_or (csvRow headers line ''birth_place'') (csvRow headers line ''birthplace'')))
              (toJsv (js_or (csvRow headers line ''death_place'') (csvRow headers line ''deathplace''))))"
    "fm_name member = Val (orDefault (csvRow headers line ''name'') [])"
    "fm_id member = randomUUID w (tick (server run))"
    "tick sv1 = Suc (tick (server run))"
    "familyMembers (storage sv1)
       = AList.update (fm_id member) member (familyMembers (storage (server run)))"
    "locations (storage sv1) = locations (storage (server run))"
    "events_map (storage sv1) = events_map (storage (server run))"
proof -
  let ?row = "csvRow headers line"
  let ?ins = "\<lparr>fm_name = Val (orDefault (?row ''name'') []),
                fm_birthDate = orNull (js_or (?row ''birth_date'') (?row ''birthdate'')),
                fm_deathDate = orNull (js_or (?row ''death_date'') (?row ''deathdate'')),
                fm_birthPlace = orNull (js_or (?row ''birth_place'') (?row ''birthplace'')),
                fm_deathPlace = orNull (js_or (?row ''death_place'') (?row ''deathplace'')),
                fm_notes = Val (orDefault (?row ''notes'') []),
                fm_photos = Val []\<rparr>"
  obtain member sv1 where c: "createFamilyMember w (server run) ?ins = (member, sv1)"
    by (cases "createFamilyMember w (server run) ?ins")
  have "csvUploadRow w headers run line
       = foldl (processPlace w
                  (toJsv (js_or (?row ''birth_date'') (?row ''birthdate'')))
                  (toJsv (js_or (?row ''death_date'') (?row ''deathdate'')))
                  member)
           (run\<lparr>server := sv1, createdMembers := createdMembers run @ [member]\<rparr>)
           (placesOf
              (toJsv (js_or (?row ''birth_place'') (?row ''birthplace'')))
              (toJsv (js_or (?row ''death_place'') (?row ''deathplace''))))"
    using assms by (simp add: csvUploadRow_def Let_def c)
  moreover have "fm_name member = Val (orDefault (?row ''name'') [])"
    "fm_id member = randomUUID w (tick (server run))"
    using createFamilyMember_facts(1) [OF c] by simp_all
  ultimately show ?thesis
    using createFamilyMember_facts(2-5) [OF c] that by simp
qed

lemma person_recorded:
  assumes "run' = foldl (processPlace w bd dd member)
                    (run\<lparr>server := sv1, createdMembers := createdMembers run @ [member]\<rparr>) pts"
    and "familyMembers (storage sv1)
           = AList.update (fm_id member) member (familyMembers (storage (server run)))"
  shows "createdMembers run' = createdMembers run @ [member]"
    and "familyMembers (storage (server run'))
           = AList.update (fm_id member) member (familyMembers (storage (server run)))"
    and "map_of (familyMembers (storage (server run'))) (fm_id member) = Some member"
  using assms by (simp_all add: processPlaces_members processPlaces_familyMembers update_conv')

lemma only_place_fails:
  assumes g: "pts = [(place, t)]"
    and tk: "tick sv1 = Suc n"
    and f: "nominatim w (Suc n) place = GeocoderError \<or> nominatim w (Suc n) place = GeocoderResults []"
    and st: "locations (storage sv1) = locs" "events_map (storage sv1) = evs"
  shows "(let run' = foldl (processPlace w bd dd member)
                       (run\<lparr>server := sv1, createdMembers := createdMembers run @ [member]\<rparr>) pts
          in createdLocations run' = createdLocations run
           \<and> createdEvents run' = createdEvents run
           \<and> locations (storage (server run')) = locs
           \<and> events_map (storage (server run')) = evs)"
proof -
  let ?run1 = "run\<lparr>server := sv1, createdMembers := createdMembers run @ [member]\<rparr>"
  have "fst (geocodeLocation w (server ?run1) place) = None"
    using f tk by (simp add: geocodeLocation_None_iff)
  then have "processPlace w bd dd member ?run1 (place, t)
           = ?run1\<lparr>server := (server ?run1)\<lparr>tick := Suc (tick (server ?run1))\<rparr>\<rparr>"
    by (rule processPlace_fail)
  then show ?thesis
    using st by (simp add: g Let_def)
qed

lemma gedcomMember_members:
  "\<exists>new. createdMembers (gedcomMember w run md) = createdMembers run @ new
     \<and> length new = (if md_name md \<noteq> [] then 1 else 0)"
proof (cases "md_name md = []")
  case True
  then have "gedcomMember w run md = run" by (simp add: gedcomMember_def)
  with True show ?thesis by simp
next
  case False
  then obtain member sv1 where g: "gedcomMember w run md
       = foldl (processPlace w (md_birthDate md) (md_deathDate md) member)
           (run\<lparr>server := sv1, createdMembers := createdMembers run @ [member]\<rparr>)
           (placesOf (md_birthPlace md) (md_deathPlace md))"
    by (rule gedcomMember_named)
  show ?thesis
    unfolding g processPlaces_members using False by simp
qed

lemma csvUploadRow_members:
  "\<exists>new. createdMembers (csvUploadRow w headers run line) = createdMembers run @ new
     \<and> length new = (if truthy (csvRow headers line ''name'') then 1 else 0)"
proof (cases "truthy (csvRow headers line ''name'')")
  case False
  then have "csvUploadRow w headers run line = run" by (simp add: csvUploadRow_def)
  with False show ?thesis by simp
next
  case True
  then obtain member sv1 where g: "csvUploadRow w headers run line
       = foldl (processPlace w
                  (toJsv (js_or (csvRow headers line ''birth_date'') (csvRow headers line ''birthdate'')))
                  (toJsv (js_or (csvRow headers line ''death_date'') (csvRow headers line ''deathdate'')))
                  member)
           (run\<lparr>server := sv1, createdMembers := createdMembers run @ [member]\<rparr>)
           (placesOf
              (toJsv (js_or (csvRow headers line ''birth_place'') (csvRow headers line ''birthplace'')))
              (toJsv (js_or (csvRow headers line ''death_place'') (csvRow headers line ''deathplace''))))"
    by (rule csvUploadRow_named)
  show ?thesis
    unfolding g processPlaces_members using True by simp
qed

lemma foldl_member_count:
  assumes step: "\<And>run x. \<exists>new. createdMembers (f run x) = createdMembers run @ new
                      \<and> length new = (if P x then 1 else 0)"
  shows "length (createdMembers (foldl f run xs))
           = length (createdMembers run) + length (filter P xs)"
proof (induction xs arbitrary: run)
  case Nil
  show ?case by simp
next
  case (Cons x xs)
  obtain new where "createdMembers (f run x) = createdMembers run @ new"
    "length new = (if P x then 1 else 0)"
    using step [of run x] by blast
  then have "length (createdMembers (f run x)) = length (createdMembers run) + (if P x then 1 else 0)"
    by simp
  then show ?case using Cons.IH [of "f run x"] by simp
qed

lemma only_place:
  assumes "place \<noteq> []"
    and "(bp = Val place \<and> dp \<in> {Undefined, Null, Val []})
       \<or> (dp = Val place \<and> bp \<in> {Undefined, Null, Val []})"
  shows "\<exists>t. placesOf bp dp = [(place, t)]"
  using assms by (auto simp: placesOf_explicit)

lemma only_place_csv:
  assumes "place \<noteq> []"
    and "(js_or a b = Some place \<and> js_or c d \<in> {None, Some []})
       \<or> (js_or c d = Some place \<and> js_or a b \<in> {None, Some []})"
  shows "\<exists>t. placesOf (toJsv (js_or a b)) (toJsv (js_or c d)) = [(place, t)]"
  using assms by (auto simp: placesOf_explicit toJsv_def)

text \<open>
  C4. \<open>geocodeLocation\<close> returns \<open>null\<close> exactly when the collaborator errors or returns no
  result. A person with a non-empty name is created whatever the collaborator answers: the
  GEDCOM handler builds the record from the parsed fields, with the identifier and the time
  the store gives it, appends it to the created members and stores it in \<open>familyMembers\<close>
  under its identifier; the CSV handler does the same for a row whose \<open>name\<close> column is not
  empty. When the only place of such a person fails to resolve (one of birth place and
  death place is a non-empty string, the other is missing or empty; for a CSV row each is
  read from its column or, when that is missing or empty, from the alias column), no
  location and no event is created, neither in the handler's arrays nor in the store. No
  step has an error value, and the handler goes on: whatever the collaborator answers, the
  number of created members of a whole upload is the number of persons with a non-empty
  name.
\<close>

theorem failed_resolution_creates_no_location_or_event:
  "(\<forall>w sv address.
       fst (geocodeLocation w sv address) = None \<longleftrightarrow>
         nominatim w (tick sv) address = GeocoderError
         \<or> nominatim w (tick sv) address = GeocoderResults [])
   \<and> (\<forall>w run md. md_name md \<noteq> [] \<longrightarrow>
         (let run' = gedcomMember w run md;
              member = \<lparr>fm_name = Val (md_name md), fm_birthDate = md_birthDate md,
                         fm_deathDate = md_deathDate md, fm_birthPlace = md_birthPlace md,
                         fm_deathPlace = md_deathPlace md, fm_notes = Val (md_notes md),
                         fm_photos = Val (md_photos md),
                         fm_id = randomUUID w (tick (server run)),
                         fm_createdAt = newDate w (tick (server run))\<rparr>
          in createdMembers run' = createdMembers run @ [member]
           \<and> familyMembers (storage (server run'))
               = AList.update (fm_id member) member (familyMembers (storage (server run)))
           \<and> map_of (familyMembers (storage (server run'))) (fm_id member) = Some member))
   \<and> (\<forall>w run md place.
         md_name md \<noteq> [] \<and> place \<noteq> []
         \<and> ((md_birthPlace md = Val place \<and> md_deathPlace md \<in> {Undefined, Null, Val []})
            \<or> (md_deathPlace md = Val place \<and> md_birthPlace md \<in> {Undefined, Null, Val []}))
         \<and> (nominatim w (Suc (tick (server run))) place = GeocoderError
            \<or> nominatim w (Suc (tick (server run))) place = GeocoderResults [])
         \<longrightarrow> (let run' = gedcomMember w run md
              in createdLocations run' = createdLocations run
               \<and> createdEvents run' = createdEvents run
               \<and> locations (storage (server run')) = locations (storage (server run))
               \<and> events_map (storage (server run')) = events_map (storage (server run))))
   \<and> (\<forall>w headers run line name.
         csvRow headers line ''name'' = Some name \<and> name \<noteq> [] \<longrightarrow>
         (let run' = csvUploadRow w headers run line
          in \<exists>member. createdMembers run' = createdMembers run @ [member]
               \<and> fm_name member = Val name
               \<and> fm_id member = randomUUID w (tick (server run))
               \<and> familyMembers (storage (server run'))
                   = AList.update (fm_id member) member (familyMembers (storage (server run)))
               \<and> map_of (familyMembers (storage (server run'))) (fm_id member) = Some member))
   \<and> (\<forall>w headers run line name place.
         (let row = csvRow headers line;
              pick = (\<lambda>a b. if a \<noteq> None \<and> a \<noteq> Some [] then a else b);
              birthPlace = pick (row ''birth_place'') (row ''birthplace'');
              deathPlace = pick (row ''death_place'') (row ''deathplace'')
          in row ''name'' = Some name \<and> name \<noteq> [] \<and> place \<noteq> []
           \<and> ((birthPlace = Some place \<and> deathPlace \<in> {None, Some []})
              \<or> (deathPlace = Some place \<and> birthPlace \<in> {None, Some []})))
         \<and> (nominatim w (Suc (tick (server run))) place = GeocoderError
            \<or> nominatim w (Suc (tick (server run))) place = GeocoderResults [])
         \<longrightarrow> (let run' = csvUploadRow w headers run line
              in createdLocations run' = createdLocations run
               \<and> createdEvents run' = createdEvents run
               \<and> locations (storage (server run')) = locations (storage (server run))
               \<and> events_map (storage (server run')) = events_map (storage (server run))))
   \<and> (\<forall>w sv gedcomData.
         length (createdMembers (uploadGedcom w sv gedcomData))
           = length (filter (\<lambda>md. md_name md \<noteq> []) (parseGedcomData gedcomData)))
   \<and> (\<forall>w sv csvData. 2 \<le> length (csvLines csvData) \<longrightarrow>
         (\<exists>run. uploadCsv w sv csvData = Processed run
            \<and> length (createdMembers run)
                = length (filter (\<lambda>line. truthy (csvRow (csvHeaders (csvLines csvData ! 0)) line ''name''))
                            (drop 1 (csvLines csvData)))))"
proof -
  have a: "\<forall>w sv address.
       fst (geocodeLocation w sv address) = None \<longleftrightarrow>
         nominatim w (tick sv) address = GeocoderError
         \<or> nominatim w (tick sv) address = GeocoderResults []"
    by (simp add: geocodeLocation_None_iff)
  have b: "let run' = gedcomMember w run md;
              member = \<lparr>fm_name = Val (md_name md), fm_birthDate = md_birthDate md,
                         fm_deathDate = md_deathDate md, fm_birthPlace = md_birthPlace md,
                         fm_deathPlace = md_deathPlace md, fm_notes = Val (md_notes md),
                         fm_photos = Val (md_photos md),
                         fm_id = randomUUID w (tick (server run)),
                         fm_createdAt = newDate w (tick (server run))\<rparr>
          in createdMembers run' = createdMembers run @ [member]
           \<and> familyMembers (storage (server run'))
               = AList.update (fm_id member) member (familyMembers (storage (server run)))
           \<and> map_of (familyMembers (storage (server run'))) (fm_id member) = Some member"
    if h: "md_name md \<noteq> []" for w run md
  proof -
    from h obtain member sv1 where g: "gedcomMember w run md
       = foldl (processPlace w (md_birthDate md) (md_deathDate md) member)
           (run\<lparr>server := sv1, createdMembers := createdMembers run @ [member]\<rparr>)
           (placesOf (md_birthPlace md) (md_deathPlace md))"
      and m: "member = \<lparr>fm_name = Val (md_name md), fm_birthDate = md_birthDate md,
                fm_deathDate = md_deathDate md, fm_birthPlace = md_birthPlace md,
                fm_deathPlace = md_deathPlace md, fm_notes = Val (md_notes md),
                fm_photos = Val (md_photos md), fm_id = randomUUID w (tick (server run)),
                fm_createdAt = newDate w (tick (server run))\<rparr>"
      and s: "familyMembers (storage sv1)
       = AList.update (fm_id member) member (familyMembers (storage (server run)))"
      using gedcomMember_named [of md w run] by blast
    note r = person_recorded [OF g s]
    show ?thesis
      unfolding Let_def using r unfolding m by simp
  qed
  have c: "let run' = gedcomMember w run md
              in createdLocations run' = createdLocations run
               \<and> createdEvents run' = createdEvents run
               \<and> locations (storage (server run')) = locations (storage (server run))
               \<and> events_map (storage (server run')) = events_map (storage (server run))"
    if h: "md_name md \<noteq> [] \<and> place \<noteq> []
         \<and> ((md_birthPlace md = Val place \<and> md_deathPlace md \<in> {Undefined, Null, Val []})
            \<or> (md_deathPlace md = Val place \<and> md_birthPlace md \<in> {Undefined, Null, Val []}))
         \<and> (nominatim w (Suc (tick (server run))) place = GeocoderError
            \<or> nominatim w (Suc (tick (server run))) place = GeocoderResults [])"
    for w run md place
  proof -
    from h obtain member sv1 where g: "gedcomMember w run md
       = foldl (processPlace w (md_birthDate md) (md_deathDate md) member)
           (run\<lparr>server := sv1, createdMembers := createdMembers run @ [member]\<rparr>)
           (placesOf (md_birthPlace md) (md_deathPlace md))"
      and m: "tick sv1 = Suc (tick (server run))"
        "locations (storage sv1) = locations (storage (server run))"
        "events_map (storage sv1) = events_map (storage (server run))"
      using gedcomMember_named [of md w run] by blast
    from h obtain t where p: "placesOf (md_birthPlace md) (md_deathPlace md) = [(place, t)]"
      using only_place [of place "md_birthPlace md" "md_deathPlace md"] by blast
    from h have f: "nominatim w (Suc (tick (server run))) place = GeocoderError
            \<or> nominatim w (Suc (tick (server run))) place = GeocoderResults []"
      by simp
    show ?thesis
      unfolding g
      using only_place_fails [OF p m(1) f m(2,3), of "md_birthDate md" "md_deathDate md" member run]
      by simp
  qed
  have d: "let run' = csvUploadRow w headers run line
          in \<exists>member. createdMembers run' = createdMembers run @ [member]
               \<and> fm_name member = Val name
               \<and> fm_id member = randomUUID w (tick (server run))
               \<and> familyMembers (storage (server run'))
                   = AList.update (fm_id member) member (familyMembers (storage (server run)))
               \<and> map_of (familyMembers (storage (server run'))) (fm_id member) = Some member"
    if h: "csvRow headers line ''name'' = Some name \<and> name \<noteq> []" for w headers run line name
  proof -
    from h have t: "truthy (csvRow headers line ''name'')" by (simp add: truthy_def)
    let ?row = "csvRow headers line"
    from t obtain member sv1 where g: "csvUploadRow w headers run line
       = foldl (processPlace w
                  (toJsv (js_or (?row ''birth_date'') (?row ''birthdate'')))
                  (toJsv (js_or (?row ''death_date'') (?row ''deathdate'')))
                  member)
           (run\<lparr>server := sv1, createdMembers := createdMembers run @ [member]\<rparr>)
           (placesOf
              (toJsv (js_or (?row ''birth_place'') (?row ''birthplace'')))
              (toJsv (js_or (?row ''death_place'') (?row ''deathplace''))))"
      and m: "fm_name member = Val (orDefault (?row ''name'') [])"
        "fm_id member = randomUUID w (tick (server run))"
      and s: "familyMembers (storage sv1)
       = AList.update (fm_id member) member (familyMembers (storage (server run)))"
      using csvUploadRow_named [of headers line w run] by blast
    have n: "fm_name member = Val name" using m(1) h by (simp add: orDefault_def)
    note r = person_recorded [OF g s]
    show ?thesis
      unfolding Let_def using r n m(2) by blast
  qed
  have e: "let run' = csvUploadRow w headers run line
              in createdLocations run' = createdLocations run
               \<and> createdEvents run' = createdEvents run
               \<and> locations (storage (server run')) = locations (storage (server run))
               \<and> events_map (storage (server run')) = events_map (storage (server run))"
    if h: "(let row = csvRow headers line;
              pick = (\<lambda>a b. if a \<noteq> None \<and> a \<noteq> Some [] then a else b);
              birthPlace = pick (row ''birth_place'') (row ''birthplace'');
              deathPlace = pick (row ''death_place'') (row ''deathplace'')
          in row ''name'' = Some name \<and> name \<noteq> [] \<and> place \<noteq> []
           \<and> ((birthPlace = Some place \<and> deathPlace \<in> {None, Some []})
              \<or> (deathPlace = Some place \<and> birthPlace \<in> {None, Some []})))
         \<and> (nominatim w (Suc (tick (server run))) place = GeocoderError
            \<or> nominatim w (Suc (tick (server run))) place = GeocoderResults [])"
    for w headers run line name place
  proof -
    let ?row = "csvRow headers line"
    let ?bd = "toJsv (js_or (?row ''birth_date'') (?row ''birthdate''))"
    let ?dd = "toJsv (js_or (?row ''death_date'') (?row ''deathdate''))"
    let ?bp = "js_or (?row ''birth_place'') (?row ''birthplace'')"
    let ?dp = "js_or (?row ''death_place'') (?row ''deathplace'')"
    from h have h1: "?row ''name'' = Some name" "name \<noteq> []" "place \<noteq> []"
      and h2: "(?bp = Some place \<and> ?dp \<in> {None, Some []})
              \<or> (?dp = Some place \<and> ?bp \<in> {None, Some []})"
      and f: "nominatim w (Suc (tick (server run))) place = GeocoderError
            \<or> nominatim w (Suc (tick (server run))) place = GeocoderResults []"
      unfolding Let_def js_or_explicit by simp_all
    from h1 have t: "truthy (?row ''name'')" by (simp add: truthy_def)
    from t obtain member sv1 where g: "csvUploadRow w headers run line
       = foldl (processPlace w ?bd ?dd member)
           (run\<lparr>server := sv1, createdMembers := createdMembers run @ [member]\<rparr>)
           (placesOf (toJsv ?bp) (toJsv ?dp))"
      and m: "tick sv1 = Suc (tick (server run))"
        "locations (storage sv1) = locations (storage (server run))"
        "events_map (storage sv1) = events_map (storage (server run))"
      using csvUploadRow_named [of headers line w run] by blast
    obtain t' where p: "placesOf (toJsv ?bp) (toJsv ?dp) = [(place, t')]"
      using only_place_csv [OF h1(3) h2] by blast
    show ?thesis
      unfolding g
      using only_place_fails [OF p m(1) f m(2,3), of ?bd ?dd member run]
      by simp
  qed
  have f: "\<forall>w sv gedcomData.
         length (createdMembers (uploadGedcom w sv gedcomData))
           = length (filter (\<lambda>md. md_name md \<noteq> []) (parseGedcomData gedcomData))"
  proof (intro allI)
    fix w sv gedcomData
    have "length (createdMembers (foldl (gedcomMember w) (startRun sv) (parseGedcomData gedcomData)))
        = length (createdMembers (startRun sv))
          + length (filter (\<lambda>md. md_name md \<noteq> []) (parseGedcomData gedcomData))"
      by (rule foldl_member_count [where P = "\<lambda>md. md_name md \<noteq> []"])
        (rule gedcomMember_members)
    then show "length (createdMembers (uploadGedcom w sv gedcomData))
           = length (filter (\<lambda>md. md_name md \<noteq> []) (parseGedcomData gedcomData))"
      by (simp add: uploadGedcom_def startRun_def)
  qed
  have g: "\<forall>w sv csvData. 2 \<le> length (csvLines csvData) \<longrightarrow>
         (\<exists>run. uploadCsv w sv csvData = Processed run
            \<and> length (createdMembers run)
                = length (filter (\<lambda>line. truthy (csvRow (csvHeaders (csvLines csvData ! 0)) line ''name''))
                            (drop 1 (csvLines csvData))))"
  proof (intro allI impI)
    fix w sv csvData assume l: "2 \<le> length (csvLines csvData)"
    let ?h = "csvHeaders (csvLines csvData ! 0)"
    let ?run = "foldl (csvUploadRow w ?h) (startRun sv) (drop 1 (csvLines csvData))"
    have u: "uploadCsv w sv csvData = Processed ?run"
      using l by (simp add: uploadCsv_def Let_def)
    have "length (createdMembers ?run)
        = length (createdMembers (startRun sv))
          + length (filter (\<lambda>line. truthy (csvRow ?h line ''name'')) (drop 1 (csvLines csvData)))"
      by (rule foldl_member_count [where P = "\<lambda>line. truthy (csvRow ?h line ''name'')"])
        (rule csvUploadRow_members)
    then have "length (createdMembers ?run)
        = length (filter (\<lambda>line. truthy (csvRow ?h line ''name'')) (drop 1 (csvLines csvData)))"
      by (simp add: startRun_def)
    with u show "\<exists>run. uploadCsv w sv csvData = Processed run
            \<and> length (createdMembers run)
                = length (filter (\<lambda>line. truthy (csvRow ?h line ''name''))
                            (drop 1 (csvLines csvData)))"
      by blast
  qed
  show ?thesis
    apply (intro conjI)
          apply (rule a)
         apply (intro allI impI, erule b)
        apply (intro allI impI, erule c)
       apply (intro allI impI, erule d)
      apply (intro allI impI, erule e)
     apply (rule f)
    apply (rule g)
    done
qed

theorem failed_resolution_creates_no_location_or_event_witness:
  "(let w = \<lparr>randomUUID = (\<lambda>n. replicate (Suc n) CHR ''u''), newDate = (\<lambda>n. n),
              nominatim = (\<lambda>n a. GeocoderResults [])\<rparr>;
        run = startRun \<lparr>storage = newMemStorage, tick = 0\<rparr>;
        md = \<lparr>md_name = ''Ann'', md_birthDate = Val ''1900'', md_deathDate = Null,
               md_birthPlace = Val ''Atlantis'', md_deathPlace = Null, md_notes = [],
               md_photos = []\<rparr>;
        member = \<lparr>fm_name = Val ''Ann'', fm_birthDate = Val ''1900'', fm_deathDate = Null,
               fm_birthPlace = Val ''Atlantis'', fm_deathPlace = Null, fm_notes = Val [],
               fm_photos = Val [], fm_id = ''u'', fm_createdAt = 0\<rparr>;
        run' = gedcomMember w run md
    in fst (geocodeLocation w \<lparr>storage = newMemStorage, tick = 1\<rparr> ''Atlantis'') = None
     \<and> createdMembers run' = [member]
     \<and> familyMembers (storage (server run')) = [(''u'', member)]
     \<and> map_of (familyMembers (storage (server run'))) ''u'' = Some member
     \<and> createdLocations run' = [] \<and> createdEvents run' = []
     \<and> locations (storage (server run')) = [] \<and> events_map (storage (server run')) = [])
   \<and> (let w = \<lparr>randomUUID = (\<lambda>n. replicate (Suc n) CHR ''u''), newDate = (\<lambda>n. n),
              nominatim = (\<lambda>n a. GeocoderError)\<rparr>;
        run = startRun \<lparr>storage = newMemStorage, tick = 0\<rparr>;
        run' = csvUploadRow w [''name'', ''death_place''] run ''Ann,Atlantis''
    in (\<exists>member. createdMembers run' = [member] \<and> fm_name member = Val ''Ann''
          \<and> fm_id member = ''u''
          \<and> map_of (familyMembers (storage (server run'))) ''u'' = Some member)
     \<and> createdLocations run' = [] \<and> createdEvents run' = []
     \<and> locations (storage (server run')) = [] \<and> events_map (storage (server run')) = [])"
proof -
  note main = failed_resolution_creates_no_location_or_event
  let ?w = "\<lparr>randomUUID = (\<lambda>n. replicate (Suc n) CHR ''u''), newDate = (\<lambda>n. n),
              nominatim = (\<lambda>n a. GeocoderResults [])\<rparr>"
  let ?run = "startRun \<lparr>storage = newMemStorage, tick = 0\<rparr>"
  let ?md = "\<lparr>md_name = ''Ann'', md_birthDate = Val ''1900'', md_deathDate = Null,
               md_birthPlace = Val ''Atlantis'', md_deathPlace = Null, md_notes = [],
               md_photos = []\<rparr>"
  have g: "fst (geocodeLocation ?w \<lparr>storage = newMemStorage, tick = 1\<rparr> ''Atlantis'') = None"
    using main [THEN conjunct1, rule_format, of ?w "\<lparr>storage = newMemStorage, tick = 1\<rparr>" "''Atlantis''"]
    by simp
  have n: "md_name ?md \<noteq> []" by simp
  note i1 = main [THEN conjunct2, THEN conjunct1, rule_format, OF n, of ?w ?run]
  have h: "md_name ?md \<noteq> [] \<and> ''Atlantis'' \<noteq> []
         \<and> ((md_birthPlace ?md = Val ''Atlantis'' \<and> md_deathPlace ?md \<in> {Undefined, Null, Val []})
            \<or> (md_deathPlace ?md = Val ''Atlantis'' \<and> md_birthPlace ?md \<in> {Undefined, Null, Val []}))
         \<and> (nominatim ?w (Suc (tick (server ?run))) ''Atlantis'' = GeocoderError
            \<or> nominatim ?w (Suc (tick (server ?run))) ''Atlantis'' = GeocoderResults [])"
    by simp
  note i2 = main [THEN conjunct2, THEN conjunct2, THEN conjunct1, rule_format, OF h]
  have ged: "(let w = ?w; run = ?run; md = ?md;
        member = \<lparr>fm_name = Val ''Ann'', fm_birthDate = Val ''1900'', fm_deathDate = Null,
               fm_birthPlace = Val ''Atlantis'', fm_deathPlace = Null, fm_notes = Val [],
               fm_photos = Val [], fm_id = ''u'', fm_createdAt = 0\<rparr>;
        run' = gedcomMember w run md
    in fst (geocodeLocation w \<lparr>storage = newMemStorage, tick = 1\<rparr> ''Atlantis'') = None
     \<and> createdMembers run' = [member]
     \<and> familyMembers (storage (server run')) = [(''u'', member)]
     \<and> map_of (familyMembers (storage (server run'))) ''u'' = Some member
     \<and> createdLocations run' = [] \<and> createdEvents run' = []
     \<and> locations (storage (server run')) = [] \<and> events_map (storage (server run')) = [])"
    using g i1 i2
    by (simp add: Let_def startRun_def newMemStorage_def)
  let ?w2 = "\<lparr>randomUUID = (\<lambda>n. replicate (Suc n) CHR ''u''), newDate = (\<lambda>n. n),
              nominatim = (\<lambda>n a. GeocoderError)\<rparr>"
  let ?hs = "[''name'', ''death_place'']"
  have r1: "csvRow ?hs ''Ann,Atlantis'' ''name'' = Some ''Ann''" by code_simp
  have r2: "csvRow ?hs ''Ann,Atlantis'' ''death_place'' = Some ''Atlantis''" by code_simp
  have r3: "csvRow ?hs ''Ann,Atlantis'' ''birth_place'' = None" by code_simp
  have r4: "csvRow ?hs ''Ann,Atlantis'' ''birthplace'' = None" by code_simp
  have c1: "csvRow ?hs ''Ann,Atlantis'' ''name'' = Some ''Ann'' \<and> ''Ann'' \<noteq> []"
    using r1 by simp
  note j1 = main [THEN conjunct2, THEN conjunct2, THEN conjunct2, THEN conjunct1, rule_format,
      OF c1, of ?w2 ?run]
  have c2: "(let row = csvRow ?hs ''Ann,Atlantis'';
              pick = (\<lambda>a b. if a \<noteq> None \<and> a \<noteq> Some [] then a else b);
              birthPlace = pick (row ''birth_place'') (row ''birthplace'');
              deathPlace = pick (row ''death_place'') (row ''deathplace'')
          in row ''name'' = Some ''Ann'' \<and> ''Ann'' \<noteq> [] \<and> ''Atlantis'' \<noteq> []
           \<and> ((birthPlace = Some ''Atlantis'' \<and> deathPlace \<in> {None, Some []})
              \<or> (deathPlace = Some ''Atlantis'' \<and> birthPlace \<in> {None, Some []})))
         \<and> (nominatim ?w2 (Suc (tick (server ?run))) ''Atlantis'' = GeocoderError
            \<or> nominatim ?w2 (Suc (tick (server ?run))) ''Atlantis'' = GeocoderResults [])"
    by (simp add: Let_def r1 r2 r3 r4)
  note j2 = main [THEN conjunct2, THEN conjunct2, THEN conjunct2, THEN conjunct2, THEN conjunct1,
      rule_format, OF c2]
  have csv: "(let w = ?w2; run = ?run;
        run' = csvUploadRow w [''name'', ''death_place''] run ''Ann,Atlantis''
    in (\<exists>member. createdMembers run' = [member] \<and> fm_name member = Val ''Ann''
          \<and> fm_id member = ''u''
          \<and> map_of (familyMembers (storage (server run'))) ''u'' = Some member)
     \<and> createdLocations run' = [] \<and> createdEvents run' = []
     \<and> locations (storage (server run')) = [] \<and> events_map (storage (server run')) = [])"
    using j1 j2
    apply (simp only: Let_def)
    apply (elim exE conjE)
    apply (intro conjI)
        apply (rule_tac x = member in exI)
        apply (simp add: startRun_def newMemStorage_def)
       apply (simp_all add: startRun_def newMemStorage_def)
    done
  show ?thesis
    by (intro conjI ged csv)
qed

lemma role_of_place:
  assumes "pt \<in> set (placesOf bp dp)"
    and "loc_name l = Val (fst pt)" and "loc_locationType l = Val (snd pt)"
    and "loc_timeSpan l = (if snd pt = ''birth'' then bd else dd)"
  shows "(loc_locationType l = Val ''birth'' \<and> loc_timeSpan l = bd \<and> loc_name l = bp)
       \<or> (loc_locationType l = Val ''death'' \<and> loc_timeSpan l = dd \<and> loc_name l = dp)"
  using placesOf_mem [OF assms(1)] assms(2-4) by auto

lemma places_locations_roles:
  "\<exists>new. createdLocations (foldl (processPlace w bd dd m) run (placesOf bp dp))
            = createdLocations run @ new
     \<and> (\<forall>l \<in> set new. loc_memberCount l = Val 1
           \<and> ((loc_locationType l = Val ''birth'' \<and> loc_timeSpan l = bd \<and> loc_name l = bp)
              \<or> (loc_locationType l = Val ''death'' \<and> loc_timeSpan l = dd \<and> loc_name l = dp)))"
proof -
  obtain new where n:
    "createdLocations (foldl (processPlace w bd dd m) run (placesOf bp dp))
       = createdLocations run @ new"
    "\<forall>l \<in> set new. \<exists>pt \<in> set (placesOf bp dp). loc_memberCount l = Val 1
           \<and> loc_name l = Val (fst pt) \<and> loc_locationType l = Val (snd pt)
           \<and> loc_timeSpan l = (if snd pt = ''birth'' then bd else dd)"
    using processPlaces_locations [of w bd dd m run "placesOf bp dp"] by blast
  have "\<forall>l \<in> set new. loc_memberCount l = Val 1
           \<and> ((loc_locationType l = Val ''birth'' \<and> loc_timeSpan l = bd \<and> loc_name l = bp)
              \<or> (loc_locationType l = Val ''death'' \<and> loc_timeSpan l = dd \<and> loc_name l = dp))"
  proof
    fix l assume "l \<in> set new"
    with n(2) obtain pt where "pt \<in> set (placesOf bp dp)" "loc_memberCount l = Val 1"
      "loc_name l = Val (fst pt)" "loc_locationType l = Val (snd pt)"
      "loc_timeSpan l = (if snd pt = ''birth'' then bd else dd)" by blast
    then show "loc_memberCount l = Val 1
           \<and> ((loc_locationType l = Val ''birth'' \<and> loc_timeSpan l = bd \<and> loc_name l = bp)
              \<or> (loc_locationType l = Val ''death'' \<and> loc_timeSpan l = dd \<and> loc_name l = dp))"
      using role_of_place [of pt bp dp l bd dd] by blast
  qed
  with n(1) show ?thesis by blast
qed

lemma places_all_resolve:
  assumes "\<And>n a. nominatim w n a \<noteq> GeocoderError \<and> nominatim w n a \<noteq> GeocoderResults []"
  shows "map (\<lambda>l. (loc_name l, loc_locationType l, loc_timeSpan l, loc_memberCount l))
           (createdLocations (foldl (processPlace w bd dd m) run (placesOf bp dp)))
         = map (\<lambda>l. (loc_name l, loc_locationType l, loc_timeSpan l, loc_memberCount l))
             (createdLocations run)
           @ (case bp of Val p \<Rightarrow> if p \<noteq> [] then [(Val p, Val ''birth'', bd, Val 1)] else []
                | _ \<Rightarrow> [])
           @ (case dp of Val p \<Rightarrow> if p \<noteq> [] then [(Val p, Val ''death'', dd, Val 1)] else []
                | _ \<Rightarrow> [])"
  unfolding processPlaces_all_resolve [of w bd dd m run "placesOf bp dp", OF assms]
  by (simp add: placesOf_explicit split: jsv.splits)

lemma gedcomMember_locations:
  "\<exists>new. createdLocations (gedcomMember w run md) = createdLocations run @ new
     \<and> (\<forall>l \<in> set new. loc_memberCount l = Val 1
           \<and> ((loc_locationType l = Val ''birth'' \<and> loc_timeSpan l = md_birthDate md
                 \<and> loc_name l = md_birthPlace md)
              \<or> (loc_locationType l = Val ''death'' \<and> loc_timeSpan l = md_deathDate md
                 \<and> loc_name l = md_deathPlace md)))"
proof (cases "md_name md = []")
  case True
  then have "gedcomMember w run md = run" by (simp add: gedcomMember_def)
  then show ?thesis by simp
next
  case False
  then obtain member sv1 where g: "gedcomMember w run md
       = foldl (processPlace w (md_birthDate md) (md_deathDate md) member)
           (run\<lparr>server := sv1, createdMembers := createdMembers run @ [member]\<rparr>)
           (placesOf (md_birthPlace md) (md_deathPlace md))"
    by (rule gedcomMember_named)
  show ?thesis
    unfolding g
    using places_locations_roles [of w "md_birthDate md" "md_deathDate md" member
        "run\<lparr>server := sv1, createdMembers := createdMembers run @ [member]\<rparr>"
        "md_birthPlace md" "md_deathPlace md"]
    by simp
qed

lemma gedcomMember_store:
  assumes "map_of (locations (storage (server (gedcomMember w run md)))) k = Some l"
  shows "map_of (locations (storage (server run))) k = Some l
       \<or> (loc_memberCount l = Val 1
          \<and> (loc_locationType l = Val ''birth'' \<or> loc_locationType l = Val ''death''))"
proof (cases "md_name md = []")
  case True
  then have "gedcomMember w run md = run" by (simp add: gedcomMember_def)
  with assms show ?thesis by simp
next
  case False
  then obtain member sv1 where g: "gedcomMember w run md
       = foldl (processPlace w (md_birthDate md) (md_deathDate md) member)
           (run\<lparr>server := sv1, createdMembers := createdMembers run @ [member]\<rparr>)
           (placesOf (md_birthPlace md) (md_deathPlace md))"
    and s: "locations (storage sv1) = locations (storage (server run))"
    using gedcomMember_named [of md w run] by blast
  show ?thesis
    using processPlaces_store [of w "md_birthDate md" "md_deathDate md" member
        "run\<lparr>server := sv1, createdMembers := createdMembers run @ [member]\<rparr>"
        "md_birthPlace md" "md_deathPlace md" k l] assms
    by (simp add: g s)
qed

lemma gedcomMember_all_resolve:
  assumes "\<And>n a. nominatim w n a \<noteq> GeocoderError \<and> nominatim w n a \<noteq> GeocoderResults []"
    and "md_name md \<noteq> []"
  shows "map (\<lambda>l. (loc_name l, loc_locationType l, loc_timeSpan l, loc_memberCount l))
           (createdLocations (gedcomMember w run md))
         = map (\<lambda>l. (loc_name l, loc_locationType l, loc_timeSpan l, loc_memberCount l))
             (createdLocations run)
           @ (case md_birthPlace md of
                Val p \<Rightarrow> if p \<noteq> [] then [(Val p, Val ''birth'', md_birthDate md, Val 1)] else []
              | _ \<Rightarrow> [])
           @ (case md_deathPlace md of
                Val p \<Rightarrow> if p \<noteq> [] then [(Val p, Val ''death'', md_deathDate md, Val 1)] else []
              | _ \<Rightarrow> [])"
proof -
  from assms(2) obtain member sv1 where g: "gedcomMember w run md
       = foldl (processPlace w (md_birthDate md) (md_deathDate md) member)
           (run\<lparr>server := sv1, createdMembers := createdMembers run @ [member]\<rparr>)
           (placesOf (md_birthPlace md) (md_deathPlace md))"
    by (rule gedcomMember_named)
  show ?thesis
    unfolding g places_all_resolve [OF assms(1)] by simp
qed

lemma csv_row_run:
  assumes "truthy (csvRow headers line ''name'')"
  obtains member sv1 where
    "csvUploadRow w headers run line
       = foldl (processPlace w
                  (toJsv (js_or (csvRow headers line ''birth_date'') (csvRow headers line ''birthdate'')))
                  (toJsv (js_or (csvRow headers line ''death_date'') (csvRow headers line ''deathdate'')))
                  member)
           (run\<lparr>server := sv1, createdMembers := createdMembers run @ [member]\<rparr>)
           (placesOf
              (toJsv (js_or (csvRow headers line ''birth_place'') (csvRow headers line ''birthplace'')))
              (toJsv (js_or (csvRow headers line ''death_place'') (csvRow headers line ''deathplace''))))"
    "locations (storage sv1) = locations (storage (server run))"
  using csvUploadRow_named [OF assms, of w run] by blast

lemma csvUploadRow_locations:
  "\<exists>new. createdLocations (csvUploadRow w headers run line) = createdLocations run @ new
     \<and> (\<forall>l \<in> set new. loc_memberCount l = Val 1
           \<and> ((loc_locationType l = Val ''birth''
                 \<and> loc_timeSpan l = toJsv (js_or (csvRow headers line ''birth_date'')
                                                   (csvRow headers line ''birthdate''))
                 \<and> loc_name l = toJsv (js_or (csvRow headers line ''birth_place'')
                                              (csvRow headers line ''birthplace'')))
              \<or> (loc_locationType l = Val ''death''
                 \<and> loc_timeSpan l = toJsv (js_or (csvRow headers line ''death_date'')
                                                   (csvRow headers line ''deathdate''))
                 \<and> loc_name l = toJsv (js_or (csvRow headers line ''death_place'')
                                              (csvRow headers line ''deathplace'')))))"
proof (cases "truthy (csvRow headers line ''name'')")
  case False
  then have "csvUploadRow w headers run line = run" by (simp add: csvUploadRow_def)
  then show ?thesis by simp
next
  case True
  let ?row = "csvRow headers line"
  let ?bd = "toJsv (js_or (?row ''birth_date'') (?row ''birthdate''))"
  let ?dd = "toJsv (js_or (?row ''death_date'') (?row ''deathdate''))"
  let ?bp = "toJsv (js_or (?row ''birth_place'') (?row ''birthplace''))"
  let ?dp = "toJsv (js_or (?row ''death_place'') (?row ''deathplace''))"
  from True obtain member sv1 where g: "csvUploadRow w headers run line
       = foldl (processPlace w ?bd ?dd member)
           (run\<lparr>server := sv1, createdMembers := createdMembers run @ [member]\<rparr>)
           (placesOf ?bp ?dp)"
    by (rule csv_row_run)
  show ?thesis
    unfolding g
    using places_locations_roles [of w ?bd ?dd member
        "run\<lparr>server := sv1, createdMembers := createdMembers run @ [member]\<rparr>" ?bp ?dp]
    by simp
qed

lemma csvUploadRow_store:
  assumes "map_of (locations (storage (server (csvUploadRow w headers run line)))) k = Some l"
  shows "map_of (locations (storage (server run))) k = Some l
       \<or> (loc_memberCount l = Val 1
          \<and> (loc_locationType l = Val ''birth'' \<or> loc_locationType l = Val ''death''))"
proof (cases "truthy (csvRow headers line ''name'')")
  case False
  then have "csvUploadRow w headers run line = run" by (simp add: csvUploadRow_def)
  with assms show ?thesis by simp
next
  case True
  let ?row = "csvRow headers line"
  let ?bd = "toJsv (js_or (?row ''birth_date'') (?row ''birthdate''))"
  let ?dd = "toJsv (js_or (?row ''death_date'') (?row ''deathdate''))"
  let ?bp = "toJsv (js_or (?row ''birth_place'') (?row ''birthplace''))"
  let ?dp = "toJsv (js_or (?row ''death_place'') (?row ''deathplace''))"
  from True obtain member sv1 where g: "csvUploadRow w headers run line
       = foldl (processPlace w ?bd ?dd member)
           (run\<lparr>server := sv1, createdMembers := createdMembers run @ [member]\<rparr>)
           (placesOf ?bp ?dp)"
    and s: "locations (storage sv1) = locations (storage (server run))"
    by (rule csv_row_run)
  show ?thesis
    using processPlaces_store [of w ?bd ?dd member
        "run\<lparr>server := sv1, createdMembers := createdMembers run @ [member]\<rparr>" ?bp ?dp k l] assms
    by (simp add: g s)
qed

lemma csvUploadRow_all_resolve:
  assumes "\<And>n a. nominatim w n a \<noteq> GeocoderError \<and> nominatim w n a \<noteq> GeocoderResults []"
    and "truthy (csvRow headers line ''name'')"
  shows "map (\<lambda>l. (loc_name l, loc_locationType l, loc_timeSpan l, loc_memberCount l))
           (createdLocations (csvUploadRow w headers run line))
         = map (\<lambda>l. (loc_name l, loc_locationType l, loc_timeSpan l, loc_memberCount l))
             (createdLocations run)
           @ (case js_or (csvRow headers line ''birth_place'') (csvRow headers line ''birthplace'') of
                Some p \<Rightarrow>
                  if p \<noteq> [] then
                    [(Val p, Val ''birth'',
                      toJsv (js_or (csvRow headers line ''birth_date'')
                                   (csvRow headers line ''birthdate'')), Val 1)]
                  else []
              | None \<Rightarrow> [])
           @ (case js_or (csvRow headers line ''death_place'') (csvRow headers line ''deathplace'') of
                Some p \<Rightarrow>
                  if p \<noteq> [] then
                    [(Val p, Val ''death'',
                      toJsv (js_or (csvRow headers line ''death_date'')
                                   (csvRow headers line ''deathdate'')), Val 1)]
                  else []
              | None \<Rightarrow> [])"
proof -
  let ?row = "csvRow headers line"
  let ?bd = "toJsv (js_or (?row ''birth_date'') (?row ''birthdate''))"
  let ?dd = "toJsv (js_or (?row ''death_date'') (?row ''deathdate''))"
  let ?bp = "toJsv (js_or (?row ''birth_place'') (?row ''birthplace''))"
  let ?dp = "toJsv (js_or (?row ''death_place'') (?row ''deathplace''))"
  from assms(2) obtain member sv1 where g: "csvUploadRow w headers run line
       = foldl (processPlace w ?bd ?dd member)
           (run\<lparr>server := sv1, createdMembers := createdMembers run @ [member]\<rparr>)
           (placesOf ?bp ?dp)"
    by (rule csv_row_run)
  show ?thesis
    unfolding g places_all_resolve [OF assms(1)]
    by (simp add: toJsv_def split: option.splits)
qed

lemma foldl_locations_inv:
  assumes step: "\<And>run x. \<exists>new. createdLocations (f run x) = createdLocations run @ new
                      \<and> (\<forall>l \<in> set new. Q l)"
    and "\<forall>l \<in> set (createdLocations run). Q l"
  shows "\<forall>l \<in> set (createdLocations (foldl f run xs)). Q l"
proof -
  obtain new where "createdLocations (foldl f run xs) = createdLocations run @ new"
    "\<forall>l \<in> set new. \<exists>x \<in> set xs. Q l"
    using foldl_appends [of createdLocations f "\<lambda>x l. Q l" run xs] step by blast
  with assms(2) show ?thesis by auto
qed

lemma processPlace_frame:
  assumes "k \<notin> loc_id ` set (createdLocations (processPlace w bd dd m run pt))"
  shows "map_of (locations (storage (server (processPlace w bd dd m run pt)))) k
           = map_of (locations (storage (server run))) k
         \<and> k \<notin> loc_id ` set (createdLocations run)"
proof -
  obtain place t where pt: "pt = (place, t)" by (cases pt)
  show ?thesis
  proof (cases rule: processPlace_cases [of w run place bd dd m t])
    case fail
    with assms show ?thesis by (simp add: pt)
  next
    case (ok location event sv')
    with assms show ?thesis by (simp add: pt update_conv')
  qed
qed

lemma foldl_frame:
  assumes step: "\<And>r x. k \<notin> ids (f r x) \<Longrightarrow> g (f r x) k = g r k \<and> k \<notin> ids r"
    and "k \<notin> ids (foldl f r xs)"
  shows "g (foldl f r xs) k = g r k \<and> k \<notin> ids r"
  using assms(2)
proof (induction xs arbitrary: r)
  case Nil
  then show ?case by simp
next
  case (Cons x xs)
  from Cons.prems have "k \<notin> ids (foldl f (f r x) xs)" by simp
  from Cons.IH [OF this] have a: "g (foldl f (f r x) xs) k = g (f r x) k" "k \<notin> ids (f r x)"
    by simp_all
  from step [OF a(2)] a(1) show ?case by simp
qed

lemma processPlaces_frame:
  assumes "k \<notin> loc_id ` set (createdLocations (foldl (processPlace w bd dd m) run pts))"
  shows "map_of (locations (storage (server (foldl (processPlace w bd dd m) run pts)))) k
           = map_of (locations (storage (server run))) k
         \<and> k \<notin> loc_id ` set (createdLocations run)"
  by (rule foldl_frame [where ids = "\<lambda>r. loc_id ` set (createdLocations r)"
        and g = "\<lambda>r. map_of (locations (storage (server r)))"
        and f = "processPlace w bd dd m", OF processPlace_frame assms])

lemma gedcomMember_frame:
  assumes "k \<notin> loc_id ` set (createdLocations (gedcomMember w run md))"
  shows "map_of (locations (storage (server (gedcomMember w run md)))) k
           = map_of (locations (storage (server run))) k
         \<and> k \<notin> loc_id ` set (createdLocations run)"
proof (cases "md_name md = []")
  case True
  then have "gedcomMember w run md = run" by (simp add: gedcomMember_def)
  with assms show ?thesis by simp
next
  case False
  then obtain member sv1 where g: "gedcomMember w run md
       = foldl (processPlace w (md_birthDate md) (md_deathDate md) member)
           (run\<lparr>server := sv1, createdMembers := createdMembers run @ [member]\<rparr>)
           (placesOf (md_birthPlace md) (md_deathPlace md))"
    and s: "locations (storage sv1) = locations (storage (server run))"
    using gedcomMember_named [of md w run] by blast
  show ?thesis
    using processPlaces_frame [of k w "md_birthDate md" "md_deathDate md" member
        "run\<lparr>server := sv1, createdMembers := createdMembers run @ [member]\<rparr>"
        "placesOf (md_birthPlace md) (md_deathPlace md)"] assms
    by (simp add: g s)
qed

lemma csvUploadRow_frame:
  assumes "k \<notin> loc_id ` set (createdLocations (csvUploadRow w headers run line))"
  shows "map_of (locations (storage (server (csvUploadRow w headers run line)))) k
           = map_of (locations (storage (server run))) k
         \<and> k \<notin> loc_id ` set (createdLocations run)"
proof (cases "truthy (csvRow headers line ''name'')")
  case False
  then have "csvUploadRow w headers run line = run" by (simp add: csvUploadRow_def)
  with assms show ?thesis by simp
next
  case True
  let ?row = "csvRow headers line"
  let ?bd = "toJsv (js_or (?row ''birth_date'') (?row ''birthdate''))"
  let ?dd = "toJsv (js_or (?row ''death_date'') (?row ''deathdate''))"
  let ?bp = "toJsv (js_or (?row ''birth_place'') (?row ''birthplace''))"
  let ?dp = "toJsv (js_or (?row ''death_place'') (?row ''deathplace''))"
  from True obtain member sv1 where g: "csvUploadRow w headers run line
       = foldl (processPlace w ?bd ?dd member)
           (run\<lparr>server := sv1, createdMembers := createdMembers run @ [member]\<rparr>)
           (placesOf ?bp ?dp)"
    and s: "locations (storage sv1) = locations (storage (server run))"
    by (rule csv_row_run)
  show ?thesis
    using processPlaces_frame [of k w ?bd ?dd member
        "run\<lparr>server := sv1, createdMembers := createdMembers run @ [member]\<rparr>"
        "placesOf ?bp ?dp"] assms
    by (simp add: g s)
qed

lemma uploadGedcom_locations:
  "\<forall>l \<in> set (createdLocations (uploadGedcom w sv gedcomData)).
     loc_memberCount l = Val 1
     \<and> (loc_locationType l = Val ''birth'' \<or> loc_locationType l = Val ''death'')"
  unfolding uploadGedcom_def
proof (rule foldl_locations_inv)
  show "\<forall>l \<in> set (createdLocations (startRun sv)). loc_memberCount l = Val 1
     \<and> (loc_locationType l = Val ''birth'' \<or> loc_locationType l = Val ''death'')"
    by (simp add: startRun_def)
next
  fix run md
  obtain new where n: "createdLocations (gedcomMember w run md) = createdLocations run @ new"
    "\<forall>l \<in> set new. loc_memberCount l = Val 1
           \<and> ((loc_locationType l = Val ''birth'' \<and> loc_timeSpan l = md_birthDate md
                 \<and> loc_name l = md_birthPlace md)
              \<or> (loc_locationType l = Val ''death'' \<and> loc_timeSpan l = md_deathDate md
                 \<and> loc_name l = md_deathPlace md))"
    using gedcomMember_locations [of w run md] by blast
  from n(2) have "\<forall>l \<in> set new. loc_memberCount l = Val 1
     \<and> (loc_locationType l = Val ''birth'' \<or> loc_locationType l = Val ''death'')"
    by blast
  with n(1) show "\<exists>new. createdLocations (gedcomMember w run md) = createdLocations run @ new
     \<and> (\<forall>l \<in> set new. loc_memberCount l = Val 1
     \<and> (loc_locationType l = Val ''birth'' \<or> loc_locationType l = Val ''death''))"
    by blast
qed

lemma csvRows_locations:
  "\<forall>l \<in> set (createdLocations (foldl (csvUploadRow w headers) (startRun sv) ls)).
     loc_memberCount l = Val 1
     \<and> (loc_locationType l = Val ''birth'' \<or> loc_locationType l = Val ''death'')"
proof (rule foldl_locations_inv)
  show "\<forall>l \<in> set (createdLocations (startRun sv)). loc_memberCount l = Val 1
     \<and> (loc_locationType l = Val ''birth'' \<or> loc_locationType l = Val ''death'')"
    by (simp add: startRun_def)
next
  fix run line
  obtain new where n: "createdLocations (csvUploadRow w headers run line) = createdLocations run @ new"
    "\<forall>l \<in> set new. loc_memberCount l = Val 1
           \<and> ((loc_locationType l = Val ''birth''
                 \<and> loc_timeSpan l = toJsv (js_or (csvRow headers line ''birth_date'')
                                                   (csvRow headers line ''birthdate''))
                 \<and> loc_name l = toJsv (js_or (csvRow headers line ''birth_place'')
                                              (csvRow headers line ''birthplace'')))
              \<or> (loc_locationType l = Val ''death''
                 \<and> loc_timeSpan l = toJsv (js_or (csvRow headers line ''death_date'')
                                                   (csvRow headers line ''deathdate''))
                 \<and> loc_name l = toJsv (js_or (csvRow headers line ''death_place'')
                                              (csvRow headers line ''deathplace''))))"
    using csvUploadRow_locations [of w headers run line] by blast
  from n(2) have "\<forall>l \<in> set new. loc_memberCount l = Val 1
     \<and> (loc_locationType l = Val ''birth'' \<or> loc_locationType l = Val ''death'')"
    by blast
  with n(1) show "\<exists>new. createdLocations (csvUploadRow w headers run line) = createdLocations run @ new
     \<and> (\<forall>l \<in> set new. loc_memberCount l = Val 1
     \<and> (loc_locationType l = Val ''birth'' \<or> loc_locationType l = Val ''death''))"
    by blast
qed

lemma uploadGedcom_store:
  assumes "map_of (locations (storage (server (uploadGedcom w sv gedcomData)))) k = Some l"
  shows "map_of (locations (storage sv)) k = Some l
       \<or> (loc_memberCount l = Val 1
          \<and> (loc_locationType l = Val ''birth'' \<or> loc_locationType l = Val ''death''))"
proof -
  have "map_of (locations (storage (server (startRun sv)))) k = Some l
       \<or> (loc_memberCount l = Val 1
          \<and> (loc_locationType l = Val ''birth'' \<or> loc_locationType l = Val ''death''))"
  proof (rule foldl_store [where g = "\<lambda>r. locations (storage (server r))"
      and f = "gedcomMember w" and xs = "parseGedcomData gedcomData"])
    fix r md k' l'
    assume "map_of (locations (storage (server (gedcomMember w r md)))) k' = Some l'"
    then show "map_of (locations (storage (server r))) k' = Some l'
       \<or> (loc_memberCount l' = Val 1
          \<and> (loc_locationType l' = Val ''birth'' \<or> loc_locationType l' = Val ''death''))"
      by (rule gedcomMember_store)
  next
    show "map_of (locations (storage (server
             (foldl (gedcomMember w) (startRun sv) (parseGedcomData gedcomData))))) k = Some l"
      using assms by (simp add: uploadGedcom_def)
  qed
  then show ?thesis by (simp add: startRun_def)
qed

lemma csvRows_store:
  assumes "map_of (locations (storage (server
             (foldl (csvUploadRow w headers) (startRun sv) ls)))) k = Some l"
  shows "map_of (locations (storage sv)) k = Some l
       \<or> (loc_memberCount l = Val 1
          \<and> (loc_locationType l = Val ''birth'' \<or> loc_locationType l = Val ''death''))"
proof -
  have "map_of (locations (storage (server (startRun sv)))) k = Some l
       \<or> (loc_memberCount l = Val 1
          \<and> (loc_locationType l = Val ''birth'' \<or> loc_locationType l = Val ''death''))"
  proof (rule foldl_store [where g = "\<lambda>r. locations (storage (server r))"
      and f = "csvUploadRow w headers" and xs = ls])
    fix r line k' l'
    assume "map_of (locations (storage (server (csvUploadRow w headers r line)))) k' = Some l'"
    then show "map_of (locations (storage (server r))) k' = Some l'
       \<or> (loc_memberCount l' = Val 1
          \<and> (loc_locationType l' = Val ''birth'' \<or> loc_locationType l' = Val ''death''))"
      by (rule csvUploadRow_store)
  next
    show "map_of (locations (storage (server
             (foldl (csvUploadRow w headers) (startRun sv) ls)))) k = Some l"
      by (rule assms)
  qed
  then show ?thesis by (simp add: startRun_def)
qed

lemma uploadGedcom_frame:
  assumes "k \<notin> loc_id ` set (createdLocations (uploadGedcom w sv gedcomData))"
  shows "map_of (locations (storage (server (uploadGedcom w sv gedcomData)))) k
           = map_of (locations (storage sv)) k"
  using foldl_frame [where ids = "\<lambda>r. loc_id ` set (createdLocations r)"
        and g = "\<lambda>r. map_of (locations (storage (server r)))"
        and f = "gedcomMember w" and r = "startRun sv" and xs = "parseGedcomData gedcomData"
        and k = k, OF gedcomMember_frame] assms
  by (simp add: uploadGedcom_def startRun_def)

lemma csvRows_frame:
  assumes "k \<notin> loc_id ` set (createdLocations (foldl (csvUploadRow w headers) (startRun sv) ls))"
  shows "map_of (locations (storage (server (foldl (csvUploadRow w headers) (startRun sv) ls)))) k
           = map_of (locations (storage sv)) k"
  using foldl_frame [where ids = "\<lambda>r. loc_id ` set (createdLocations r)"
        and g = "\<lambda>r. map_of (locations (storage (server r)))"
        and f = "csvUploadRow w headers" and r = "startRun sv" and xs = ls
        and k = k, OF csvUploadRow_frame] assms
  by (simp add: startRun_def)

lemma uploadCsv_processed:
  "uploadCsv w sv csvData = Processed run \<Longrightarrow>
     run = foldl (csvUploadRow w (csvHeaders (csvLines csvData ! 0))) (startRun sv)
             (drop 1 (csvLines csvData))"
  by (simp add: uploadCsv_def Let_def split: if_splits)

text \<open>
  C7. When the collaborator has a result for a place, the step creates exactly one location:
  name and address are the place string, the coordinates are those of the first result,
  \<open>locationType\<close> is the role (\<open>birth\<close> or \<open>death\<close>), \<open>timeSpan\<close> is the date of that role,
  \<open>memberCount\<close> is 1. The location is appended to the created locations and stored in
  \<open>locations\<close> under its own new identifier; every other key of the store reads as before,
  so the count of a location stored earlier, of the same place or not, is never raised.
  Per person, in both handlers: every location the person adds has \<open>memberCount\<close> 1 and is
  either the birth location, with the birth date as \<open>timeSpan\<close> and the birth place as name,
  or the death location, with the death date and the death place. When every place
  resolves, a person with a non-empty name adds exactly the birth location, if the birth
  place is a non-empty string, and then the death location, if the death place is one; a
  CSV row reads each of the four values from its column or, when that is missing or empty,
  from the alias column. For a whole GEDCOM or CSV upload: every created location has
  \<open>memberCount\<close> 1 and \<open>locationType\<close> \<open>birth\<close> or \<open>death\<close>; every location stored
  afterwards was either stored before under the same key, with the same value, or has
  \<open>memberCount\<close> 1 and \<open>locationType\<close> \<open>birth\<close> or \<open>death\<close>; and every key that is not the
  identifier of a created location reads as before the upload.
\<close>

theorem created_location_has_role_date_and_count_one:
  "(\<forall>w bd dd member run place t c cs.
       nominatim w (tick (server run)) place = GeocoderResults (c # cs) \<longrightarrow>
       (let location = \<lparr>loc_name = Val place, loc_latitude = Val (lat c),
                         loc_longitude = Val (lng c), loc_address = Val place,
                         loc_locationType = Val t,
                         loc_timeSpan = (if t = ''birth'' then bd else dd),
                         loc_memberCount = Val 1,
                         loc_id = randomUUID w (Suc (tick (server run))),
                         loc_createdAt = newDate w (Suc (tick (server run)))\<rparr>
        in \<exists>event sv'.
             processPlace w bd dd member run (place, t)
               = run\<lparr>server := sv', createdLocations := createdLocations run @ [location],
                     createdEvents := createdEvents run @ [event]\<rparr>
           \<and> locations (storage sv')
               = AList.update (loc_id location) location (locations (storage (server run)))
           \<and> map_of (locations (storage sv')) (loc_id location) = Some location
           \<and> (\<forall>k. k \<noteq> loc_id location \<longrightarrow>
                 map_of (locations (storage sv')) k
                   = map_of (locations (storage (server run))) k)))
   \<and> (\<forall>w run md.
         \<exists>new. createdLocations (gedcomMember w run md) = createdLocations run @ new
           \<and> (\<forall>l \<in> set new. loc_memberCount l = Val 1
                 \<and> ((loc_locationType l = Val ''birth'' \<and> loc_timeSpan l = md_birthDate md
                       \<and> loc_name l = md_birthPlace md)
                    \<or> (loc_locationType l = Val ''death'' \<and> loc_timeSpan l = md_deathDate md
                       \<and> loc_name l = md_deathPlace md))))
   \<and> (\<forall>w headers run line.
         (let row = csvRow headers line;
              pick = (\<lambda>a b. if a \<noteq> None \<and> a \<noteq> Some [] then a else b);
              val = (\<lambda>v. case v of None \<Rightarrow> Undefined | Some s \<Rightarrow> Val s);
              birthDate = val (pick (row ''birth_date'') (row ''birthdate''));
              deathDate = val (pick (row ''death_date'') (row ''deathdate''));
              birthPlace = val (pick (row ''birth_place'') (row ''birthplace''));
              deathPlace = val (pick (row ''death_place'') (row ''deathplace''))
          in \<exists>new. createdLocations (csvUploadRow w headers run line) = createdLocations run @ new
               \<and> (\<forall>l \<in> set new. loc_memberCount l = Val 1
                     \<and> ((loc_locationType l = Val ''birth'' \<and> loc_timeSpan l = birthDate
                           \<and> loc_name l = birthPlace)
                        \<or> (loc_locationType l = Val ''death'' \<and> loc_timeSpan l = deathDate
                           \<and> loc_name l = deathPlace)))))
   \<and> (\<forall>w run md.
         (\<forall>n a. nominatim w n a \<noteq> GeocoderError \<and> nominatim w n a \<noteq> GeocoderResults [])
         \<and> md_name md \<noteq> [] \<longrightarrow>
         map (\<lambda>l. (loc_name l, loc_locationType l, loc_timeSpan l, loc_memberCount l))
           (createdLocations (gedcomMember w run md))
         = map (\<lambda>l. (loc_name l, loc_locationType l, loc_timeSpan l, loc_memberCount l))
             (createdLocations run)
           @ (case md_birthPlace md of
                Val p \<Rightarrow> if p \<noteq> [] then [(Val p, Val ''birth'', md_birthDate md, Val 1)] else []
              | _ \<Rightarrow> [])
           @ (case md_deathPlace md of
                Val p \<Rightarrow> if p \<noteq> [] then [(Val p, Val ''death'', md_deathDate md, Val 1)] else []
              | _ \<Rightarrow> []))
   \<and> (\<forall>w headers run line name.
         (\<forall>n a. nominatim w n a \<noteq> GeocoderError \<and> nominatim w n a \<noteq> GeocoderResults [])
         \<and> csvRow headers line ''name'' = Some name \<and> name \<noteq> [] \<longrightarrow>
         (let row = csvRow headers line;
              pick = (\<lambda>a b. if a \<noteq> None \<and> a \<noteq> Some [] then a else b);
              val = (\<lambda>v. case v of None \<Rightarrow> Undefined | Some s \<Rightarrow> Val s);
              birthDate = val (pick (row ''birth_date'') (row ''birthdate''));
              deathDate = val (pick (row ''death_date'') (row ''deathdate''));
              birthPlace = pick (row ''birth_place'') (row ''birthplace'');
              deathPlace = pick (row ''death_place'') (row ''deathplace'')
          in map (\<lambda>l. (loc_name l, loc_locationType l, loc_timeSpan l, loc_memberCount l))
               (createdLocations (csvUploadRow w headers run line))
             = map (\<lambda>l. (loc_name l, loc_locationType l, loc_timeSpan l, loc_memberCount l))
                 (createdLocations run)
               @ (case birthPlace of
                    Some p \<Rightarrow> if p \<noteq> [] then [(Val p, Val ''birth'', birthDate, Val 1)] else []
                  | None \<Rightarrow> [])
               @ (case deathPlace of
                    Some p \<Rightarrow> if p \<noteq> [] then [(Val p, Val ''death'', deathDate, Val 1)] else []
                  | None \<Rightarrow> [])))
   \<and> (\<forall>w sv gedcomData.
         (let run = uploadGedcom w sv gedcomData
          in (\<forall>l \<in> set (createdLocations run).
                loc_memberCount l = Val 1
                \<and> (loc_locationType l = Val ''birth'' \<or> loc_locationType l = Val ''death''))
           \<and> (\<forall>k l. map_of (locations (storage (server run))) k = Some l \<longrightarrow>
                map_of (locations (storage sv)) k = Some l
                \<or> (loc_memberCount l = Val 1
                   \<and> (loc_locationType l = Val ''birth'' \<or> loc_locationType l = Val ''death'')))
           \<and> (\<forall>k. k \<notin> loc_id ` set (createdLocations run) \<longrightarrow>
                map_of (locations (storage (server run))) k = map_of (locations (storage sv)) k)))
   \<and> (\<forall>w sv csvData. 2 \<le> length (csvLines csvData) \<longrightarrow>
         (\<exists>run. uploadCsv w sv csvData = Processed run
           \<and> (\<forall>l \<in> set (createdLocations run).
                loc_memberCount l = Val 1
                \<and> (loc_locationType l = Val ''birth'' \<or> loc_locationType l = Val ''death''))
           \<and> (\<forall>k l. map_of (locations (storage (server run))) k = Some l \<longrightarrow>
                map_of (locations (storage sv)) k = Some l
                \<or> (loc_memberCount l = Val 1
                   \<and> (loc_locationType l = Val ''birth'' \<or> loc_locationType l = Val ''death'')))
           \<and> (\<forall>k. k \<notin> loc_id ` set (createdLocations run) \<longrightarrow>
                map_of (locations (storage (server run))) k = map_of (locations (storage sv)) k)))"
proof -
  have a: "let location = \<lparr>loc_name = Val place, loc_latitude = Val (lat c),
                         loc_longitude = Val (lng c), loc_address = Val place,
                         loc_locationType = Val t,
                         loc_timeSpan = (if t = ''birth'' then bd else dd),
                         loc_memberCount = Val 1,
                         loc_id = randomUUID w (Suc (tick (server run))),
                         loc_createdAt = newDate w (Suc (tick (server run)))\<rparr>
        in \<exists>event sv'.
             processPlace w bd dd member run (place, t)
               = run\<lparr>server := sv', createdLocations := createdLocations run @ [location],
                     createdEvents := createdEvents run @ [event]\<rparr>
           \<and> locations (storage sv')
               = AList.update (loc_id location) location (locations (storage (server run)))
           \<and> map_of (locations (storage sv')) (loc_id location) = Some location
           \<and> (\<forall>k. k \<noteq> loc_id location \<longrightarrow>
                 map_of (locations (storage sv')) k
                   = map_of (locations (storage (server run))) k)"
    if h: "nominatim w (tick (server run)) place = GeocoderResults (c # cs)"
    for w bd dd member run place t c cs
  proof -
    from h have g: "fst (geocodeLocation w (server run) place) = Some c"
      unfolding geocodeLocation_Some_iff by blast
    obtain location event sv' where
      p: "processPlace w bd dd member run (place, t)
             = run\<lparr>server := sv', createdLocations := createdLocations run @ [location],
                   createdEvents := createdEvents run @ [event]\<rparr>"
      and l: "location = \<lparr>loc_name = Val place, loc_latitude = Val (lat c),
                loc_longitude = Val (lng c), loc_address = Val place,
                loc_locationType = Val t,
                loc_timeSpan = (if t = ''birth'' then bd else dd),
                loc_memberCount = Val 1,
                loc_id = randomUUID w (Suc (tick (server run))),
                loc_createdAt = newDate w (Suc (tick (server run)))\<rparr>"
      and s: "locations (storage sv')
             = AList.update (loc_id location) location (locations (storage (server run)))"
      using processPlace_ok [OF g, of bd dd member t] by blast
    have m: "map_of (locations (storage sv')) (loc_id location) = Some location"
      "\<forall>k. k \<noteq> loc_id location \<longrightarrow>
           map_of (locations (storage sv')) k = map_of (locations (storage (server run))) k"
      by (simp_all add: s update_conv')
    show ?thesis
      unfolding Let_def
      apply (rule exI [of _ event])
      apply (rule exI [of _ sv'])
      using p s m unfolding l
      apply simp
      done
  qed
  have b: "\<exists>new. createdLocations (gedcomMember w run md) = createdLocations run @ new
           \<and> (\<forall>l \<in> set new. loc_memberCount l = Val 1
                 \<and> ((loc_locationType l = Val ''birth'' \<and> loc_timeSpan l = md_birthDate md
                       \<and> loc_name l = md_birthPlace md)
                    \<or> (loc_locationType l = Val ''death'' \<and> loc_timeSpan l = md_deathDate md
                       \<and> loc_name l = md_deathPlace md)))" for w run md
    by (rule gedcomMember_locations)
  have c: "let row = csvRow headers line;
              pick = (\<lambda>a b. if a \<noteq> None \<and> a \<noteq> Some [] then a else b);
              val = (\<lambda>v. case v of None \<Rightarrow> Undefined | Some s \<Rightarrow> Val s);
              birthDate = val (pick (row ''birth_date'') (row ''birthdate''));
              deathDate = val (pick (row ''death_date'') (row ''deathdate''));
              birthPlace = val (pick (row ''birth_place'') (row ''birthplace''));
              deathPlace = val (pick (row ''death_place'') (row ''deathplace''))
          in \<exists>new. createdLocations (csvUploadRow w headers run line) = createdLocations run @ new
               \<and> (\<forall>l \<in> set new. loc_memberCount l = Val 1
                     \<and> ((loc_locationType l = Val ''birth'' \<and> loc_timeSpan l = birthDate
                           \<and> loc_name l = birthPlace)
                        \<or> (loc_locationType l = Val ''death'' \<and> loc_timeSpan l = deathDate
                           \<and> loc_name l = deathPlace)))" for w headers run line
    using csvUploadRow_locations [of w headers run line]
    unfolding Let_def js_or_explicit toJsv_def .
  have d: "map (\<lambda>l. (loc_name l, loc_locationType l, loc_timeSpan l, loc_memberCount l))
           (createdLocations (gedcomMember w run md))
         = map (\<lambda>l. (loc_name l, loc_locationType l, loc_timeSpan l, loc_memberCount l))
             (createdLocations run)
           @ (case md_birthPlace md of
                Val p \<Rightarrow> if p \<noteq> [] then [(Val p, Val ''birth'', md_birthDate md, Val 1)] else []
              | _ \<Rightarrow> [])
           @ (case md_deathPlace md of
                Val p \<Rightarrow> if p \<noteq> [] then [(Val p, Val ''death'', md_deathDate md, Val 1)] else []
              | _ \<Rightarrow> [])"
    if h: "(\<forall>n a. nominatim w n a \<noteq> GeocoderError \<and> nominatim w n a \<noteq> GeocoderResults [])
         \<and> md_name md \<noteq> []" for w run md
  proof (rule gedcomMember_all_resolve)
    show "nominatim w n a \<noteq> GeocoderError \<and> nominatim w n a \<noteq> GeocoderResults []" for n a
      using h by blast
    show "md_name md \<noteq> []" using h by blast
  qed
  have e: "let row = csvRow headers line;
              pick = (\<lambda>a b. if a \<noteq> None \<and> a \<noteq> Some [] then a else b);
              val = (\<lambda>v. case v of None \<Rightarrow> Undefined | Some s \<Rightarrow> Val s);
              birthDate = val (pick (row ''birth_date'') (row ''birthdate''));
              deathDate = val (pick (row ''death_date'') (row ''deathdate''));
              birthPlace = pick (row ''birth_place'') (row ''birthplace'');
              deathPlace = pick (row ''death_place'') (row ''deathplace'')
          in map (\<lambda>l. (loc_name l, loc_locationType l, loc_timeSpan l, loc_memberCount l))
               (createdLocations (csvUploadRow w headers run line))
             = map (\<lambda>l. (loc_name l, loc_locationType l, loc_timeSpan l, loc_memberCount l))
                 (createdLocations run)
               @ (case birthPlace of
                    Some p \<Rightarrow> if p \<noteq> [] then [(Val p, Val ''birth'', birthDate, Val 1)] else []
                  | None \<Rightarrow> [])
               @ (case deathPlace of
                    Some p \<Rightarrow> if p \<noteq> [] then [(Val p, Val ''death'', deathDate, Val 1)] else []
                  | None \<Rightarrow> [])"
    if h: "(\<forall>n a. nominatim w n a \<noteq> GeocoderError \<and> nominatim w n a \<noteq> GeocoderResults [])
         \<and> csvRow headers line ''name'' = Some name \<and> name \<noteq> []" for w headers run line name
  proof -
    have r: "nominatim w n a \<noteq> GeocoderError \<and> nominatim w n a \<noteq> GeocoderResults []" for n a
      using h by blast
    have t: "truthy (csvRow headers line ''name'')" using h by (simp add: truthy_def)
    show ?thesis
      using csvUploadRow_all_resolve [of w headers line run, OF r t]
      unfolding Let_def js_or_explicit toJsv_def .
  qed
  have f: "let run = uploadGedcom w sv gedcomData
          in (\<forall>l \<in> set (createdLocations run).
                loc_memberCount l = Val 1
                \<and> (loc_locationType l = Val ''birth'' \<or> loc_locationType l = Val ''death''))
           \<and> (\<forall>k l. map_of (locations (storage (server run))) k = Some l \<longrightarrow>
                map_of (locations (storage sv)) k = Some l
                \<or> (loc_memberCount l = Val 1
                   \<and> (loc_locationType l = Val ''birth'' \<or> loc_locationType l = Val ''death'')))
           \<and> (\<forall>k. k \<notin> loc_id ` set (createdLocations run) \<longrightarrow>
                map_of (locations (storage (server run))) k = map_of (locations (storage sv)) k)"
    for w sv gedcomData
    unfolding Let_def
    apply (intro conjI allI impI)
      apply (rule uploadGedcom_locations)
     apply (erule uploadGedcom_store)
    apply (erule uploadGedcom_frame)
    done
  have g: "\<exists>run. uploadCsv w sv csvData = Processed run
           \<and> (\<forall>l \<in> set (createdLocations run).
                loc_memberCount l = Val 1
                \<and> (loc_locationType l = Val ''birth'' \<or> loc_locationType l = Val ''death''))
           \<and> (\<forall>k l. map_of (locations (storage (server run))) k = Some l \<longrightarrow>
                map_of (locations (storage sv)) k = Some l
                \<or> (loc_memberCount l = Val 1
                   \<and> (loc_locationType l = Val ''birth'' \<or> loc_locationType l = Val ''death'')))
           \<and> (\<forall>k. k \<notin> loc_id ` set (createdLocations run) \<longrightarrow>
                map_of (locations (storage (server run))) k = map_of (locations (storage sv)) k)"
    if h: "2 \<le> length (csvLines csvData)" for w sv csvData
  proof -
    let ?run = "foldl (csvUploadRow w (csvHeaders (csvLines csvData ! 0))) (startRun sv)
                  (drop 1 (csvLines csvData))"
    have u: "uploadCsv w sv csvData = Processed ?run"
      using h by (simp add: uploadCsv_def Let_def)
    show ?thesis
      apply (rule exI [of _ ?run])
      apply (intro conjI allI impI)
         apply (rule u)
        apply (rule csvRows_locations)
       apply (erule csvRows_store)
      apply (erule csvRows_frame)
      done
  qed
  show ?thesis
    apply (intro conjI)
          apply (intro allI impI, erule a)
         apply (intro allI, rule b)
        apply (intro allI, rule c)
       apply (intro allI impI, erule d)
      apply (intro allI impI, erule e)
     apply (intro allI, rule f)
    apply (intro allI impI, erule g)
    done
qed

theorem created_location_has_role_date_and_count_one_witness:
  "(let w = \<lparr>randomUUID = (\<lambda>n. replicate (Suc n) CHR ''u''), newDate = (\<lambda>n. n),
              nominatim = (\<lambda>n a. GeocoderResults [\<lparr>lat = 42, lng = - 71\<rparr>])\<rparr>;
        old = \<lparr>loc_name = Val ''Boston'', loc_latitude = Val 42, loc_longitude = Val (- 71),
                loc_address = Val ''Boston'', loc_locationType = Val ''birth'',
                loc_timeSpan = Val ''1850'', loc_memberCount = Val 1,
                loc_id = ''a'', loc_createdAt = 0\<rparr>;
        run = startRun \<lparr>storage = newMemStorage\<lparr>locations := [(''a'', old)]\<rparr>, tick = 0\<rparr>;
        member = \<lparr>fm_name = Val ''Ann'', fm_birthDate = Val ''1900'', fm_deathDate = Null,
               fm_birthPlace = Val ''Boston'', fm_deathPlace = Null, fm_notes = Val [],
               fm_photos = Val [], fm_id = ''m'', fm_createdAt = 0\<rparr>;
        location = \<lparr>loc_name = Val ''Boston'', loc_latitude = Val 42, loc_longitude = Val (- 71),
                loc_address = Val ''Boston'', loc_locationType = Val ''birth'',
                loc_timeSpan = Val ''1900'', loc_memberCount = Val 1,
                loc_id = ''uu'', loc_createdAt = 1\<rparr>
    in \<exists>event sv'.
         processPlace w (Val ''1900'') Null member run (''Boston'', ''birth'')
           = run\<lparr>server := sv', createdLocations := [location], createdEvents := [event]\<rparr>
       \<and> locations (storage sv') = [(''a'', old), (''uu'', location)]
       \<and> map_of (locations (storage sv')) ''uu'' = Some location
       \<and> map_of (locations (storage sv')) ''a'' = Some old)
   \<and> (let w = \<lparr>randomUUID = (\<lambda>n. replicate (Suc n) CHR ''u''), newDate = (\<lambda>n. n),
              nominatim = (\<lambda>n a. GeocoderResults [\<lparr>lat = 42, lng = - 71\<rparr>])\<rparr>;
        run = startRun \<lparr>storage = newMemStorage, tick = 0\<rparr>;
        md = \<lparr>md_name = ''Ann'', md_birthDate = Val ''1900'', md_deathDate = Val ''1950'',
               md_birthPlace = Val ''Boston'', md_deathPlace = Val ''Salem'', md_notes = [],
               md_photos = []\<rparr>
    in map (\<lambda>l. (loc_name l, loc_locationType l, loc_timeSpan l, loc_memberCount l))
         (createdLocations (gedcomMember w run md))
       = [(Val ''Boston'', Val ''birth'', Val ''1900'', Val 1),
          (Val ''Salem'', Val ''death'', Val ''1950'', Val 1)])
   \<and> (let w = \<lparr>randomUUID = (\<lambda>n. replicate (Suc n) CHR ''u''), newDate = (\<lambda>n. n),
              nominatim = (\<lambda>n a. GeocoderResults [\<lparr>lat = 42, lng = - 71\<rparr>])\<rparr>;
        run = startRun \<lparr>storage = newMemStorage, tick = 0\<rparr>
    in map (\<lambda>l. (loc_name l, loc_locationType l, loc_timeSpan l, loc_memberCount l))
         (createdLocations
            (csvUploadRow w [''name'', ''birth_date'', ''birthplace'', ''deathplace''] run
               ''Ann,1900,Boston,Salem''))
       = [(Val ''Boston'', Val ''birth'', Val ''1900'', Val 1),
          (Val ''Salem'', Val ''death'', Undefined, Val 1)])
   \<and> (let w = \<lparr>randomUUID = (\<lambda>n. replicate (Suc n) CHR ''u''), newDate = (\<lambda>n. n),
              nominatim = (\<lambda>n a. GeocoderResults [\<lparr>lat = 42, lng = - 71\<rparr>])\<rparr>;
        sv = \<lparr>storage = newMemStorage, tick = 0\<rparr>;
        gedcomData = ''0 @I1@ INDI'' @ [CHR 0x0A] @ ''1 NAME Ann'' @ [CHR 0x0A]
          @ ''2 DATE 1900'' @ [CHR 0x0A] @ ''2 PLAC Boston'' @ [CHR 0x0A]
          @ ''0 @I2@ INDI'' @ [CHR 0x0A] @ ''1 NAME Bob'' @ [CHR 0x0A]
          @ ''2 DATE 1905'' @ [CHR 0x0A] @ ''2 PLAC Boston'';
        run = uploadGedcom w sv gedcomData
    in map (\<lambda>l. (loc_id l, loc_name l, loc_locationType l, loc_timeSpan l, loc_memberCount l))
         (createdLocations run)
         = [(''uuu'', Val ''Boston'', Val ''birth'', Val ''1900'', Val 1),
            (''uuuuuuu'', Val ''Boston'', Val ''birth'', Val ''1905'', Val 1)]
     \<and> map (\<lambda>(k, l). (k, loc_name l, loc_memberCount l)) (locations (storage (server run)))
         = [(''uuu'', Val ''Boston'', Val 1), (''uuuuuuu'', Val ''Boston'', Val 1)]
     \<and> list_all (\<lambda>l. loc_memberCount l = Val 1) (createdLocations run))
   \<and> (let w = \<lparr>randomUUID = (\<lambda>n. replicate (Suc n) CHR ''u''), newDate = (\<lambda>n. n),
              nominatim = (\<lambda>n a. GeocoderResults [\<lparr>lat = 42, lng = - 71\<rparr>])\<rparr>;
        sv = \<lparr>storage = newMemStorage, tick = 0\<rparr>;
        csvData = ''name,birth_date,birthplace'' @ [CHR 0x0A] @ ''Ann,1900,Boston''
          @ [CHR 0x0A] @ ''Bob,1905,Boston''
    in \<exists>run. uploadCsv w sv csvData = Processed run
         \<and> list_all (\<lambda>l. loc_memberCount l = Val 1) (createdLocations run)
         \<and> map (\<lambda>l. (loc_id l, loc_name l, loc_locationType l, loc_timeSpan l, loc_memberCount l))
              (createdLocations run)
            = [(''uuu'', Val ''Boston'', Val ''birth'', Val ''1900'', Val 1),
               (''uuuuuuu'', Val ''Boston'', Val ''birth'', Val ''1905'', Val 1)]
         \<and> map (\<lambda>(k, l). (k, loc_name l, loc_memberCount l)) (locations (storage (server run)))
            = [(''uuu'', Val ''Boston'', Val 1), (''uuuuuuu'', Val ''Boston'', Val 1)])"
proof -
  note main = created_location_has_role_date_and_count_one
  let ?w = "\<lparr>randomUUID = (\<lambda>n. replicate (Suc n) CHR ''u''), newDate = (\<lambda>n. n),
              nominatim = (\<lambda>n a. GeocoderResults [\<lparr>lat = 42, lng = - 71\<rparr>])\<rparr>"
  let ?old = "\<lparr>loc_name = Val ''Boston'', loc_latitude = Val 42, loc_longitude = Val (- 71),
                loc_address = Val ''Boston'', loc_locationType = Val ''birth'',
                loc_timeSpan = Val ''1850'', loc_memberCount = Val 1,
                loc_id = ''a'', loc_createdAt = 0\<rparr>"
  let ?run1 = "startRun \<lparr>storage = newMemStorage\<lparr>locations := [(''a'', ?old)]\<rparr>, tick = 0\<rparr>"
  let ?member = "\<lparr>fm_name = Val ''Ann'', fm_birthDate = Val ''1900'', fm_deathDate = Null,
               fm_birthPlace = Val ''Boston'', fm_deathPlace = Null, fm_notes = Val [],
               fm_photos = Val [], fm_id = ''m'', fm_createdAt = 0\<rparr>"
  let ?sv = "\<lparr>storage = newMemStorage, tick = 0\<rparr>"
  let ?run = "startRun ?sv"
  have r: "\<forall>n a. nominatim ?w n a \<noteq> GeocoderError \<and> nominatim ?w n a \<noteq> GeocoderResults []"
    by simp
  have n1: "nominatim ?w (tick (server ?run1)) ''Boston''
              = GeocoderResults (\<lparr>lat = 42, lng = - 71\<rparr> # [])"
    by simp
  note i1 = main [THEN conjunct1, rule_format, OF n1,
      where bd = "Val ''1900''" and dd = Null and member = ?member and t = "''birth''"]
  have w1: "(let w = ?w; old = ?old;
        run = startRun \<lparr>storage = newMemStorage\<lparr>locations := [(''a'', old)]\<rparr>, tick = 0\<rparr>;
        member = ?member;
        location = \<lparr>loc_name = Val ''Boston'', loc_latitude = Val 42, loc_longitude = Val (- 71),
                loc_address = Val ''Boston'', loc_locationType = Val ''birth'',
                loc_timeSpan = Val ''1900'', loc_memberCount = Val 1,
                loc_id = ''uu'', loc_createdAt = 1\<rparr>
    in \<exists>event sv'.
         processPlace w (Val ''1900'') Null member run (''Boston'', ''birth'')
           = run\<lparr>server := sv', createdLocations := [location], createdEvents := [event]\<rparr>
       \<and> locations (storage sv') = [(''a'', old), (''uu'', location)]
       \<and> map_of (locations (storage sv')) ''uu'' = Some location
       \<and> map_of (locations (storage sv')) ''a'' = Some old)"
    using i1
    apply (simp only: Let_def)
    apply (elim exE conjE)
    apply (rule_tac x = event in exI)
    apply (rule_tac x = sv' in exI)
    apply (simp add: startRun_def newMemStorage_def)
    done
  let ?md = "\<lparr>md_name = ''Ann'', md_birthDate = Val ''1900'', md_deathDate = Val ''1950'',
               md_birthPlace = Val ''Boston'', md_deathPlace = Val ''Salem'', md_notes = [],
               md_photos = []\<rparr>"
  have h2: "(\<forall>n a. nominatim ?w n a \<noteq> GeocoderError \<and> nominatim ?w n a \<noteq> GeocoderResults [])
         \<and> md_name ?md \<noteq> []"
    by simp
  note i2 = main [THEN conjunct2, THEN conjunct2, THEN conjunct2, THEN conjunct1, rule_format,
      OF h2, of ?run]
  have w2: "(let w = ?w; run = ?run; md = ?md
    in map (\<lambda>l. (loc_name l, loc_locationType l, loc_timeSpan l, loc_memberCount l))
         (createdLocations (gedcomMember w run md))
       = [(Val ''Boston'', Val ''birth'', Val ''1900'', Val 1),
          (Val ''Salem'', Val ''death'', Val ''1950'', Val 1)])"
    using i2 by (simp add: Let_def startRun_def)
  let ?hs = "[''name'', ''birth_date'', ''birthplace'', ''deathplace'']"
  let ?line = "''Ann,1900,Boston,Salem''"
  have c1: "csvRow ?hs ?line ''name'' = Some ''Ann''" by code_simp
  have c2: "csvRow ?hs ?line ''birth_date'' = Some ''1900''" by code_simp
  have c3: "csvRow ?hs ?line ''birth_place'' = None" by code_simp
  have c4: "csvRow ?hs ?line ''birthplace'' = Some ''Boston''" by code_simp
  have c5: "csvRow ?hs ?line ''death_place'' = None" by code_simp
  have c6: "csvRow ?hs ?line ''deathplace'' = Some ''Salem''" by code_simp
  have c7: "csvRow ?hs ?line ''death_date'' = None" by code_simp
  have c8: "csvRow ?hs ?line ''deathdate'' = None" by code_simp
  have h3: "(\<forall>n a. nominatim ?w n a \<noteq> GeocoderError \<and> nominatim ?w n a \<noteq> GeocoderResults [])
         \<and> csvRow ?hs ?line ''name'' = Some ''Ann'' \<and> ''Ann'' \<noteq> []"
    using c1 by simp
  note i3 = main [THEN conjunct2, THEN conjunct2, THEN conjunct2, THEN conjunct2, THEN conjunct1,
      rule_format, OF h3, of ?run]
  have w3: "(let w = ?w; run = ?run
    in map (\<lambda>l. (loc_name l, loc_locationType l, loc_timeSpan l, loc_memberCount l))
         (createdLocations (csvUploadRow w ?hs run ?line))
       = [(Val ''Boston'', Val ''birth'', Val ''1900'', Val 1),
          (Val ''Salem'', Val ''death'', Undefined, Val 1)])"
    using i3 by (simp add: Let_def startRun_def c1 c2 c3 c4 c5 c6 c7 c8)
  let ?t = "''0 @I1@ INDI'' @ [CHR 0x0A] @ ''1 NAME Ann'' @ [CHR 0x0A]
          @ ''2 DATE 1900'' @ [CHR 0x0A] @ ''2 PLAC Boston'' @ [CHR 0x0A]
          @ ''0 @I2@ INDI'' @ [CHR 0x0A] @ ''1 NAME Bob'' @ [CHR 0x0A]
          @ ''2 DATE 1905'' @ [CHR 0x0A] @ ''2 PLAC Boston''"
  have v4: "map (\<lambda>l. (loc_id l, loc_name l, loc_locationType l, loc_timeSpan l, loc_memberCount l))
         (createdLocations (uploadGedcom ?w ?sv ?t))
         = [(''uuu'', Val ''Boston'', Val ''birth'', Val ''1900'', Val 1),
            (''uuuuuuu'', Val ''Boston'', Val ''birth'', Val ''1905'', Val 1)]"
    by code_simp
  have s4: "map (\<lambda>(k, l). (k, loc_name l, loc_memberCount l))
         (locations (storage (server (uploadGedcom ?w ?sv ?t))))
         = [(''uuu'', Val ''Boston'', Val 1), (''uuuuuuu'', Val ''Boston'', Val 1)]"
    by code_simp
  have "\<forall>l \<in> set (createdLocations (uploadGedcom ?w ?sv ?t)).
         loc_memberCount l = Val 1
         \<and> (loc_locationType l = Val ''birth'' \<or> loc_locationType l = Val ''death'')"
    using main [THEN conjunct2, THEN conjunct2, THEN conjunct2, THEN conjunct2, THEN conjunct2,
        THEN conjunct1, THEN spec, THEN spec, THEN spec, of ?w ?sv ?t]
    unfolding Let_def by (rule conjunct1)
  then have a4: "list_all (\<lambda>l. loc_memberCount l = Val 1)
      (createdLocations (uploadGedcom ?w ?sv ?t))"
    by (simp add: list_all_iff)
  have w4: "(let w = ?w; sv = ?sv; gedcomData = ?t; run = uploadGedcom w sv gedcomData
    in map (\<lambda>l. (loc_id l, loc_name l, loc_locationType l, loc_timeSpan l, loc_memberCount l))
         (createdLocations run)
         = [(''uuu'', Val ''Boston'', Val ''birth'', Val ''1900'', Val 1),
            (''uuuuuuu'', Val ''Boston'', Val ''birth'', Val ''1905'', Val 1)]
     \<and> map (\<lambda>(k, l). (k, loc_name l, loc_memberCount l)) (locations (storage (server run)))
         = [(''uuu'', Val ''Boston'', Val 1), (''uuuuuuu'', Val ''Boston'', Val 1)]
     \<and> list_all (\<lambda>l. loc_memberCount l = Val 1) (createdLocations run))"
    unfolding Let_def by (intro conjI v4 s4 a4)
  let ?c = "''name,birth_date,birthplace'' @ [CHR 0x0A] @ ''Ann,1900,Boston''
          @ [CHR 0x0A] @ ''Bob,1905,Boston''"
  have l5: "2 \<le> length (csvLines ?c)" by code_simp
  have v5: "(case uploadCsv ?w ?sv ?c of BadRequest m \<Rightarrow> False
             | Processed run \<Rightarrow>
                 map (\<lambda>l. (loc_id l, loc_name l, loc_locationType l, loc_timeSpan l,
                           loc_memberCount l)) (createdLocations run)
                   = [(''uuu'', Val ''Boston'', Val ''birth'', Val ''1900'', Val 1),
                      (''uuuuuuu'', Val ''Boston'', Val ''birth'', Val ''1905'', Val 1)]
                 \<and> map (\<lambda>(k, l). (k, loc_name l, loc_memberCount l))
                     (locations (storage (server run)))
                   = [(''uuu'', Val ''Boston'', Val 1), (''uuuuuuu'', Val ''Boston'', Val 1)])"
    by code_simp
  from main [THEN conjunct2, THEN conjunct2, THEN conjunct2, THEN conjunct2, THEN conjunct2,
        THEN conjunct2, rule_format, OF l5, of ?w ?sv]
  obtain run where u: "uploadCsv ?w ?sv ?c = Processed run"
    and b: "\<forall>l \<in> set (createdLocations run). loc_memberCount l = Val 1
                \<and> (loc_locationType l = Val ''birth'' \<or> loc_locationType l = Val ''death'')"
    by blast
  from b have a5: "list_all (\<lambda>l. loc_memberCount l = Val 1) (createdLocations run)"
    by (simp add: list_all_iff)
  have w5: "(let w = ?w; sv = ?sv; csvData = ?c
    in \<exists>run. uploadCsv w sv csvData = Processed run
         \<and> list_all (\<lambda>l. loc_memberCount l = Val 1) (createdLocations run)
         \<and> map (\<lambda>l. (loc_id l, loc_name l, loc_locationType l, loc_timeSpan l, loc_memberCount l))
              (createdLocations run)
            = [(''uuu'', Val ''Boston'', Val ''birth'', Val ''1900'', Val 1),
               (''uuuuuuu'', Val ''Boston'', Val ''birth'', Val ''1905'', Val 1)]
         \<and> map (\<lambda>(k, l). (k, loc_name l, loc_memberCount l)) (locations (storage (server run)))
            = [(''uuu'', Val ''Boston'', Val 1), (''uuuuuuu'', Val ''Boston'', Val 1)])"
    unfolding Let_def
    apply (rule exI [of _ run])
    using u a5 v5 apply simp
    done
  show ?thesis
    by (intro conjI w1 w2 w3 w4 w5)
qed

end
